(* ===== verification/Prelude.thy ===== *)
theory Prelude
  imports Main
begin

text \<open>
  Shared vocabulary of the development: the types that name times and row ids,
  the exceptions the Django code lets escape, the application settings of
  \<^verbatim>\<open>src/authentication/settings/apps_settings.py\<close> and
  \<^verbatim>\<open>base_settings.py\<close>, the ORM idioms the views use (\<^verbatim>\<open>.latest("created_at")\<close>,
  \<^verbatim>\<open>order_by("-created_at")[0]\<close>, \<^verbatim>\<open>len({...})\<close>), and character classes used by the
  validators. The generic lemmas are collected in \<open>row_simps\<close> so that the component
  proofs can use them with \<open>simp add: row_simps\<close>.
\<close>

named_theorems row_simps "lemmas on table rows, newest rows and distinct counts"

section \<open>Times, ids and exceptions\<close>

text \<open>
  \<^verbatim>\<open>get_local_time()\<close> returns an aware datetime; only differences of times are ever
  compared with \<^verbatim>\<open>timedelta\<close> settings, so a time is a number of seconds, an \<open>int\<close>
  because Python's datetime difference may be negative. Row ids are \<^verbatim>\<open>uuid4()\<close>
  values; the model draws them from a counter, which keeps them pairwise distinct
  as uuid4 is assumed to.
\<close>

type_synonym time = int
type_synonym uuid = nat

text \<open>The exceptions a request or a task can end with (uncaught by the view).\<close>

datatype exn =
    Http404                 \<comment> \<open>\<^verbatim>\<open>get_object()\<close> on an unknown id\<close>
  | DoesNotExist            \<comment> \<open>\<^verbatim>\<open>.get()\<close> or \<^verbatim>\<open>.latest()\<close> on an empty query set\<close>
  | IndexError              \<comment> \<open>\<^verbatim>\<open>qs[0]\<close> on an empty query set\<close>
  | KeyError                \<comment> \<open>\<^verbatim>\<open>validated_data["..."]\<close> for a field not supplied\<close>
  | IntegrityError          \<comment> \<open>a NOT NULL or UNIQUE constraint of the database\<close>
  | ValidationError "string list"  \<comment> \<open>serializer or validator errors (HTTP 400)\<close>
  | TokenError              \<comment> \<open>simplejwt: token invalid, expired or blacklisted\<close>
  | NotAuthenticated        \<comment> \<open>\<^verbatim>\<open>IsAuthenticated\<close> refused the request (HTTP 401)\<close>
  | AttributeError          \<comment> \<open>an attribute read on \<^verbatim>\<open>None\<close>\<close>
  | NotFound                \<comment> \<open>DRF \<^verbatim>\<open>NotFound\<close>: a page number out of range (HTTP 404)\<close>

section \<open>Settings\<close>

record settings =
  email_verification_expire_time :: time
  email_verification_change_limit :: nat
  email_verification_resend_time_limit :: time
  otp_expire_time :: time
  recaptcha_enabled :: bool

text \<open>The values of \<^verbatim>\<open>AUTHENTICATION_CUSTOMER\<close> (timedeltas in seconds).\<close>

definition authentication_customer :: settings where
  "authentication_customer =
     \<lparr>email_verification_expire_time = 100,
      email_verification_change_limit = 3,
      email_verification_resend_time_limit = 100,
      otp_expire_time = 100,
      recaptcha_enabled = False\<rparr>"

text \<open>\<^verbatim>\<open>SIMPLE_JWT\<close>: access tokens live two hours, refresh tokens one day.\<close>

definition access_token_lifetime :: time where
  "access_token_lifetime = 2 * 60 * 60"

definition refresh_token_lifetime :: time where
  "refresh_token_lifetime = 24 * 60 * 60"

section \<open>Newest row of a query set\<close>

text \<open>
  Tables are lists of rows in insertion order. \<^verbatim>\<open>qs.latest("created_at")\<close> and
  \<^verbatim>\<open>qs.order_by("-created_at")[0]\<close> return a row of greatest \<^verbatim>\<open>created_at\<close>; the source
  leaves ties to the database. The model breaks a tie in favour of the row inserted
  last, the deterministic choice the design notes ask for.
\<close>

fun newest :: "('a \<Rightarrow> time) \<Rightarrow> 'a list \<Rightarrow> 'a option" where
  "newest f [] = None"
| "newest f (x # xs) =
     (case newest f xs of
        None \<Rightarrow> Some x
      | Some y \<Rightarrow> if f y < f x then Some x else Some y)"

text \<open>
  The reference reading of \<^verbatim>\<open>.latest("created_at")\<close> with that tie-break: the last
  row, in insertion order, among those whose time is the greatest.
\<close>

definition latest_ref :: "('a \<Rightarrow> time) \<Rightarrow> 'a list \<Rightarrow> 'a option" where
  "latest_ref f xs =
     (if xs = [] then None else Some (last (filter (\<lambda>x. f x = Max (f ` set xs)) xs)))"

lemma newest_None_iff [row_simps]: "newest f xs = None \<longleftrightarrow> xs = []"
  by (induction xs) (auto split: option.splits)

lemma newest_in_set [row_simps]: "newest f xs = Some y \<Longrightarrow> y \<in> set xs"
  by (induction xs arbitrary: y) (auto split: option.splits if_splits)

lemma newest_max: "newest f xs = Some y \<Longrightarrow> x \<in> set xs \<Longrightarrow> f x \<le> f y"
proof (induction xs arbitrary: y)
  case Nil
  then show ?case by simp
next
  case (Cons z zs)
  show ?case
  proof (cases "newest f zs")
    case None
    with Cons.prems show ?thesis by (simp add: newest_None_iff)
  next
    case (Some w)
    show ?thesis
    proof (cases "x = z")
      case True
      with Cons.prems(1) Some show ?thesis by (auto split: if_splits)
    next
      case False
      with Cons.prems(2) have "x \<in> set zs" by simp
      with Cons.IH Some have "f x \<le> f w" by blast
      with Cons.prems(1) Some show ?thesis by (auto split: if_splits)
    qed
  qed
qed

text \<open>A row inserted with a time no earlier than every other row is the newest.\<close>

lemma newest_snoc [row_simps]:
  "\<forall>y\<in>set xs. f y \<le> f x \<Longrightarrow> newest f (xs @ [x]) = Some x"
  by (induction xs) (auto split: option.splits)

lemma newest_filter_Some:
  "newest f (filter P xs) = Some y \<Longrightarrow> y \<in> set xs \<and> P y"
  using newest_in_set by fastforce

lemma newest_latest_ref: "newest f xs = latest_ref f xs"
proof (induction xs)
  case Nil
  then show ?case by (simp add: latest_ref_def)
next
  case (Cons x xs)
  show ?case
  proof (cases "xs = []")
    case True
    then show ?thesis by (simp add: latest_ref_def)
  next
    case False
    let ?M = "Max (f ` set xs)"
    have y: "newest f xs = Some (last (filter (\<lambda>z. f z = ?M) xs))"
      using Cons.IH False by (simp add: latest_ref_def)
    have mx: "Max (insert (f x) (f ` set xs)) = max (f x) ?M"
      using False by (simp add: Max_insert)
    have ne: "filter (\<lambda>z. f z = ?M) xs \<noteq> []"
    proof -
      have "?M \<in> f ` set xs" using False by (intro Max_in) simp_all
      then show ?thesis by (auto simp: filter_empty_conv)
    qed
    have le: "f z \<le> ?M" if "z \<in> set xs" for z using that by simp
    then have last_max: "f (last (filter (\<lambda>z. f z = ?M) xs)) = ?M"
      using ne last_in_set by (metis (mono_tags, lifting) mem_Collect_eq set_filter)
    show ?thesis
    proof (cases "?M < f x")
      case True
      have "filter (\<lambda>z. f z = f x) xs = []"
      proof (rule filter_False, intro ballI)
        fix z assume "z \<in> set xs"
        then have "f z \<le> ?M" by (rule le)
        with True show "\<not> f z = f x" by simp
      qed
      with True y last_max show ?thesis by (simp add: latest_ref_def mx)
    next
      case False
      with y last_max ne show ?thesis by (simp add: latest_ref_def mx max_def)
    qed
  qed
qed

section \<open>Rows updated by key\<close>

text \<open>\<^verbatim>\<open>obj.save()\<close> on a table keyed by \<open>k\<close>: the row with the key of \<open>x\<close> becomes \<open>x\<close>.\<close>

lemma find_update_same [row_simps]:
  "find (\<lambda>c. k c = k x) (map (\<lambda>c. if k c = k x then x else c) xs) =
     (if \<exists>c\<in>set xs. k c = k x then Some x else None)"
  by (induction xs) auto

lemma find_update_key:
  "k x = i \<Longrightarrow> find (\<lambda>c. k c = i) (map (\<lambda>c. if k c = i then x else c) xs) =
     (if \<exists>c\<in>set xs. k c = i then Some x else None)"
  by (induction xs) auto

lemma find_update_other [row_simps]:
  "i \<noteq> k x \<Longrightarrow>
   find (\<lambda>c. k c = i) (map (\<lambda>c. if k c = k x then x else c) xs) = find (\<lambda>c. k c = i) xs"
  by (induction xs) auto

lemma update_key_mem:
  "y \<in> set xs \<Longrightarrow> k y = k x \<Longrightarrow> x \<in> set (map (\<lambda>c. if k c = k x then x else c) xs)"
  by (induction xs) auto

lemma set_update_key:
  "y \<in> set (map (\<lambda>c. if k c = k x then x else c) xs) \<Longrightarrow> y = x \<or> y \<in> set xs"
  by auto

lemma find_key_distinct:
  "distinct (map k xs) \<Longrightarrow> x \<in> set xs \<Longrightarrow> find (\<lambda>y. k y = k x) xs = Some x"
  by (induction xs) (auto simp: rev_image_eqI)

section \<open>Characters\<close>

text \<open>
  The validators use Python's \<^verbatim>\<open>\<backslash>d\<close> and \<^verbatim>\<open>[a-zA-Z]\<close> and \<^verbatim>\<open>int()\<close> of a digit.
  Strings are byte lists here, so \<^verbatim>\<open>\<backslash>d\<close> is read as the ASCII digits (Python also
  accepts other Unicode decimal digits; see the header).
\<close>

definition is_digit :: "char \<Rightarrow> bool" where
  "is_digit c \<longleftrightarrow> 48 \<le> (of_char c :: nat) \<and> (of_char c :: nat) \<le> 57"

definition is_latin :: "char \<Rightarrow> bool" where
  "is_latin c \<longleftrightarrow> (65 \<le> (of_char c :: nat) \<and> (of_char c :: nat) \<le> 90)
                 \<or> (97 \<le> (of_char c :: nat) \<and> (of_char c :: nat) \<le> 122)"

text \<open>\<^verbatim>\<open>int(c)\<close> for a digit character.\<close>

definition digit_val :: "char \<Rightarrow> nat" where
  "digit_val c = of_char c - 48"

lemma digit_val_lt_10 [row_simps]: "is_digit c \<Longrightarrow> digit_val c < 10"
  unfolding is_digit_def digit_val_def by linarith

text \<open>The digit character of a value below ten, inverse of \<open>digit_val\<close>.\<close>

definition digit_char :: "nat \<Rightarrow> char" where
  "digit_char n = char_of (48 + n)"

lemma digit_char_is_digit [row_simps]: "n < 10 \<Longrightarrow> is_digit (digit_char n)"
  by (simp add: is_digit_def digit_char_def of_char_of)

lemma digit_val_digit_char [row_simps]: "n < 10 \<Longrightarrow> digit_val (digit_char n) = n"
  by (simp add: digit_val_def digit_char_def of_char_of)

lemma digit_char_digit_val [row_simps]: "is_digit c \<Longrightarrow> digit_char (digit_val c) = c"
  by (simp add: is_digit_def digit_val_def digit_char_def)

lemma digit_val_inj:
  "is_digit c \<Longrightarrow> is_digit d \<Longrightarrow> digit_val c = digit_val d \<Longrightarrow> c = d"
  by (metis digit_char_digit_val)

end
