(* ===== verification/NationalCode.thy ===== *)
theory NationalCode
  imports Prelude
begin

text \<open>
  The national-code validator of \<^verbatim>\<open>src/authentication/apps/customer/validators.py\<close>,
  used by the \<^verbatim>\<open>People\<close> and \<^verbatim>\<open>Company\<close> models and by the signup and profile
  serializers. It holds the validator as written (the regular expression with Python's
  reading of \<^verbatim>\<open>$\<close>, the weighted sum, the two-way check), the check digit the spec
  describes, and what the check digit does and does not detect.
\<close>

section \<open>The validator\<close>

text \<open>
  \<^verbatim>\<open>re.search(r"^\<backslash>d{10}$", value)\<close>: ten digits; Python's \<^verbatim>\<open>$\<close> also matches right
  before a final newline, so ten digits and a newline pass as well.
\<close>

definition national_code_format :: "string \<Rightarrow> bool" where
  "national_code_format v \<longleftrightarrow>
     (length v = 10 \<and> list_all is_digit v)
   \<or> (length v = 11 \<and> list_all is_digit (take 10 v) \<and> v ! 10 = CHR 0x0A)"

text \<open>\<^verbatim>\<open>sum(int(value[x]) * (10 - x) for x in range(9))\<close>.\<close>

definition weighted_sum :: "string \<Rightarrow> nat" where
  "weighted_sum v = sum_list (map (\<lambda>x. digit_val (v ! x) * (10 - x)) [0..<9])"

definition validate_national_code :: "string \<Rightarrow> exn + unit" where
  "validate_national_code value =
     (if \<not> national_code_format value
      then Inl (ValidationError [''Enter a valid national code''])
      else
        (let check = digit_val (value ! 9);
             s = weighted_sum value mod 11;
             result = (if s < 2 then check = s else check + s = 11)
         in if result then Inr () else Inl (ValidationError [''Enter a valid national code''])))"

text \<open>The check digit of the spec: the remainder below two, else eleven minus it.\<close>

definition check_digit :: "nat \<Rightarrow> nat" where
  "check_digit r = (if r < 2 then r else 11 - r)"

section \<open>Lemmas on the weighted sum and the check digit\<close>

lemma weighted_sum_sum: "weighted_sum v = (\<Sum>x<9. digit_val (v ! x) * (10 - x))"
  by (simp add: weighted_sum_def interv_sum_list_conv_sum_set_nat lessThan_atLeast0)

lemma weighted_sum_cong:
  "\<forall>x<9. v ! x = w ! x \<Longrightarrow> weighted_sum v = weighted_sum w"
  by (simp add: weighted_sum_sum)

lemma weighted_sum_append:
  "length p = 9 \<Longrightarrow> weighted_sum (p @ cs) = weighted_sum p"
  by (rule weighted_sum_cong) (simp add: nth_append)

lemma check_digit_le_9: "r < 11 \<Longrightarrow> check_digit r \<le> 9"
  by (auto simp: check_digit_def)

text \<open>The check digit identifies the remainder, except that 1 and 10 share theirs.\<close>

lemma check_digit_collision:
  assumes "r < 11" "q < 11" "r \<noteq> q" "check_digit r = check_digit q"
  shows "{r, q} = {1, 10}"
  using assms by (auto simp: check_digit_def split: if_splits)

lemma validate_national_code_iff:
  "validate_national_code v = Inr () \<longleftrightarrow>
     national_code_format v \<and> digit_val (v ! 9) = check_digit (weighted_sum v mod 11)"
proof -
  have "weighted_sum v mod 11 < 11" by simp
  then show ?thesis
    by (auto simp: validate_national_code_def check_digit_def Let_def)
qed

lemma format_10: "length v = 10 \<Longrightarrow> national_code_format v \<longleftrightarrow> list_all is_digit v"
  by (simp add: national_code_format_def)

lemma format_nth_digit:
  "national_code_format v \<Longrightarrow> i < 10 \<Longrightarrow> is_digit (v ! i)"
  by (auto simp: national_code_format_def list_all_length)

text \<open>Changing one of the first nine digits changes the remainder: the weights 2..10 and
  the differences 1..9 are units modulo the prime 11.\<close>

lemma weighted_sum_update:
  assumes "i < 9" "length v = 10"
  shows "int (weighted_sum (v[i := c])) + int (digit_val (v ! i)) * int (10 - i)
       = int (weighted_sum v) + int (digit_val c) * int (10 - i)"
proof -
  let ?g = "\<lambda>w x. digit_val (w ! x) * (10 - x)"
  have fin: "finite {..<9::nat}" by simp
  have "weighted_sum (v[i := c]) = ?g (v[i := c]) i + (\<Sum>x\<in>{..<9} - {i}. ?g (v[i := c]) x)"
    using assms by (simp add: weighted_sum_sum sum.remove [OF fin, of i])
  moreover have "weighted_sum v = ?g v i + (\<Sum>x\<in>{..<9} - {i}. ?g v x)"
    using assms by (simp add: weighted_sum_sum sum.remove [OF fin, of i])
  moreover have "(\<Sum>x\<in>{..<9} - {i}. ?g (v[i := c]) x) = (\<Sum>x\<in>{..<9} - {i}. ?g v x)"
    by (rule sum.cong) auto
  ultimately show ?thesis using assms by simp
qed

lemma mod_11_unit:
  fixes d w :: int
  assumes "0 < \<bar>d\<bar>" "\<bar>d\<bar> < 10" "2 \<le> w" "w \<le> 10"
  shows "\<not> (11 dvd d * w)"
proof
  assume dvd: "11 dvd d * w"
  have d: "-9 \<le> d" "d \<le> 9" "d \<noteq> 0" using assms(1,2) by auto
  from assms(3,4) have "w = 2 \<or> w = 3 \<or> w = 4 \<or> w = 5 \<or> w = 6 \<or> w = 7 \<or> w = 8 \<or> w = 9 \<or> w = 10"
    by auto
  then show False using dvd d by (elim disjE; simp only: mult.commute[of d]; presburger)
qed

lemma nth_update_9: "i < 9 \<Longrightarrow> v[i := c] ! 9 = v ! 9"
  by simp

lemma weighted_sum_update_9: "length v = 10 \<Longrightarrow> weighted_sum (v[9 := c]) = weighted_sum v"
  by (rule weighted_sum_cong) simp

section \<open>What the check digit guarantees\<close>

text \<open>C1: every nine-digit prefix has exactly one valid tenth digit, the spec's check digit.\<close>

theorem national_code_completion:
  assumes "length p = 9" "list_all is_digit p"
  shows "validate_national_code (p @ [c]) = Inr () \<longleftrightarrow>
           c = digit_char (check_digit (weighted_sum p mod 11))"
proof -
  let ?d = "check_digit (weighted_sum p mod 11)"
  have le: "?d < 10" using check_digit_le_9 [of "weighted_sum p mod 11"] by simp
  have "validate_national_code (p @ [c]) = Inr () \<longleftrightarrow> is_digit c \<and> digit_val c = ?d"
    using assms by (simp add: validate_national_code_iff format_10 weighted_sum_append nth_append)
  also have "\<dots> \<longleftrightarrow> c = digit_char ?d"
    using le by (metis digit_char_digit_val digit_char_is_digit digit_val_digit_char)
  finally show ?thesis .
qed

text \<open>Changing the check digit of a valid code always makes it invalid.\<close>

theorem national_code_check_digit_detects:
  assumes "validate_national_code v = Inr ()" "length v = 10" "c \<noteq> v ! 9"
  shows "validate_national_code (v[9 := c]) \<noteq> Inr ()"
proof
  assume v': "validate_national_code (v[9 := c]) = Inr ()"
  have "is_digit c"
    using format_nth_digit [of "v[9 := c]" 9] v' assms(2) by (simp add: validate_national_code_iff)
  moreover have "is_digit (v ! 9)"
    using format_nth_digit [of v 9] assms(1) by (simp add: validate_national_code_iff)
  moreover have "digit_val c = digit_val (v ! 9)"
    using v' assms(1,2) by (simp add: validate_national_code_iff weighted_sum_update_9)
  ultimately have "c = v ! 9" by (rule digit_val_inj)
  with assms(3) show False ..
qed

text \<open>Changing one of the first nine digits changes the remainder modulo 11.\<close>

lemma weighted_sum_update_mod:
  assumes "i < 9" "length v = 10" "is_digit c" "is_digit (v ! i)" "c \<noteq> v ! i"
  shows "weighted_sum (v[i := c]) mod 11 \<noteq> weighted_sum v mod 11"
proof
  assume eq: "weighted_sum (v[i := c]) mod 11 = weighted_sum v mod 11"
  let ?d = "int (digit_val c) - int (digit_val (v ! i))" and ?w = "int (10 - i)"
  have "int (weighted_sum (v[i := c])) mod 11 = int (weighted_sum v) mod 11"
    using eq by (metis of_nat_mod of_nat_numeral)
  then have "11 dvd int (weighted_sum (v[i := c])) - int (weighted_sum v)"
    by (simp add: mod_eq_dvd_iff)
  moreover have "int (weighted_sum (v[i := c])) - int (weighted_sum v) = ?d * ?w"
    using weighted_sum_update [OF assms(1,2), of c] by (simp add: algebra_simps)
  ultimately have "11 dvd ?d * ?w" by simp
  moreover have "digit_val c \<noteq> digit_val (v ! i)"
    using assms(3,4,5) digit_val_inj by blast
  then have "0 < \<bar>?d\<bar>" by simp
  moreover have "\<bar>?d\<bar> < 10"
    using digit_val_lt_10 [OF assms(3)] digit_val_lt_10 [OF assms(4)] by simp
  moreover have "2 \<le> ?w" "?w \<le> 10" using assms(1) by simp_all
  ultimately show False using mod_11_unit by blast
qed

text \<open>A single-digit change among the first nine digits of a valid code yields a valid
  code only when the remainder moves between 1 and 10, whose check digits coincide.\<close>

theorem national_code_single_digit_mutation:
  assumes "validate_national_code v = Inr ()" "length v = 10" "i < 9"
    and "is_digit c" "c \<noteq> v ! i"
    and "validate_national_code (v[i := c]) = Inr ()"
  shows "{weighted_sum v mod 11, weighted_sum (v[i := c]) mod 11} = {1, 10}"
proof (rule check_digit_collision)
  have "is_digit (v ! i)"
    using format_nth_digit [of v i] assms(1,3) by (simp add: validate_national_code_iff)
  then show "weighted_sum v mod 11 \<noteq> weighted_sum (v[i := c]) mod 11"
    using weighted_sum_update_mod [OF assms(3,2,4) _ assms(5)] by metis
  show "check_digit (weighted_sum v mod 11) = check_digit (weighted_sum (v[i := c]) mod 11)"
    using assms(1,3,6) by (simp add: validate_national_code_iff)
qed simp_all

text \<open>C2: single-digit errors: changing the check digit of a valid code always makes it
  invalid, and changing one of the first nine digits leaves it valid only when the
  remainder moves between 1 and 10, whose check digits coincide.\<close>

theorem national_code_single_digit_change:
  assumes "validate_national_code v = Inr ()" "length v = 10"
  shows "(\<forall>c. c \<noteq> v ! 9 \<longrightarrow> validate_national_code (v[9 := c]) \<noteq> Inr ())
    \<and> (\<forall>i c. i < 9 \<and> is_digit c \<and> c \<noteq> v ! i \<and> validate_national_code (v[i := c]) = Inr ()
          \<longrightarrow> {weighted_sum v mod 11, weighted_sum (v[i := c]) mod 11} = {1, 10})"
  using national_code_check_digit_detects [OF assms] national_code_single_digit_mutation [OF assms]
  by blast

text \<open>C3: Python's \<^verbatim>\<open>$\<close> lets a valid code followed by a newline pass the validator.\<close>

theorem national_code_trailing_newline:
  assumes "length v = 10"
  shows "validate_national_code (v @ [CHR 0x0A]) = validate_national_code v"
proof -
  have ws: "weighted_sum (v @ [CHR 0x0A]) = weighted_sum v"
    by (rule weighted_sum_cong) (simp add: nth_append assms)
  have fmt: "national_code_format (v @ [CHR 0x0A]) = national_code_format v"
    using assms by (simp add: national_code_format_def nth_append)
  show ?thesis
    using assms by (simp add: validate_national_code_def ws fmt nth_append)
qed

text \<open>C4: contrary to the spec's claim that every single-digit mutation of a valid code
  fails, some valid code stays valid after one of its digits is changed.\<close>

theorem national_code_mutation_undetected:
  "\<exists>v i c. validate_national_code v = Inr () \<and> length v = 10 \<and> i < 9 \<and> is_digit c
      \<and> c \<noteq> v ! i \<and> validate_national_code (v[i := c]) = Inr ()"
proof -
  have "validate_national_code ''0000000051'' = Inr ()
      \<and> validate_national_code (''0000000051''[8 := CHR ''6'']) = Inr ()"
    by code_simp
  moreover have "is_digit CHR ''6''" by (simp add: is_digit_def)
  ultimately show ?thesis by (intro exI [of _ "''0000000051''"] exI [of _ 8] exI [of _ "CHR ''6''"]) simp
qed

section \<open>Witnesses\<close>

lemma national_code_completion_witness:
  "length ''000000005'' = 9 \<and> list_all is_digit ''000000005''
     \<and> validate_national_code (''000000005'' @ [CHR ''1'']) = Inr ()"
proof -
  have h: "length ''000000005'' = 9" "list_all is_digit ''000000005''"
    by (simp_all add: is_digit_def)
  have "CHR ''1'' = digit_char (check_digit (weighted_sum ''000000005'' mod 11))"
    by code_simp
  then show ?thesis using national_code_completion [OF h, of "CHR ''1''"] h by simp
qed

lemma national_code_single_digit_change_witness:
  "validate_national_code ''0000000051'' = Inr () \<and> length ''0000000051'' = 10
     \<and> validate_national_code (''0000000051''[9 := CHR ''2'']) \<noteq> Inr ()
     \<and> validate_national_code (''0000000051''[8 := CHR ''6'']) = Inr ()
     \<and> {weighted_sum ''0000000051'' mod 11, weighted_sum (''0000000051''[8 := CHR ''6'']) mod 11}
        = {1, 10}"
proof -
  have h: "validate_national_code ''0000000051'' = Inr ()"
    "validate_national_code (''0000000051''[8 := CHR ''6'']) = Inr ()" by code_simp+
  have l: "length ''0000000051'' = 10" by simp
  have d: "is_digit CHR ''6''" by (simp add: is_digit_def)
  note t = national_code_single_digit_change [OF h(1) l]
  have a: "validate_national_code (''0000000051''[9 := CHR ''2'']) \<noteq> Inr ()"
    by (rule conjunct1 [OF t, rule_format]) simp
  have b: "{weighted_sum ''0000000051'' mod 11, weighted_sum (''0000000051''[8 := CHR ''6'']) mod 11} = {1, 10}"
    by (rule conjunct2 [OF t, rule_format]) (use h(2) d in simp)
  show ?thesis using h l a b by simp
qed

lemma national_code_trailing_newline_witness:
  "length ''0000000051'' = 10 \<and> validate_national_code (''0000000051'' @ [CHR 0x0A]) = Inr ()"
proof -
  have l: "length ''0000000051'' = 10" by simp
  have "validate_national_code ''0000000051'' = Inr ()" by code_simp
  then show ?thesis using national_code_trailing_newline [OF l] l by simp
qed

end
