(* ===== verification/ModelFields.thy ===== *)
theory ModelFields
  imports Prelude
begin

text \<open>
  Field-level behaviour of the customer models and serializers:
  the nullable unique fields of \<^verbatim>\<open>src/authentication/apps/customer/fields.py\<close>
  (an empty string is stored as NULL), the mobile-number regular expression shared by
  \<^verbatim>\<open>models.py\<close> and \<^verbatim>\<open>serializers.py\<close>, and the password validators of the
  \<^verbatim>\<open>Customer.password\<close> field and of \<^verbatim>\<open>ChangePasswordSerializer\<close>.
\<close>

section \<open>Nullable unique fields\<close>

text \<open>
  A Python value of such a field is \<^verbatim>\<open>None\<close> or a string. \<^verbatim>\<open>get_prep_value\<close> is
  \<^verbatim>\<open>value or None\<close>: what is written to the column. \<^verbatim>\<open>to_python\<close> is
  \<^verbatim>\<open>value or ""\<close> (the \<^verbatim>\<open>isinstance\<close> branch never applies to a string).
\<close>

definition get_prep_value :: "string option \<Rightarrow> string option" where
  "get_prep_value v = (case v of None \<Rightarrow> None | Some s \<Rightarrow> if s = [] then None else Some s)"

definition to_python :: "string option \<Rightarrow> string" where
  "to_python v = (case v of None \<Rightarrow> [] | Some s \<Rightarrow> s)"

section \<open>Mobile numbers\<close>

text \<open>
  \<^verbatim>\<open>^(?:0|98|\<backslash>+98|\<backslash>+980|0098|098|00980)?(9\<backslash>d{9})$\<close>, applied with \<^verbatim>\<open>re.search\<close>
  by \<^verbatim>\<open>RegexValidator\<close>: an optional prefix, then the ten-digit subscriber number
  starting with 9, then the end of the string or a final newline.
\<close>

definition mobile_prefixes :: "string list" where
  "mobile_prefixes = [''0'', ''98'', ''+98'', ''+980'', ''0098'', ''098'', ''00980'']"

definition subscriber_number :: "string \<Rightarrow> bool" where
  "subscriber_number b \<longleftrightarrow> length b = 10 \<and> b ! 0 = CHR ''9'' \<and> list_all is_digit b"

definition subscriber_at_end :: "string \<Rightarrow> bool" where
  "subscriber_at_end b \<longleftrightarrow>
     subscriber_number b \<or> (length b = 11 \<and> subscriber_number (take 10 b) \<and> b ! 10 = CHR 0x0A)"

definition mobile_regex :: "string \<Rightarrow> bool" where
  "mobile_regex s \<longleftrightarrow>
     list_ex (\<lambda>p. take (length p) s = p \<and> subscriber_at_end (drop (length p) s))
       ([] # mobile_prefixes)"

text \<open>
  The serializer's mobile field: \<^verbatim>\<open>max_length=15\<close> and the regex (the
  \<^verbatim>\<open>UniqueValidator\<close> is a query on the store, modelled with the store).
\<close>

definition mobile_field_errors :: "string \<Rightarrow> string list" where
  "mobile_field_errors s =
     (if 15 < length s then [''Enter a valid mobile''] else [])
     @ (if mobile_regex s then [] else [''Enter a valid mobile''])"

section \<open>Email addresses\<close>

text \<open>
  Django's \<^verbatim>\<open>EmailValidator\<close> (library code, modelled from its documented rule): a
  non-empty user part, an \<^verbatim>\<open>@\<close>, and a domain part holding a dot. The domain part is
  what follows the last \<^verbatim>\<open>@\<close>.
\<close>

definition email_domain :: "string \<Rightarrow> string" where
  "email_domain e = rev (takeWhile (\<lambda>c. c \<noteq> CHR ''@'') (rev e))"

definition email_user :: "string \<Rightarrow> string" where
  "email_user e = take (length e - length (email_domain e) - 1) e"

definition email_format :: "string \<Rightarrow> bool" where
  "email_format e \<longleftrightarrow> CHR ''@'' \<in> set e \<and> email_user e \<noteq> [] \<and> email_domain e \<noteq> []
                    \<and> CHR ''.'' \<in> set (email_domain e)"

text \<open>The serializers' email field: \<^verbatim>\<open>max_length=75\<close> and the format.\<close>

definition email_field_errors :: "string \<Rightarrow> string list" where
  "email_field_errors e =
     (if 75 < length e then [''Enter a valid email address''] else [])
     @ (if email_format e then [] else [''Enter a valid email address''])"

section \<open>Passwords\<close>

text \<open>
  \<^verbatim>\<open>Customer.password\<close>: \<^verbatim>\<open>max_length=128\<close>, a digit, a latin letter and
  \<^verbatim>\<open>MinLengthValidator(8)\<close>. Django runs every validator and reports all messages.
\<close>

definition password_errors :: "string \<Rightarrow> string list" where
  "password_errors p =
     (if 128 < length p then [''Ensure this field has no more than 128 characters.''] else [])
     @ (if list_ex is_digit p then [] else [''Ensure Password has at least one digit''])
     @ (if list_ex is_latin p then [] else [''Ensure Password has at least one latin letter''])
     @ (if 8 \<le> length p then [] else [''Ensure this value has at least 8 characters''])"

text \<open>\<^verbatim>\<open>ChangePasswordSerializer.new_password\<close>: \<^verbatim>\<open>min_length=8\<close>, a digit, a latin letter.\<close>

definition new_password_errors :: "string \<Rightarrow> string list" where
  "new_password_errors p =
     (if 8 \<le> length p then [] else [''Ensure this field has at least 8 characters.''])
     @ (if list_ex is_digit p then [] else [''Ensure this field has at least one digit.''])
     @ (if list_ex is_latin p then [] else [''Ensure this field has at least one latin letter.''])"

text \<open>The password policy the spec states: at least 8 characters, a digit and a letter.\<close>

definition password_policy :: "string \<Rightarrow> bool" where
  "password_policy p \<longleftrightarrow> 8 \<le> length p \<and> (\<exists>c\<in>set p. is_digit c) \<and> (\<exists>c\<in>set p. is_latin c)"

section \<open>Lemmas\<close>

lemma get_prep_value_to_python: "get_prep_value (Some (to_python v)) = get_prep_value v"
  by (simp add: get_prep_value_def to_python_def split: option.splits)

lemma to_python_get_prep_value: "to_python (get_prep_value v) = to_python v"
  by (simp add: get_prep_value_def to_python_def split: option.splits)

lemma get_prep_value_nonempty [simp]: "s \<noteq> [] \<Longrightarrow> get_prep_value (Some s) = Some s"
  by (simp add: get_prep_value_def)

lemma get_prep_value_empty [simp]: "get_prep_value (Some []) = None" "get_prep_value None = None"
  by (simp_all add: get_prep_value_def)

lemma get_prep_value_not_empty: "get_prep_value v \<noteq> Some []"
  by (simp add: get_prep_value_def split: option.splits)

lemma password_errors_Nil_iff:
  "password_errors p = [] \<longleftrightarrow> password_policy p \<and> length p \<le> 128"
  by (auto simp: password_errors_def password_policy_def list_ex_iff)

lemma new_password_errors_Nil_iff:
  "new_password_errors p = [] \<longleftrightarrow> password_policy p"
  by (auto simp: new_password_errors_def password_policy_def list_ex_iff)

end
