(* ===== verification/Store.thy ===== *)
theory Store
  imports ModelFields
begin

text \<open>
  The identity store: the Django models of \<^verbatim>\<open>src/authentication/apps/customer/models.py\<close>
  (with the \<^verbatim>\<open>EntityMixin\<close> id and \<^verbatim>\<open>created_at\<close> of \<^verbatim>\<open>src/authentication/models.py\<close>)
  as records, each table as the list of its rows in insertion order, and the ORM
  operations the views and tasks use: lookup by id, the reverse one-to-one
  \<^verbatim>\<open>contact.customer\<close>, the per-customer query sets, \<^verbatim>\<open>.latest("created_at")\<close>,
  \<^verbatim>\<open>save()\<close> with the UNIQUE constraints of \<^verbatim>\<open>Contact.email\<close> and \<^verbatim>\<open>Contact.mobile\<close>,
  and \<^verbatim>\<open>create()\<close> with a fresh uuid. Column values are what the database holds: a
  nullable unique field holds \<open>None\<close> for NULL and never the empty string.
\<close>

section \<open>Password hashes\<close>

text \<open>
  \<^verbatim>\<open>AbstractBaseUser.set_password\<close> stores a salted hash, and \<^verbatim>\<open>set_password(None)\<close>
  an unusable one; \<^verbatim>\<open>check_password\<close> compares. The model keeps the hash abstract as an
  injective tag on the raw password.
\<close>

datatype pw_hash = Hashed string | Unusable

definition make_password :: "string option \<Rightarrow> pw_hash" where
  "make_password p = (case p of None \<Rightarrow> Unusable | Some r \<Rightarrow> Hashed r)"

definition check_password :: "pw_hash \<Rightarrow> string \<Rightarrow> bool" where
  "check_password h r \<longleftrightarrow> h = Hashed r"

section \<open>Rows\<close>

record contact =
  contact_id :: uuid
  contact_owner :: "uuid option"
  email :: "string option"
  mobile :: "string option"

record customer =
  customer_id :: uuid
  username :: uuid
  password :: pw_hash
  customer_owner :: "uuid option"
  is_active :: bool
  email_verify :: "time option"
  mobile_verify :: "time option"
  total_credit :: int

record people =
  people_id :: uuid
  name :: string
  last_name :: string
  national_code :: string

record email_temp =
  et_id :: uuid
  et_customer :: uuid
  et_email :: string
  et_created_at :: time

record otp_temp =
  ot_id :: uuid
  ot_customer :: uuid
  ot_code :: int
  ot_created_at :: time

record email_change =
  ec_id :: uuid
  ec_customer :: uuid
  old_email :: "string option"
  new_email :: "string option"
  ec_created_at :: time

record phone_change =
  pc_id :: uuid
  pc_customer :: uuid
  old_mobile :: "string option"
  new_mobile :: "string option"
  pc_created_at :: time

record store =
  contacts :: "contact list"
  customers :: "customer list"
  peoples :: "people list"
  email_temps :: "email_temp list"
  otp_temps :: "otp_temp list"
  email_changes :: "email_change list"
  phone_changes :: "phone_change list"
  next_id :: uuid

definition empty_store :: store where
  "empty_store = \<lparr>contacts = [], customers = [], peoples = [], email_temps = [], otp_temps = [],
     email_changes = [], phone_changes = [], next_id = 0\<rparr>"

text \<open>\<^verbatim>\<open>uuid.uuid4\<close>: a fresh id.\<close>

definition fresh_id :: "store \<Rightarrow> uuid \<times> store" where
  "fresh_id s = (next_id s, s\<lparr>next_id := Suc (next_id s)\<rparr>)"

text \<open>Python truthiness of a nullable string column: neither NULL nor empty.\<close>

definition truthy :: "string option \<Rightarrow> bool" where
  "truthy v \<longleftrightarrow> (case v of None \<Rightarrow> False | Some x \<Rightarrow> x \<noteq> [])"

section \<open>Queries\<close>

definition get_customer :: "store \<Rightarrow> uuid \<Rightarrow> customer option" where
  "get_customer s i = find (\<lambda>c. customer_id c = i) (customers s)"

definition get_contact :: "store \<Rightarrow> uuid \<Rightarrow> contact option" where
  "get_contact s i = find (\<lambda>c. contact_id c = i) (contacts s)"

text \<open>\<^verbatim>\<open>contact.customer\<close>, the reverse side of \<^verbatim>\<open>Customer.username\<close>.\<close>

definition contact_customer :: "store \<Rightarrow> uuid \<Rightarrow> customer option" where
  "contact_customer s i = find (\<lambda>c. username c = i) (customers s)"

definition customer_email_temps :: "store \<Rightarrow> uuid \<Rightarrow> email_temp list" where
  "customer_email_temps s i = filter (\<lambda>t. et_customer t = i) (email_temps s)"

definition customer_otp_temps :: "store \<Rightarrow> uuid \<Rightarrow> otp_temp list" where
  "customer_otp_temps s i = filter (\<lambda>t. ot_customer t = i) (otp_temps s)"

definition latest_email_change :: "store \<Rightarrow> uuid \<Rightarrow> email_change option" where
  "latest_email_change s i = newest ec_created_at (filter (\<lambda>e. ec_customer e = i) (email_changes s))"

definition latest_phone_change :: "store \<Rightarrow> uuid \<Rightarrow> phone_change option" where
  "latest_phone_change s i = newest pc_created_at (filter (\<lambda>e. pc_customer e = i) (phone_changes s))"

text \<open>The \<^verbatim>\<open>UniqueValidator\<close> queries of the serializers.\<close>

definition email_taken :: "store \<Rightarrow> string \<Rightarrow> bool" where
  "email_taken s e \<longleftrightarrow> list_ex (\<lambda>c. email c = Some e) (contacts s)"

definition mobile_taken :: "store \<Rightarrow> string \<Rightarrow> bool" where
  "mobile_taken s m \<longleftrightarrow> list_ex (\<lambda>c. mobile c = Some m) (contacts s)"

definition national_code_taken :: "store \<Rightarrow> string \<Rightarrow> bool" where
  "national_code_taken s n \<longleftrightarrow> list_ex (\<lambda>p. national_code p = n) (peoples s)"

section \<open>Writes\<close>

text \<open>\<^verbatim>\<open>customer.save()\<close> writes the whole row.\<close>

definition save_customer :: "customer \<Rightarrow> store \<Rightarrow> store" where
  "save_customer cu s =
     s\<lparr>customers := map (\<lambda>c. if customer_id c = customer_id cu then cu else c) (customers s)\<rparr>"

text \<open>
  \<^verbatim>\<open>contact.save()\<close>: the fields go through \<^verbatim>\<open>get_prep_value\<close>, and the database
  refuses a row whose email or mobile another contact already holds.
\<close>

definition contact_clash :: "contact list \<Rightarrow> contact \<Rightarrow> bool" where
  "contact_clash cs ct \<longleftrightarrow>
     list_ex (\<lambda>c. contact_id c \<noteq> contact_id ct \<and>
                  ((email ct \<noteq> None \<and> email c = email ct) \<or> (mobile ct \<noteq> None \<and> mobile c = mobile ct))) cs"

definition prep_contact :: "contact \<Rightarrow> contact" where
  "prep_contact ct = ct\<lparr>email := get_prep_value (email ct), mobile := get_prep_value (mobile ct)\<rparr>"

definition save_contact :: "contact \<Rightarrow> store \<Rightarrow> exn + store" where
  "save_contact ct s =
     (let ct' = prep_contact ct in
      if contact_clash (contacts s) ct' then Inl IntegrityError
      else Inr (s\<lparr>contacts := map (\<lambda>c. if contact_id c = contact_id ct' then ct' else c) (contacts s)\<rparr>))"

definition create_contact :: "contact \<Rightarrow> store \<Rightarrow> exn + store" where
  "create_contact ct s =
     (let ct' = prep_contact ct in
      if contact_clash (contacts s) ct' then Inl IntegrityError
      else Inr (s\<lparr>contacts := contacts s @ [ct']\<rparr>))"

definition save_email_change :: "email_change \<Rightarrow> store \<Rightarrow> store" where
  "save_email_change e s =
     s\<lparr>email_changes := map (\<lambda>x. if ec_id x = ec_id e then e else x) (email_changes s)\<rparr>"

definition save_phone_change :: "phone_change \<Rightarrow> store \<Rightarrow> store" where
  "save_phone_change e s =
     s\<lparr>phone_changes := map (\<lambda>x. if pc_id x = pc_id e then e else x) (phone_changes s)\<rparr>"

text \<open>\<^verbatim>\<open>customer.email_temp.all().delete()\<close> and \<^verbatim>\<open>customer.otp_temp.all().delete()\<close>.\<close>

definition delete_email_temps :: "uuid \<Rightarrow> store \<Rightarrow> store" where
  "delete_email_temps i s = s\<lparr>email_temps := filter (\<lambda>t. et_customer t \<noteq> i) (email_temps s)\<rparr>"

definition delete_otp_temps :: "uuid \<Rightarrow> store \<Rightarrow> store" where
  "delete_otp_temps i s = s\<lparr>otp_temps := filter (\<lambda>t. ot_customer t \<noteq> i) (otp_temps s)\<rparr>"

text \<open>\<^verbatim>\<open>EmailChange.objects.create\<close> and \<^verbatim>\<open>PhoneChange.objects.create\<close>.\<close>

definition create_email_change :: "uuid \<Rightarrow> string option \<Rightarrow> string option \<Rightarrow> time \<Rightarrow> store \<Rightarrow> store" where
  "create_email_change i old new now s =
     (let (k, s1) = fresh_id s in
      s1\<lparr>email_changes := email_changes s1 @
        [\<lparr>ec_id = k, ec_customer = i, old_email = get_prep_value old, new_email = get_prep_value new,
          ec_created_at = now\<rparr>]\<rparr>)"

definition create_phone_change :: "uuid \<Rightarrow> string option \<Rightarrow> string option \<Rightarrow> time \<Rightarrow> store \<Rightarrow> store" where
  "create_phone_change i old new now s =
     (let (k, s1) = fresh_id s in
      s1\<lparr>phone_changes := phone_changes s1 @
        [\<lparr>pc_id = k, pc_customer = i, old_mobile = get_prep_value old, new_mobile = get_prep_value new,
          pc_created_at = now\<rparr>]\<rparr>)"

section \<open>Well-formedness\<close>

text \<open>Every row id was drawn before the current counter: fresh ids never collide.\<close>

definition ids_below :: "store \<Rightarrow> bool" where
  "ids_below s \<longleftrightarrow>
     (\<forall>c\<in>set (contacts s). contact_id c < next_id s)
   \<and> (\<forall>c\<in>set (customers s). customer_id c < next_id s)
   \<and> (\<forall>p\<in>set (peoples s). people_id p < next_id s)
   \<and> (\<forall>t\<in>set (email_temps s). et_id t < next_id s)
   \<and> (\<forall>t\<in>set (otp_temps s). ot_id t < next_id s)
   \<and> (\<forall>e\<in>set (email_changes s). ec_id e < next_id s)
   \<and> (\<forall>e\<in>set (phone_changes s). pc_id e < next_id s)"

text \<open>
  The UNIQUE constraints of \<^verbatim>\<open>Contact\<close>: ids are distinct, and two contacts share
  an email or a mobile only when it is NULL.
\<close>

definition unique_contacts :: "store \<Rightarrow> bool" where
  "unique_contacts s \<longleftrightarrow>
     distinct (map contact_id (contacts s))
   \<and> (\<forall>c\<in>set (contacts s). \<forall>d\<in>set (contacts s). contact_id c \<noteq> contact_id d \<longrightarrow>
        (email c = email d \<longrightarrow> email c = None) \<and> (mobile c = mobile d \<longrightarrow> mobile c = None))"

text \<open>
  The column domain of the nullable unique fields: what \<^verbatim>\<open>get_prep_value\<close> lets
  through is NULL or a non-empty string, never \<^verbatim>\<open>""\<close>.
\<close>

definition columns_prepped :: "store \<Rightarrow> bool" where
  "columns_prepped s \<longleftrightarrow> list_all (\<lambda>c. email c \<noteq> Some [] \<and> mobile c \<noteq> Some []) (contacts s)"

section \<open>Lemmas\<close>

lemma find_append_fresh:
  "\<forall>y\<in>set xs. \<not> P y \<Longrightarrow> P x \<Longrightarrow> find P (xs @ [x]) = Some x"
  by (induction xs) auto

lemma get_customer_Some [row_simps]:
  "get_customer s i = Some c \<Longrightarrow> c \<in> set (customers s) \<and> customer_id c = i"
  by (auto simp: get_customer_def dest: find_Some_iff [THEN iffD1] simp: find_Some_iff)

lemma get_customer_save_same [row_simps]:
  "get_customer s (customer_id cu) \<noteq> None \<Longrightarrow>
   get_customer (save_customer cu s) (customer_id cu) = Some cu"
  by (auto simp: get_customer_def save_customer_def find_update_same find_None_iff)

lemma get_customer_save_other [row_simps]:
  "i \<noteq> customer_id cu \<Longrightarrow> get_customer (save_customer cu s) i = get_customer s i"
  by (simp add: get_customer_def save_customer_def find_update_other)

text \<open>Primary keys are unique in the database: the row a key names is the row.\<close>

lemma get_customer_distinct:
  "distinct (map customer_id (customers s)) \<Longrightarrow> cu \<in> set (customers s) \<Longrightarrow>
   get_customer s (customer_id cu) = Some cu"
  by (simp add: get_customer_def find_key_distinct)

text \<open>Frame: a successful contact save writes the contact table only.\<close>

lemma save_contact_Inr: "save_contact ct s = Inr s' \<Longrightarrow> s' = s\<lparr>contacts := contacts s'\<rparr>"
  by (auto simp: save_contact_def Let_def split: if_splits)

lemma latest_email_change_in:
  "latest_email_change s i = Some e \<Longrightarrow> e \<in> set (email_changes s) \<and> ec_customer e = i"
  unfolding latest_email_change_def using newest_filter_Some by fastforce

lemma latest_phone_change_in:
  "latest_phone_change s i = Some e \<Longrightarrow> e \<in> set (phone_changes s) \<and> pc_customer e = i"
  unfolding latest_phone_change_def using newest_filter_Some by fastforce

lemma latest_email_change_save:
  assumes "latest_email_change s i = Some e" "ec_id e' = ec_id e" "ec_customer e' = i"
  shows "latest_email_change (save_email_change e' s) i \<noteq> None"
proof -
  have "e' \<in> set (email_changes (save_email_change e' s))"
    using latest_email_change_in [OF assms(1)] assms(2)
    by (auto simp: save_email_change_def intro: update_key_mem)
  then show ?thesis using assms(3)
    by (auto simp: latest_email_change_def newest_None_iff filter_empty_conv)
qed

lemma latest_phone_change_save:
  assumes "latest_phone_change s i = Some e" "pc_id e' = pc_id e" "pc_customer e' = i"
  shows "latest_phone_change (save_phone_change e' s) i \<noteq> None"
proof -
  have "e' \<in> set (phone_changes (save_phone_change e' s))"
    using latest_phone_change_in [OF assms(1)] assms(2)
    by (auto simp: save_phone_change_def intro: update_key_mem)
  then show ?thesis using assms(3)
    by (auto simp: latest_phone_change_def newest_None_iff filter_empty_conv)
qed

lemma get_customer_Some_iff:
  "get_customer s i \<noteq> None \<longleftrightarrow> (\<exists>c\<in>set (customers s). customer_id c = i)"
  by (auto simp: get_customer_def find_None_iff)

lemma save_contact_get:
  assumes "get_contact s (contact_id ct) \<noteq> None" "save_contact ct s = Inr s'"
  shows "get_contact s' (contact_id ct) = Some (prep_contact ct)"
proof -
  have k: "contact_id (prep_contact ct) = contact_id ct" by (simp add: prep_contact_def)
  from assms(2) have s': "contacts s' =
      map (\<lambda>c. if contact_id c = contact_id ct then prep_contact ct else c) (contacts s)"
    by (auto simp: save_contact_def Let_def k split: if_splits)
  have "\<exists>c\<in>set (contacts s). contact_id c = contact_id ct"
    using assms(1) by (auto simp: get_contact_def find_None_iff)
  then show ?thesis unfolding get_contact_def s'
    using find_update_key [of contact_id "prep_contact ct" "contact_id ct", OF k] by simp
qed

lemma truthy_Some [simp]: "truthy (Some x) \<longleftrightarrow> x \<noteq> []" and truthy_None [simp]: "\<not> truthy None"
  by (simp_all add: truthy_def)

lemma unique_contacts_same:
  "unique_contacts s \<Longrightarrow> c \<in> set (contacts s) \<Longrightarrow> d \<in> set (contacts s) \<Longrightarrow>
   (email c = email d \<and> email c \<noteq> None) \<or> (mobile c = mobile d \<and> mobile c \<noteq> None) \<Longrightarrow> c = d"
  unfolding unique_contacts_def distinct_map by (metis inj_onD)

lemma find_unique_email:
  assumes "unique_contacts s" "ct \<in> set (contacts s)" "email ct = Some e"
  shows "find (\<lambda>c. email c = Some e) (contacts s) = Some ct"
proof -
  obtain c where c: "find (\<lambda>c. email c = Some e) (contacts s) = Some c"
    using assms(2,3) by (cases "find (\<lambda>c. email c = Some e) (contacts s)") (auto simp: find_None_iff)
  then have "c \<in> set (contacts s)" "email c = Some e" by (auto simp: find_Some_iff)
  with assms have "c = ct" using unique_contacts_same by fastforce
  with c show ?thesis by simp
qed

lemma find_unique_mobile:
  assumes "unique_contacts s" "ct \<in> set (contacts s)" "mobile ct = Some m"
  shows "find (\<lambda>c. mobile c = Some m) (contacts s) = Some ct"
proof -
  obtain c where c: "find (\<lambda>c. mobile c = Some m) (contacts s) = Some c"
    using assms(2,3) by (cases "find (\<lambda>c. mobile c = Some m) (contacts s)") (auto simp: find_None_iff)
  then have "c \<in> set (contacts s)" "mobile c = Some m" by (auto simp: find_Some_iff)
  with assms have "c = ct" using unique_contacts_same by fastforce
  with c show ?thesis by simp
qed

lemma save_contact_unique:
  assumes "unique_contacts s" "save_contact ct s = Inr s'"
  shows "unique_contacts s'"
proof -
  let ?ct = "prep_contact ct"
  have k: "contact_id ?ct = contact_id ct" by (simp add: prep_contact_def)
  from assms(2) have nc: "\<not> contact_clash (contacts s) ?ct"
    and s': "contacts s' = map (\<lambda>c. if contact_id c = contact_id ?ct then ?ct else c) (contacts s)"
    by (auto simp: save_contact_def Let_def split: if_splits)
  have "map contact_id (contacts s') = map contact_id (contacts s)"
    unfolding s' by (induction "contacts s") auto
  moreover have "\<forall>c\<in>set (contacts s'). \<forall>d\<in>set (contacts s'). contact_id c \<noteq> contact_id d \<longrightarrow>
        (email c = email d \<longrightarrow> email c = None) \<and> (mobile c = mobile d \<longrightarrow> mobile c = None)"
    using assms(1) nc unfolding s' unique_contacts_def contact_clash_def list_ex_iff
    by (auto simp: k)
  ultimately show ?thesis using assms(1) by (simp add: unique_contacts_def)
qed

lemma create_contact_unique:
  assumes "unique_contacts s" "create_contact ct s = Inr s'" "contact_id ct \<notin> contact_id ` set (contacts s)"
  shows "unique_contacts s'"
proof -
  let ?ct = "prep_contact ct"
  have k: "contact_id ?ct = contact_id ct" by (simp add: prep_contact_def)
  from assms(2) have nc: "\<not> contact_clash (contacts s) ?ct" and s': "contacts s' = contacts s @ [?ct]"
    by (auto simp: create_contact_def Let_def split: if_splits)
  show ?thesis
    using assms(1,3) nc unfolding s' unique_contacts_def contact_clash_def list_ex_iff
    by (auto simp: k)
qed

text \<open>Frames of the row writes.\<close>

lemma create_email_change_frame [simp]:
  "customers (create_email_change i old new now s) = customers s"
  "contacts (create_email_change i old new now s) = contacts s"
  "phone_changes (create_email_change i old new now s) = phone_changes s"
  "peoples (create_email_change i old new now s) = peoples s"
  "email_changes (create_email_change i old new now s) = email_changes s @
     [\<lparr>ec_id = next_id s, ec_customer = i, old_email = get_prep_value old, new_email = get_prep_value new,
       ec_created_at = now\<rparr>]"
  by (simp_all add: create_email_change_def fresh_id_def)

lemma create_phone_change_frame [simp]:
  "customers (create_phone_change i old new now s) = customers s"
  "contacts (create_phone_change i old new now s) = contacts s"
  "email_changes (create_phone_change i old new now s) = email_changes s"
  "peoples (create_phone_change i old new now s) = peoples s"
  "phone_changes (create_phone_change i old new now s) = phone_changes s @
     [\<lparr>pc_id = next_id s, pc_customer = i, old_mobile = get_prep_value old, new_mobile = get_prep_value new,
       pc_created_at = now\<rparr>]"
  by (simp_all add: create_phone_change_def fresh_id_def)

lemma get_customer_create_change [simp]:
  "get_customer (create_email_change i old new now s) j = get_customer s j"
  "get_customer (create_phone_change i old new now s) j = get_customer s j"
  by (simp_all add: get_customer_def)

lemma get_customer_save_id:
  "customer_id cu = i \<Longrightarrow> get_customer s i \<noteq> None \<Longrightarrow> get_customer (save_customer cu s) i = Some cu"
  using get_customer_save_same by blast

lemma save_customer_frame [simp]:
  "contacts (save_customer cu s) = contacts s" "email_changes (save_customer cu s) = email_changes s"
  "phone_changes (save_customer cu s) = phone_changes s" "peoples (save_customer cu s) = peoples s"
  by (simp_all add: save_customer_def)

lemma latest_email_change_snoc:
  "\<forall>e\<in>set (email_changes s). ec_created_at e \<le> ec_created_at x \<Longrightarrow>
   email_changes s' = email_changes s @ [x] \<Longrightarrow> latest_email_change s' (ec_customer x) = Some x"
  by (simp add: latest_email_change_def newest_snoc)

lemma latest_phone_change_snoc:
  "\<forall>e\<in>set (phone_changes s). pc_created_at e \<le> pc_created_at x \<Longrightarrow>
   phone_changes s' = phone_changes s @ [x] \<Longrightarrow> latest_phone_change s' (pc_customer x) = Some x"
  by (simp add: latest_phone_change_def newest_snoc)

lemma prep_contact_prepped [simp]:
  "email (prep_contact ct) \<noteq> Some [] \<and> mobile (prep_contact ct) \<noteq> Some []"
  by (simp add: prep_contact_def get_prep_value_not_empty)

end
