(* ===== verification/Tokens.thy ===== *)
theory Tokens
  imports Prelude
begin

text \<open>
  Session tokens. The views mint them with
  \<^verbatim>\<open>RefreshToken.for_user(customer)\<close> (\<^verbatim>\<open>CustomerViewSet.refresh_token\<close>) and revoke a
  refresh token with \<^verbatim>\<open>RefreshToken(token).blacklist()\<close>. The library
  \<^verbatim>\<open>rest_framework_simplejwt\<close> with its \<^verbatim>\<open>token_blacklist\<close> app is not part of
  \<^verbatim>\<open>src/\<close>; it is modelled from the spec and the library's documented behaviour: a token
  is the claim set it signs; a token is authentic when it was minted here (signatures are
  taken as unforgeable); a refresh token is recorded as outstanding when minted; decoding
  a refresh token checks signature, type, expiry and the blacklist; decoding an access
  token (\<^verbatim>\<open>JWTAuthentication\<close>) checks signature, type and expiry only.
\<close>

datatype token_kind = AccessKind | RefreshKind

record token =
  jti :: nat
  token_user :: uuid
  token_kind :: token_kind
  token_exp :: time

record jwt_state =
  issued :: "token list"
  outstanding :: "token list"
  blacklisted :: "nat list"
  next_jti :: nat

definition empty_jwt :: jwt_state where
  "empty_jwt = \<lparr>issued = [], outstanding = [], blacklisted = [], next_jti = 0\<rparr>"

text \<open>\<^verbatim>\<open>RefreshToken.for_user(user)\<close> and its \<^verbatim>\<open>access_token\<close>.\<close>

definition for_user :: "uuid \<Rightarrow> time \<Rightarrow> jwt_state \<Rightarrow> (token \<times> token) \<times> jwt_state" where
  "for_user u now j =
     (let r = \<lparr>jti = next_jti j, token_user = u, token_kind = RefreshKind,
               token_exp = now + refresh_token_lifetime\<rparr>;
          a = \<lparr>jti = Suc (next_jti j), token_user = u, token_kind = AccessKind,
               token_exp = now + access_token_lifetime\<rparr>
      in ((r, a), j\<lparr>issued := issued j @ [r, a], outstanding := outstanding j @ [r],
                   next_jti := Suc (Suc (next_jti j))\<rparr>))"

text \<open>\<^verbatim>\<open>RefreshToken(token)\<close>: raises \<^verbatim>\<open>TokenError\<close> unless the token is valid.\<close>

definition decode_refresh :: "token \<Rightarrow> time \<Rightarrow> jwt_state \<Rightarrow> exn + token" where
  "decode_refresh t now j =
     (if t \<notin> set (issued j) then Inl TokenError
      else if token_kind t \<noteq> RefreshKind then Inl TokenError
      else if token_exp t \<le> now then Inl TokenError
      else if jti t \<in> set (blacklisted j) then Inl TokenError
      else Inr t)"

text \<open>\<^verbatim>\<open>token.blacklist()\<close>: \<^verbatim>\<open>BlacklistedToken.objects.get_or_create\<close> on its jti.\<close>

definition blacklist :: "token \<Rightarrow> jwt_state \<Rightarrow> jwt_state" where
  "blacklist t j =
     (if jti t \<in> set (blacklisted j) then j else j\<lparr>blacklisted := blacklisted j @ [jti t]\<rparr>)"

text \<open>\<^verbatim>\<open>JWTAuthentication\<close> on an access token: the blacklist is not consulted.\<close>

definition decode_access :: "token \<Rightarrow> time \<Rightarrow> jwt_state \<Rightarrow> exn + uuid" where
  "decode_access t now j =
     (if t \<notin> set (issued j) then Inl TokenError
      else if token_kind t \<noteq> AccessKind then Inl TokenError
      else if token_exp t \<le> now then Inl TokenError
      else Inr (token_user t))"

text \<open>\<^verbatim>\<open>TokenRefreshView\<close>: a valid refresh token buys a fresh access token.\<close>

definition token_refresh :: "token \<Rightarrow> time \<Rightarrow> jwt_state \<Rightarrow> (exn + token) \<times> jwt_state" where
  "token_refresh t now j =
     (case decode_refresh t now j of
        Inl e \<Rightarrow> (Inl e, j)
      | Inr r \<Rightarrow>
          (let a = \<lparr>jti = next_jti j, token_user = token_user r, token_kind = AccessKind,
                    token_exp = now + access_token_lifetime\<rparr>
           in (Inr a, j\<lparr>issued := issued j @ [a], next_jti := Suc (next_jti j)\<rparr>)))"

section \<open>Lemmas\<close>

lemma blacklist_mono: "set (blacklisted j) \<subseteq> set (blacklisted (blacklist t j))"
  by (auto simp: blacklist_def)

lemma blacklisted_in_blacklist: "jti t \<in> set (blacklisted (blacklist t j))"
  by (simp add: blacklist_def)

lemma decode_refresh_blacklisted:
  "jti t \<in> set (blacklisted j) \<Longrightarrow> decode_refresh t now j = Inl TokenError"
  by (simp add: decode_refresh_def)

lemma issued_blacklist [simp]: "issued (blacklist t j) = issued j"
  by (simp add: blacklist_def)

lemma decode_access_blacklist [simp]: "decode_access a now (blacklist t j) = decode_access a now j"
  by (simp add: decode_access_def)

lemma for_user_fresh:
  "\<forall>t\<in>set (issued j). jti t < next_jti j \<Longrightarrow>
   for_user u now j = ((r, a), j') \<Longrightarrow>
   jti r \<notin> jti ` set (issued j) \<and> (\<forall>t\<in>set (issued j'). jti t < next_jti j')"
  by (auto simp: for_user_def Let_def less_Suc_eq)

end
