(* ===== verification/Cache.thy ===== *)
theory Cache
  imports Prelude
begin

text \<open>
  The Django cache the sign-in view keeps its failure counters in
  (\<^verbatim>\<open>django.core.cache.cache\<close>; the default local-memory backend, not part of
  \<^verbatim>\<open>src/\<close>, modelled from the spec): a map from keys to a value and the time it
  expires. \<^verbatim>\<open>get\<close> sees an entry strictly before its expiry, \<^verbatim>\<open>set\<close> replaces the
  entry and restarts its timeout, \<^verbatim>\<open>delete\<close> removes it.
\<close>

type_synonym cache = "string \<rightharpoonup> nat \<times> time"

definition cache_get :: "string \<Rightarrow> time \<Rightarrow> cache \<Rightarrow> nat option" where
  "cache_get k now c = (case c k of None \<Rightarrow> None | Some (v, e) \<Rightarrow> if now < e then Some v else None)"

definition cache_set :: "string \<Rightarrow> nat \<Rightarrow> time \<Rightarrow> time \<Rightarrow> cache \<Rightarrow> cache" where
  "cache_set k v timeout now c = c(k \<mapsto> (v, now + timeout))"

definition cache_delete :: "string \<Rightarrow> cache \<Rightarrow> cache" where
  "cache_delete k c = c(k := None)"

lemma cache_get_set [simp]:
  "cache_get k now (cache_set k v t now c) = (if 0 < t then Some v else None)"
  by (simp add: cache_get_def cache_set_def)

lemma cache_get_set_at:
  "cache_get k now' (cache_set k v t now c) = (if now' < now + t then Some v else None)"
  by (simp add: cache_get_def cache_set_def)

lemma cache_set_set [simp]:
  "cache_set k v t now (cache_set k v' t' now' c) = cache_set k v t now c"
  by (simp add: cache_set_def)

lemma cache_get_set_other [simp]:
  "k' \<noteq> k \<Longrightarrow> cache_get k' now (cache_set k v t now' c) = cache_get k' now c"
  by (simp add: cache_get_def cache_set_def)

lemma cache_get_delete [simp]: "cache_get k now (cache_delete k c) = None"
  by (simp add: cache_get_def cache_delete_def)

lemma cache_get_delete_other [simp]:
  "k' \<noteq> k \<Longrightarrow> cache_get k' now (cache_delete k c) = cache_get k' now c"
  by (simp add: cache_get_def cache_delete_def)

end
