(* ===== verification/Tasks.thy ===== *)
theory Tasks
  imports Store Tokens Cache
begin

text \<open>
  The state every request and worker job acts on, and the two celery tasks of
  \<^verbatim>\<open>src/authentication/apps/customer/tasks.py\<close>. A view does not run a task: it
  calls \<^verbatim>\<open>task.delay(...)\<close>, which queues a job; a worker runs it later, reading
  the store as it is then. The state therefore holds the queue of pending jobs and the
  mails sent so far (the outbox of \<^verbatim>\<open>send_email\<close>). A task's exception is lost to
  the view; the rows it wrote before raising stay written (autocommit).
\<close>

datatype job =
    SendEmailVerification uuid     \<comment> \<open>\<^verbatim>\<open>send_email_verification.delay(contact_id)\<close>\<close>
  | SendMobileVerificationCode uuid  \<comment> \<open>\<^verbatim>\<open>send_mobile_verification_code.delay(contact_id)\<close>\<close>

text \<open>
  A mail as \<^verbatim>\<open>EmailMultiAlternatives\<close> builds it: recipient, sender, the template
  pair \<^verbatim>\<open>(app, event)\<close> its subject and bodies are rendered from, and the context,
  here the two ids of the verification URL
  (\<^verbatim>\<open>EMAIL_VERIFICATION_URL_TEMPLATE\<close> of \<^verbatim>\<open>settings/ui_settings.py\<close>).
\<close>

record mail =
  mail_to :: string
  mail_from :: string
  mail_template :: "string \<times> string"
  mail_customer :: uuid
  mail_temp :: uuid

text \<open>\<^verbatim>\<open>DEFAULT_FROM_EMAIL\<close> of \<^verbatim>\<open>settings/development_settings.py\<close>.\<close>

definition default_from_email :: string where
  "default_from_email = []"

text \<open>
  \<^verbatim>\<open>send_email(app, event, context, recipients, from_email)\<close> of
  \<^verbatim>\<open>src/authentication/utils.py\<close>: one message per recipient, in order, each
  addressed to that recipient alone, from \<^verbatim>\<open>from_email or DEFAULT_FROM_EMAIL\<close>.
  Rendering and SMTP delivery are I/O: a sent message is appended to the outbox.
\<close>

definition send_email :: "string \<Rightarrow> string \<Rightarrow> uuid \<times> uuid \<Rightarrow> string list \<Rightarrow> string option \<Rightarrow> mail list" where
  "send_email app event context recipients from_email =
     map (\<lambda>r. \<lparr>mail_to = r,
               mail_from = (case from_email of None \<Rightarrow> default_from_email
                            | Some f \<Rightarrow> if f = [] then default_from_email else f),
               mail_template = (app, event), mail_customer = fst context, mail_temp = snd context\<rparr>)
       recipients"

record sys =
  db :: store
  jobs :: "job list"
  outbox :: "mail list"
  jwt :: jwt_state
  cache :: cache

definition init_sys :: sys where
  "init_sys = \<lparr>db = empty_store, jobs = [], outbox = [], jwt = empty_jwt, cache = Map.empty\<rparr>"

text \<open>
  \<^verbatim>\<open>CustomerSerializer\<close> (\<^verbatim>\<open>apps/customer/serializers.py\<close>), a
  \<^verbatim>\<open>HyperlinkedModelSerializer\<close> with the fields \<^verbatim>\<open>url\<close>, \<^verbatim>\<open>is_active\<close>,
  \<^verbatim>\<open>email_verify\<close>, \<^verbatim>\<open>mobile_verify\<close> and \<^verbatim>\<open>total_credit\<close>. The
  \<^verbatim>\<open>url\<close> is the \<^verbatim>\<open>customer-detail\<close> route of the router reversed with
  \<^verbatim>\<open>lookup_field = "id"\<close>, determined by the customer's id, which stands for it.
\<close>

record customer_repr =
  cr_url :: uuid
  cr_is_active :: bool
  cr_email_verify :: "time option"
  cr_mobile_verify :: "time option"
  cr_total_credit :: int

definition customer_serializer :: "customer \<Rightarrow> customer_repr" where
  "customer_serializer c = \<lparr>cr_url = customer_id c, cr_is_active = is_active c,
     cr_email_verify = email_verify c, cr_mobile_verify = mobile_verify c,
     cr_total_credit = total_credit c\<rparr>"

text \<open>What a view returns: a status code and the body's content.\<close>

datatype body =
    Success string
  | Error string
  | TokenPair token token
  | AccessToken token
  | Detail string
  | DetailFailures string nat
  | WaitError string time
  | FieldError string string
  | CustomerData uuid
  | CustomerList "customer_repr list"    \<comment> \<open>\<^verbatim>\<open>CustomerSerializer(many=True)\<close>, unpaginated\<close>
  | PagedCustomers "customer_repr list" nat \<comment> \<open>one page and its \<^verbatim>\<open>X-Result-Count\<close> header\<close>
  | InfoData time                       \<comment> \<open>name, version, provider and the local time\<close>
  | PublicSettings "string list"        \<comment> \<open>the names of the settings disclosed\<close>

datatype response = Response nat body

type_synonym outcome = "(exn + response) \<times> sys"

definition enqueue :: "job \<Rightarrow> sys \<Rightarrow> sys" where
  "enqueue jb S = S\<lparr>jobs := jobs S @ [jb]\<rparr>"

section \<open>send_email_verification\<close>

text \<open>
  Creates a verification ticket (\<^verbatim>\<open>EmailTemp\<close>) for the contact's current email,
  then mails its link: to the pending change's \<^verbatim>\<open>new_email\<close> when the email is
  unverified and a change is pending, else to the contact's email. A contact with no
  email makes the NOT NULL \<^verbatim>\<open>EmailTemp.email\<close> column refuse the row.
\<close>

definition send_email_verification :: "uuid \<Rightarrow> time \<Rightarrow> sys \<Rightarrow> (exn + unit) \<times> sys" where
  "send_email_verification cid now S =
     (case get_contact (db S) cid of
        None \<Rightarrow> (Inl DoesNotExist, S)
      | Some ct \<Rightarrow>
          (case contact_customer (db S) cid of
             None \<Rightarrow> (Inl DoesNotExist, S)
           | Some cu \<Rightarrow>
               (case email ct of
                  None \<Rightarrow> (Inl IntegrityError, S)
                | Some e \<Rightarrow>
                    (let (k, s1) = fresh_id (db S);
                         s2 = s1\<lparr>email_temps := email_temps s1 @
                                [\<lparr>et_id = k, et_customer = customer_id cu, et_email = e,
                                  et_created_at = now\<rparr>]\<rparr>
                     in case latest_email_change s2 (customer_id cu) of
                          None \<Rightarrow> (Inl DoesNotExist, S\<lparr>db := s2\<rparr>)
                        | Some ec \<Rightarrow>
                            (let to = (if email_verify cu = None \<and> truthy (new_email ec)
                                       then the (new_email ec) else e)
                             in (Inr (), S\<lparr>db := s2, outbox := outbox S @
                                   send_email ''customer'' ''email_verification'' (customer_id cu, k) [to] None\<rparr>))))))"

section \<open>send_mobile_verification_code\<close>

text \<open>The code is the constant 1234 (the random draw is commented out); no SMS is sent.\<close>

definition otp_code :: int where
  "otp_code = 1234"

definition send_mobile_verification_code :: "uuid \<Rightarrow> time \<Rightarrow> sys \<Rightarrow> (exn + unit) \<times> sys" where
  "send_mobile_verification_code cid now S =
     (case get_contact (db S) cid of
        None \<Rightarrow> (Inl DoesNotExist, S)
      | Some ct \<Rightarrow>
          (case contact_customer (db S) cid of
             None \<Rightarrow> (Inl DoesNotExist, S)
           | Some cu \<Rightarrow>
               (let (k, s1) = fresh_id (db S)
                in (Inr (), S\<lparr>db := s1\<lparr>otp_temps := otp_temps s1 @
                      [\<lparr>ot_id = k, ot_customer = customer_id cu, ot_code = otp_code,
                        ot_created_at = now\<rparr>]\<rparr>\<rparr>))))"

text \<open>A worker runs one job; its exception, if any, is dropped.\<close>

definition run_job :: "job \<Rightarrow> time \<Rightarrow> sys \<Rightarrow> sys" where
  "run_job jb now S =
     (case jb of
        SendEmailVerification c \<Rightarrow> snd (send_email_verification c now S)
      | SendMobileVerificationCode c \<Rightarrow> snd (send_mobile_verification_code c now S))"

section \<open>Lemmas\<close>

lemma enqueue_db [simp]: "db (enqueue jb S) = db S"
  and enqueue_jwt [simp]: "jwt (enqueue jb S) = jwt S"
  and enqueue_outbox [simp]: "outbox (enqueue jb S) = outbox S"
  by (simp_all add: enqueue_def)

lemma send_email_verification_jwt: "jwt (snd (send_email_verification c now S)) = jwt S"
  by (auto simp: send_email_verification_def Let_def split: option.splits prod.splits)

lemma send_mobile_verification_code_jwt:
  "jwt (snd (send_mobile_verification_code c now S)) = jwt S"
  by (auto simp: send_mobile_verification_code_def Let_def split: option.splits prod.splits)

lemma run_job_jwt [simp]: "jwt (run_job jb now S) = jwt S"
  by (cases jb) (simp_all add: run_job_def send_email_verification_jwt send_mobile_verification_code_jwt)

end
