(* ===== verification/Verification.thy ===== *)
theory Verification
  imports Tasks
begin

text \<open>
  The verification workflow of \<^verbatim>\<open>CustomerViewSet\<close>
  (\<^verbatim>\<open>src/authentication/apps/customer/views.py\<close>): for the email channel
  \<^verbatim>\<open>verify_email\<close>, \<^verbatim>\<open>resend_email\<close>, \<^verbatim>\<open>change_email\<close>; for the mobile channel
  \<^verbatim>\<open>verify_mobile\<close>, \<^verbatim>\<open>resend_mobile_code\<close>, \<^verbatim>\<open>change_mobile\<close>; and the
  \<^verbatim>\<open>refresh_token\<close> helper that answers a successful verification with a token pair.
  Each view is a function from the settings, its inputs, the request time and the
  state to an outcome: the response or the uncaught exception, and the state after the
  request (the database autocommits, so rows written before an exception stay).
  Serializer validation comes first where the view calls \<^verbatim>\<open>is_valid\<close> first, then
  \<^verbatim>\<open>get_object()\<close> (404 for an unknown customer id), then the view's own checks in
  the source's order.
\<close>

section \<open>Shared steps\<close>

text \<open>\<^verbatim>\<open>refresh_token(customer)\<close>: mint a token pair for the customer.\<close>

definition refresh_token :: "customer \<Rightarrow> time \<Rightarrow> sys \<Rightarrow> (token \<times> token) \<times> sys" where
  "refresh_token cu now S =
     (let (p, j) = for_user (customer_id cu) now (jwt S) in (p, S\<lparr>jwt := j\<rparr>))"

text \<open>
  A confirmed change: when the pending value is neither NULL nor empty, the customer's
  contact takes it and is saved (the UNIQUE constraints may refuse it).
\<close>

definition apply_new_email :: "customer \<Rightarrow> string option \<Rightarrow> store \<Rightarrow> exn + store" where
  "apply_new_email cu v s =
     (if truthy v then
        (case get_contact s (username cu) of
           None \<Rightarrow> Inl DoesNotExist
         | Some ct \<Rightarrow> save_contact (ct\<lparr>email := v\<rparr>) s)
      else Inr s)"

definition apply_new_mobile :: "customer \<Rightarrow> string option \<Rightarrow> store \<Rightarrow> exn + store" where
  "apply_new_mobile cu v s =
     (if truthy v then
        (case get_contact s (username cu) of
           None \<Rightarrow> Inl DoesNotExist
         | Some ct \<Rightarrow> save_contact (ct\<lparr>mobile := v\<rparr>) s)
      else Inr s)"

section \<open>Email channel\<close>

definition verify_email :: "settings \<Rightarrow> uuid \<Rightarrow> uuid \<Rightarrow> time \<Rightarrow> sys \<Rightarrow> outcome" where
  "verify_email cfg i temp_id now S =
     (case get_customer (db S) i of
        None \<Rightarrow> (Inl Http404, S)
      | Some cu \<Rightarrow>
       (case latest_email_change (db S) i of
          None \<Rightarrow> (Inl DoesNotExist, S)
        | Some ec \<Rightarrow>
          if email_verify cu \<noteq> None
          then (Inr (Response 200 (Success ''Email already activated'')), S)
          else
           (case find (\<lambda>t. et_id t = temp_id) (customer_email_temps (db S) i) of
              None \<Rightarrow> (Inr (Response 400 (Error ''Email Verification Request Not Found'')), S)
            | Some t \<Rightarrow>
              if email_verification_expire_time cfg < now - et_created_at t
              then (Inr (Response 400 (Error ''Expired'')), S)
              else
               (let cu' = cu\<lparr>email_verify := Some now, is_active := True\<rparr>;
                    s1 = save_customer cu' (db S)
                in case apply_new_email cu' (new_email ec) s1 of
                     Inl e \<Rightarrow> (Inl e, S\<lparr>db := s1\<rparr>)
                   | Inr s2 \<Rightarrow>
                      (let s3 = delete_email_temps i (save_email_change (ec\<lparr>new_email := None\<rparr>) s2);
                           ((r, a), S') = refresh_token cu' now (S\<lparr>db := s3\<rparr>)
                       in (Inr (Response 200 (TokenPair r a)), S'))))))"

definition resend_email :: "settings \<Rightarrow> uuid \<Rightarrow> time \<Rightarrow> sys \<Rightarrow> outcome" where
  "resend_email cfg i now S =
     (case get_customer (db S) i of
        None \<Rightarrow> (Inl Http404, S)
      | Some cu \<Rightarrow>
        if email_verify cu \<noteq> None
        then (Inr (Response 200 (Success ''Email already activated'')), S)
        else
         (case newest et_created_at (customer_email_temps (db S) i) of
            None \<Rightarrow> (Inr (Response 400 (Error ''You must signup first'')), S)
          | Some t \<Rightarrow>
            if now - et_created_at t < email_verification_resend_time_limit cfg
            then (Inr (Response 400 (WaitError ''to request to resend email''
                    (email_verification_resend_time_limit cfg - (now - et_created_at t)))), S)
            else (Inr (Response 200 (Success ''Email resent'')),
                  enqueue (SendEmailVerification (username cu)) S)))"

text \<open>
  \<^verbatim>\<open>ChangeEmailSerializer\<close> declares \<^verbatim>\<open>email\<close> with \<^verbatim>\<open>required=False\<close>; the view then
  reads \<^verbatim>\<open>validated_data["email"]\<close>, which raises when the field was not sent.
\<close>

definition change_email_errors :: "store \<Rightarrow> string \<Rightarrow> string list" where
  "change_email_errors s e =
     email_field_errors e @ (if email_taken s e then [''This email already used''] else [])"

definition distinct_temp_emails :: "store \<Rightarrow> uuid \<Rightarrow> nat" where
  "distinct_temp_emails s i = card (set (map et_email (customer_email_temps s i)))"

definition change_email :: "settings \<Rightarrow> uuid \<Rightarrow> string option \<Rightarrow> time \<Rightarrow> sys \<Rightarrow> outcome" where
  "change_email cfg i e now S =
     (case (case e of None \<Rightarrow> [] | Some x \<Rightarrow> change_email_errors (db S) x) of
        m # ms \<Rightarrow> (Inl (ValidationError (m # ms)), S)
      | [] \<Rightarrow>
       (case get_customer (db S) i of
          None \<Rightarrow> (Inl Http404, S)
        | Some cu \<Rightarrow>
          if email_verify cu \<noteq> None
          then (Inr (Response 200 (Success ''Email already activated'')), S)
          else if email_verification_change_limit cfg \<le> distinct_temp_emails (db S) i
          then (Inr (Response 400 (Error ''Max email change request exceeded'')), S)
          else
           (case e of
              None \<Rightarrow> (Inl KeyError, S)
            | Some x \<Rightarrow>
              (case get_contact (db S) (username cu) of
                 None \<Rightarrow> (Inl DoesNotExist, S)
               | Some ct \<Rightarrow>
                 (case save_contact (ct\<lparr>email := Some x\<rparr>) (db S) of
                    Inl ex \<Rightarrow> (Inl ex, S)
                  | Inr s1 \<Rightarrow> (Inr (Response 200 (Success ''Email sent'')),
                               enqueue (SendEmailVerification (username cu)) (S\<lparr>db := s1\<rparr>)))))))"

section \<open>Mobile channel\<close>

text \<open>\<^verbatim>\<open>OTPSerializer\<close>: an integer between 1000 and 9999.\<close>

definition otp_errors :: "int \<Rightarrow> string list" where
  "otp_errors c =
     (if c < 1000 then [''Ensure this value is greater than or equal to 1000.''] else [])
     @ (if 9999 < c then [''Ensure this value is less than or equal to 9999.''] else [])"

text \<open>
  \<^verbatim>\<open>temp[0]\<close> of the newest-first OTP query set raises \<^verbatim>\<open>IndexError\<close> when the
  customer has no OTP ticket.
\<close>

definition verify_mobile :: "settings \<Rightarrow> uuid \<Rightarrow> int \<Rightarrow> time \<Rightarrow> sys \<Rightarrow> outcome" where
  "verify_mobile cfg i code now S =
     (case otp_errors code of
        m # ms \<Rightarrow> (Inl (ValidationError (m # ms)), S)
      | [] \<Rightarrow>
       (case get_customer (db S) i of
          None \<Rightarrow> (Inl Http404, S)
        | Some cu \<Rightarrow>
         (case latest_phone_change (db S) i of
            None \<Rightarrow> (Inl DoesNotExist, S)
          | Some pc \<Rightarrow>
            if mobile_verify cu \<noteq> None
            then (Inr (Response 200 (Success ''Mobile already verified'')), S)
            else
             (case newest ot_created_at (customer_otp_temps (db S) i) of
                None \<Rightarrow> (Inl IndexError, S)
              | Some t \<Rightarrow>
                if otp_expire_time cfg < now - ot_created_at t
                then (Inr (Response 400 (Error ''Code expired'')), S)
                else if code = ot_code t
                then
                 (let s1 = delete_otp_temps i (db S);
                      cu' = cu\<lparr>mobile_verify := Some now, is_active := True\<rparr>;
                      s2 = save_customer cu' s1
                  in case apply_new_mobile cu' (new_mobile pc) s2 of
                       Inl e \<Rightarrow> (Inl e, S\<lparr>db := s2\<rparr>)
                     | Inr s3 \<Rightarrow>
                        (let s4 = save_phone_change (pc\<lparr>new_mobile := None\<rparr>) s3;
                             ((r, a), S') = refresh_token cu' now (S\<lparr>db := s4\<rparr>)
                         in (Inr (Response 200 (TokenPair r a)), S')))
                else (Inr (Response 400 (Error ''Invalid code'')), S)))))"

definition resend_mobile_code :: "settings \<Rightarrow> uuid \<Rightarrow> time \<Rightarrow> sys \<Rightarrow> outcome" where
  "resend_mobile_code cfg i now S =
     (case get_customer (db S) i of
        None \<Rightarrow> (Inl Http404, S)
      | Some cu \<Rightarrow>
        if mobile_verify cu \<noteq> None
        then (Inr (Response 200 (Success ''Mobile already verified'')), S)
        else
         (case newest ot_created_at (customer_otp_temps (db S) i) of
            None \<Rightarrow> (Inl IndexError, S)
          | Some t \<Rightarrow>
            if now - ot_created_at t < otp_expire_time cfg
            then (Inr (Response 400 (WaitError ''to request to resend code''
                    (otp_expire_time cfg - (now - ot_created_at t)))), S)
            else (Inr (Response 200 (Success ''Code resent'')),
                  enqueue (SendMobileVerificationCode (username cu)) S)))"

text \<open>\<^verbatim>\<open>MobileSerializer\<close>: the mobile field is required, with length, regex and uniqueness.\<close>

definition mobile_errors :: "store \<Rightarrow> string \<Rightarrow> string list" where
  "mobile_errors s m =
     mobile_field_errors m @ (if mobile_taken s m then [''This mobile number already used''] else [])"

definition change_mobile :: "uuid \<Rightarrow> string \<Rightarrow> time \<Rightarrow> sys \<Rightarrow> outcome" where
  "change_mobile i m now S =
     (case mobile_errors (db S) m of
        x # xs \<Rightarrow> (Inl (ValidationError (x # xs)), S)
      | [] \<Rightarrow>
       (case get_customer (db S) i of
          None \<Rightarrow> (Inl Http404, S)
        | Some cu \<Rightarrow>
          if mobile_verify cu \<noteq> None
          then (Inr (Response 200 (Success ''Mobile already verified'')), S)
          else
           (case get_contact (db S) (username cu) of
              None \<Rightarrow> (Inl DoesNotExist, S)
            | Some ct \<Rightarrow>
              (case save_contact (ct\<lparr>mobile := Some m\<rparr>) (db S) of
                 Inl ex \<Rightarrow> (Inl ex, S)
               | Inr s1 \<Rightarrow> (Inr (Response 200 (Success ''Code sent'')),
                            enqueue (SendMobileVerificationCode (username cu)) (S\<lparr>db := s1\<rparr>))))))"

section \<open>Lemmas\<close>

lemma refresh_token_frame:
  "refresh_token cu now S = (p, S') \<Longrightarrow>
   db S' = db S \<and> jobs S' = jobs S \<and> outbox S' = outbox S \<and> cache S' = cache S"
  by (auto simp: refresh_token_def split: prod.splits)

lemma refresh_token_user:
  "refresh_token cu now S = ((r, a), S') \<Longrightarrow> token_user r = customer_id cu \<and> token_kind r = RefreshKind"
  by (auto simp: refresh_token_def for_user_def Let_def split: prod.splits)

lemma refresh_token_access:
  "refresh_token cu now S = ((r, a), S') \<Longrightarrow> now' < now + access_token_lifetime \<Longrightarrow>
   decode_access a now' (jwt S') = Inr (customer_id cu)"
  by (auto simp: refresh_token_def for_user_def decode_access_def Let_def split: prod.splits)

lemma apply_new_email_Inr: "apply_new_email cu v s = Inr s' \<Longrightarrow> s' = s\<lparr>contacts := contacts s'\<rparr>"
  by (auto simp: apply_new_email_def split: if_splits option.splits dest: save_contact_Inr)

lemma apply_new_mobile_Inr: "apply_new_mobile cu v s = Inr s' \<Longrightarrow> s' = s\<lparr>contacts := contacts s'\<rparr>"
  by (auto simp: apply_new_mobile_def split: if_splits option.splits dest: save_contact_Inr)

lemma verify_email_success:
  assumes "verify_email cfg i k now S = (Inr (Response 200 (TokenPair r a)), S')"
  shows "\<exists>cu ec t s2. get_customer (db S) i = Some cu \<and> latest_email_change (db S) i = Some ec
    \<and> email_verify cu = None \<and> find (\<lambda>t. et_id t = k) (customer_email_temps (db S) i) = Some t
    \<and> \<not> email_verification_expire_time cfg < now - et_created_at t
    \<and> apply_new_email (cu\<lparr>email_verify := Some now, is_active := True\<rparr>) (new_email ec)
         (save_customer (cu\<lparr>email_verify := Some now, is_active := True\<rparr>) (db S)) = Inr s2
    \<and> refresh_token (cu\<lparr>email_verify := Some now, is_active := True\<rparr>) now
         (S\<lparr>db := delete_email_temps i (save_email_change (ec\<lparr>new_email := None\<rparr>) s2)\<rparr>) = ((r, a), S')"
  using assms
  by (auto simp: verify_email_def Let_def split: option.splits if_splits sum.splits prod.splits)

text \<open>After a confirmation the database holds the confirmed customer, no ticket and the change.\<close>

lemma verify_email_success_db:
  assumes "verify_email cfg i k now S = (Inr (Response 200 (TokenPair r a)), S')"
  obtains cu ec s2 where "get_customer (db S) i = Some cu" "latest_email_change (db S) i = Some ec"
    "email_verify cu = None"
    "apply_new_email (cu\<lparr>email_verify := Some now, is_active := True\<rparr>) (new_email ec)
         (save_customer (cu\<lparr>email_verify := Some now, is_active := True\<rparr>) (db S)) = Inr s2"
    "db S' = delete_email_temps i (save_email_change (ec\<lparr>new_email := None\<rparr>) s2)"
    "jobs S' = jobs S" "outbox S' = outbox S"
    "token_user r = i" "token_kind r = RefreshKind"
proof -
  from verify_email_success [OF assms] obtain cu ec t s2 where
    h: "get_customer (db S) i = Some cu" "latest_email_change (db S) i = Some ec" "email_verify cu = None"
      "apply_new_email (cu\<lparr>email_verify := Some now, is_active := True\<rparr>) (new_email ec)
         (save_customer (cu\<lparr>email_verify := Some now, is_active := True\<rparr>) (db S)) = Inr s2"
      and rt: "refresh_token (cu\<lparr>email_verify := Some now, is_active := True\<rparr>) now
         (S\<lparr>db := delete_email_temps i (save_email_change (ec\<lparr>new_email := None\<rparr>) s2)\<rparr>) = ((r, a), S')"
    by blast
  have cid: "customer_id cu = i" using h(1) get_customer_Some by blast
  from refresh_token_frame [OF rt] have S': "db S' = delete_email_temps i (save_email_change (ec\<lparr>new_email := None\<rparr>) s2)"
    "jobs S' = jobs S" "outbox S' = outbox S" by simp_all
  from refresh_token_user [OF rt] cid have "token_user r = i" "token_kind r = RefreshKind" by simp_all
  with h S' show thesis by (intro that)
qed

lemma get_customer_customers:
  "customers s' = customers s \<Longrightarrow> get_customer s' i = get_customer s i"
  by (simp add: get_customer_def)

lemma apply_new_email_contact:
  assumes "apply_new_email cu v s = Inr s'" "truthy v"
  shows "\<exists>ct. get_contact s' (username cu) = Some ct \<and> email ct = v"
proof -
  from assms obtain ct where ct: "get_contact s (username cu) = Some ct"
    and sv: "save_contact (ct\<lparr>email := v\<rparr>) s = Inr s'"
    by (auto simp: apply_new_email_def split: option.splits)
  have cid: "contact_id ct = username cu"
    using ct by (auto simp: get_contact_def find_Some_iff)
  have "get_contact s (contact_id (ct\<lparr>email := v\<rparr>)) \<noteq> None" using ct cid by simp
  from save_contact_get [OF this sv] cid assms(2) show ?thesis
    by (auto simp: prep_contact_def truthy_def split: option.splits)
qed

text \<open>The database after a confirmation.\<close>

lemma verify_email_success_state:
  assumes "verify_email cfg i k now S = (Inr (Response 200 (TokenPair r a)), S')"
  shows "\<exists>cu ec. get_customer (db S) i = Some cu \<and> latest_email_change (db S) i = Some ec
    \<and> email_verify cu = None
    \<and> get_customer (db S') i = Some (cu\<lparr>email_verify := Some now, is_active := True\<rparr>)
    \<and> latest_email_change (db S') i \<noteq> None \<and> customer_email_temps (db S') i = []
    \<and> (truthy (new_email ec) \<longrightarrow> (\<exists>ct. get_contact (db S') (username cu) = Some ct \<and> email ct = new_email ec))
    \<and> token_user r = i \<and> token_kind r = RefreshKind"
proof -
  obtain cu ec s2 where h: "get_customer (db S) i = Some cu" "latest_email_change (db S) i = Some ec"
    "email_verify cu = None"
    and ap: "apply_new_email (cu\<lparr>email_verify := Some now, is_active := True\<rparr>) (new_email ec)
         (save_customer (cu\<lparr>email_verify := Some now, is_active := True\<rparr>) (db S)) = Inr s2"
    and d: "db S' = delete_email_temps i (save_email_change (ec\<lparr>new_email := None\<rparr>) s2)"
    and t: "token_user r = i" "token_kind r = RefreshKind"
    using verify_email_success_db [OF assms] by metis
  let ?cu = "cu\<lparr>email_verify := Some now, is_active := True\<rparr>"
  have cid: "customer_id cu = i" using h(1) get_customer_Some by blast
  have s2: "s2 = (save_customer ?cu (db S))\<lparr>contacts := contacts s2\<rparr>"
    using apply_new_email_Inr [OF ap] .
  have cs: "customers s2 = customers (save_customer ?cu (db S))"
    using arg_cong [OF s2, of customers] by simp
  have "get_customer (db S') i = get_customer (save_customer ?cu (db S)) (customer_id ?cu)"
    using cid cs d by (auto simp: delete_email_temps_def save_email_change_def
      intro!: get_customer_customers)
  also have "\<dots> = Some ?cu"
    using h(1) cid get_customer_save_same [of "db S" ?cu] by simp
  finally have g: "get_customer (db S') i = Some ?cu" .
  have "email_changes s2 = email_changes (db S)"
    using arg_cong [OF s2, of email_changes] by (simp add: save_customer_def)
  then have "latest_email_change s2 i = Some ec"
    using h(2) by (simp add: latest_email_change_def)
  then have "latest_email_change (save_email_change (ec\<lparr>new_email := None\<rparr>) s2) i \<noteq> None"
    using latest_email_change_in [OF h(2)] by (intro latest_email_change_save) simp_all
  then have l: "latest_email_change (db S') i \<noteq> None"
    using d by (simp add: latest_email_change_def delete_email_temps_def)
  have e: "customer_email_temps (db S') i = []"
    using d by (simp add: customer_email_temps_def delete_email_temps_def)
  have c: "truthy (new_email ec) \<longrightarrow>
      (\<exists>ct. get_contact (db S') (username cu) = Some ct \<and> email ct = new_email ec)"
    using apply_new_email_contact [OF ap] d
    by (simp add: get_contact_def delete_email_temps_def save_email_change_def)
  show ?thesis using h g l e c t by blast
qed

text \<open>C5: confirming again after a successful confirmation answers "already activated" and
  changes nothing: no second activation, no mail, no token.\<close>

theorem verify_email_reconfirm:
  assumes "verify_email cfg i k now S = (Inr (Response 200 (TokenPair r a)), S')"
  shows "verify_email cfg i k' now' S' = (Inr (Response 200 (Success ''Email already activated'')), S')"
proof -
  from verify_email_success_state [OF assms] obtain cu where
    "get_customer (db S') i = Some (cu\<lparr>email_verify := Some now, is_active := True\<rparr>)"
    "latest_email_change (db S') i \<noteq> None"
    by blast
  then show ?thesis by (auto simp: verify_email_def split: option.splits)
qed

text \<open>C6: a successful confirmation marks the email verified at the request time, activates
  the account, moves a pending email change onto the contact, deletes every ticket of the
  customer, and returns a refresh token for that customer.\<close>

theorem verify_email_confirms:
  assumes "verify_email cfg i k now S = (Inr (Response 200 (TokenPair r a)), S')"
  shows "\<exists>cu ec. get_customer (db S) i = Some cu \<and> latest_email_change (db S) i = Some ec
    \<and> email_verify cu = None
    \<and> get_customer (db S') i = Some (cu\<lparr>email_verify := Some now, is_active := True\<rparr>)
    \<and> customer_email_temps (db S') i = []
    \<and> (truthy (new_email ec) \<longrightarrow> (\<exists>ct. get_contact (db S') (username cu) = Some ct \<and> email ct = new_email ec))
    \<and> token_user r = i \<and> token_kind r = RefreshKind"
  using verify_email_success_state [OF assms] by blast

text \<open>C7: a ticket older than the expiry time is refused with "Expired" and the state is
  left exactly as it was.\<close>

theorem verify_email_expired:
  assumes "get_customer (db S) i = Some cu" "email_verify cu = None"
    and "latest_email_change (db S) i \<noteq> None"
    and "find (\<lambda>t. et_id t = k) (customer_email_temps (db S) i) = Some t"
    and "email_verification_expire_time cfg < now - et_created_at t"
  shows "verify_email cfg i k now S = (Inr (Response 400 (Error ''Expired'')), S)"
  using assms by (auto simp: verify_email_def split: option.splits)

text \<open>C8: the view is not atomic. When it raises after saving the customer (the pending
  email is already held by another contact), the customer stays verified and active while
  its tickets and its pending change are left untouched.\<close>

theorem verify_email_partial_commit:
  assumes "verify_email cfg i k now S = (Inl e, S')" "S' \<noteq> S"
  shows "\<exists>cu. get_customer (db S) i = Some cu \<and> email_verify cu = None
    \<and> get_customer (db S') i = Some (cu\<lparr>email_verify := Some now, is_active := True\<rparr>)
    \<and> customer_email_temps (db S') i = customer_email_temps (db S) i
    \<and> latest_email_change (db S') i = latest_email_change (db S) i
    \<and> jwt S' = jwt S \<and> jobs S' = jobs S"
proof -
  obtain cu where h: "get_customer (db S) i = Some cu" "email_verify cu = None"
    and S': "S' = S\<lparr>db := save_customer (cu\<lparr>email_verify := Some now, is_active := True\<rparr>) (db S)\<rparr>"
    using assms
    by (auto simp: verify_email_def Let_def split: option.splits if_splits sum.splits prod.splits)
  have cid: "customer_id cu = i" using h(1) get_customer_Some by blast
  have "get_customer (db S') i = Some (cu\<lparr>email_verify := Some now, is_active := True\<rparr>)"
    using S' h(1) cid get_customer_save_same [of "db S" "cu\<lparr>email_verify := Some now, is_active := True\<rparr>"]
    by simp
  moreover have "customer_email_temps (db S') i = customer_email_temps (db S) i"
    "latest_email_change (db S') i = latest_email_change (db S) i"
    using S' by (simp_all add: customer_email_temps_def latest_email_change_def save_customer_def)
  ultimately show ?thesis using h S' by simp
qed

text \<open>C9: a resend inside the cooldown of the newest ticket is refused with exactly
  the remaining wait and changes nothing; once the newest ticket is as old as the
  cooldown, a resend queues exactly one new verification job for the customer's contact
  and changes nothing else.\<close>

theorem resend_email_cooldown:
  assumes "get_customer (db S) i = Some cu" "email_verify cu = None"
    and "newest et_created_at (customer_email_temps (db S) i) = Some t"
  shows "resend_email cfg i now S =
    (if now - et_created_at t < email_verification_resend_time_limit cfg
     then (Inr (Response 400 (WaitError ''to request to resend email''
            (email_verification_resend_time_limit cfg - (now - et_created_at t)))), S)
     else (Inr (Response 200 (Success ''Email resent'')),
           S\<lparr>jobs := jobs S @ [SendEmailVerification (username cu)]\<rparr>))"
  using assms by (simp add: resend_email_def enqueue_def)

text \<open>C10: when the customer's tickets already name as many distinct addresses as the
  change limit, a change request is refused and the state is unchanged.\<close>

theorem change_email_limit:
  assumes "change_email_errors (db S) x = []"
    and "get_customer (db S) i = Some cu" "email_verify cu = None"
    and "email_verification_change_limit cfg \<le> distinct_temp_emails (db S) i"
  shows "change_email cfg i (Some x) now S =
    (Inr (Response 400 (Error ''Max email change request exceeded'')), S)"
  using assms by (simp add: change_email_def)

text \<open>C11: requesting a change to the address the customer's contact already holds is
  refused by the uniqueness validator (the spec expects a repeated target simply not to
  count as a new distinct address).\<close>

theorem change_email_own_address:
  assumes "get_customer (db S) i = Some cu" "get_contact (db S) (username cu) = Some ct"
    and "email ct = Some x"
  shows "\<exists>ms. change_email cfg i (Some x) now S = (Inl (ValidationError ms), S)
              \<and> ''This email already used'' \<in> set ms"
proof -
  have "ct \<in> set (contacts (db S))" using assms(2) by (auto simp: get_contact_def find_Some_iff)
  then have "email_taken (db S) x" using assms(3) by (auto simp: email_taken_def list_ex_iff)
  then have "''This email already used'' \<in> set (change_email_errors (db S) x)"
    by (simp add: change_email_errors_def)
  then show ?thesis by (cases "change_email_errors (db S) x") (auto simp: change_email_def)
qed

text \<open>C12: a change request without the optional email field passes validation and then
  fails with \<^verbatim>\<open>KeyError\<close> (a server error) instead of a validation error.\<close>

theorem change_email_missing_field:
  assumes "get_customer (db S) i = Some cu" "email_verify cu = None"
    and "distinct_temp_emails (db S) i < email_verification_change_limit cfg"
  shows "change_email cfg i None now S = (Inl KeyError, S)"
  using assms by (simp add: change_email_def)

text \<open>C13: confirming a mobile code, or asking for a new one, for a customer that has no
  OTP ticket (for instance one registered by email) raises \<^verbatim>\<open>IndexError\<close>: both views
  index the ticket query set without checking that it is non-empty.\<close>

theorem mobile_no_ticket:
  assumes "1000 \<le> code" "code \<le> 9999"
    and "get_customer (db S) i = Some cu" "mobile_verify cu = None"
    and "latest_phone_change (db S) i \<noteq> None" "customer_otp_temps (db S) i = []"
  shows "verify_mobile cfg i code now S = (Inl IndexError, S)
    \<and> resend_mobile_code cfg i now' S = (Inl IndexError, S)"
  using assms by (auto simp: verify_mobile_def otp_errors_def resend_mobile_code_def split: option.splits)

lemma send_mobile_code_state:
  assumes "send_mobile_verification_code c t0 S = (Inr (), S1)" "contact_customer (db S) c = Some cu"
  shows "db S1 = (db S)\<lparr>next_id := Suc (next_id (db S)), otp_temps := otp_temps (db S) @
       [\<lparr>ot_id = next_id (db S), ot_customer = customer_id cu, ot_code = otp_code, ot_created_at = t0\<rparr>]\<rparr>
     \<and> jwt S1 = jwt S"
  using assms by (auto simp: send_mobile_verification_code_def fresh_id_def split: option.splits)

text \<open>C14: the code the task stores is the constant 1234, so anyone who knows a customer's
  id confirms its mobile number within the expiry time of the last code sent.\<close>

theorem send_then_verify_mobile:
  assumes "send_mobile_verification_code c t0 S = (Inr (), S1)" "contact_customer (db S) c = Some cu"
    and "get_customer (db S) (customer_id cu) = Some cu" "mobile_verify cu = None"
    and "latest_phone_change (db S) (customer_id cu) = Some pc" "\<not> truthy (new_mobile pc)"
    and "\<forall>t\<in>set (customer_otp_temps (db S) (customer_id cu)). ot_created_at t \<le> t0"
    and "now - t0 \<le> otp_expire_time cfg"
  shows "\<exists>r a S'. verify_mobile cfg (customer_id cu) 1234 now S1 = (Inr (Response 200 (TokenPair r a)), S')"
proof -
  let ?i = "customer_id cu"
  let ?k = "next_id (db S)"
  have d: "db S1 = (db S)\<lparr>next_id := Suc (next_id (db S)), otp_temps := otp_temps (db S) @
       [\<lparr>ot_id = ?k, ot_customer = ?i, ot_code = otp_code, ot_created_at = t0\<rparr>]\<rparr>"
    using send_mobile_code_state [OF assms(1,2)] by blast
  have g: "get_customer (db S1) ?i = Some cu" using assms(3) d by (simp add: get_customer_def)
  have l: "latest_phone_change (db S1) ?i = Some pc" using assms(5) d by (simp add: latest_phone_change_def)
  have n: "newest ot_created_at (customer_otp_temps (db S1) ?i) =
      Some \<lparr>ot_id = ?k, ot_customer = ?i, ot_code = otp_code, ot_created_at = t0\<rparr>"
    using assms(7) d by (simp add: customer_otp_temps_def newest_snoc)
  have ap: "apply_new_mobile (cu\<lparr>mobile_verify := Some now, is_active := True\<rparr>) (new_mobile pc) s = Inr s" for s
    using assms(6) by (simp add: apply_new_mobile_def)
  show ?thesis
    using g l n ap assms(4,8)
    by (simp add: verify_mobile_def otp_errors_def otp_code_def Let_def split: prod.splits)
qed

text \<open>C15: the mobile number of an unverified customer can be changed any number of times:
  unlike the email channel, no count of earlier targets is consulted.\<close>

theorem change_mobile_unbounded:
  assumes "mobile_errors (db S) m = []"
    and "get_customer (db S) i = Some cu" "mobile_verify cu = None"
    and "get_contact (db S) (username cu) = Some ct"
    and "save_contact (ct\<lparr>mobile := Some m\<rparr>) (db S) = Inr s1"
  shows "change_mobile i m now S =
    (Inr (Response 200 (Success ''Code sent'')),
     S\<lparr>db := s1, jobs := jobs S @ [SendMobileVerificationCode (username cu)]\<rparr>)"
  using assms by (simp add: change_mobile_def enqueue_def)

end
