(* ===== verification/Signup.thy ===== *)
theory Signup
  imports Verification NationalCode
begin

text \<open>
  Registration: \<^verbatim>\<open>SignupSerializer\<close> of
  \<^verbatim>\<open>src/authentication/apps/customer/serializers.py\<close> (field validation, the
  cross-field \<^verbatim>\<open>validate\<close>, and \<^verbatim>\<open>create\<close>, which inserts People, Contact, Customer
  and the two empty change rows one after the other), \<^verbatim>\<open>create_customer\<close> of
  \<^verbatim>\<open>managers.py\<close>, and the \<^verbatim>\<open>signup\<close> view of \<^verbatim>\<open>views.py\<close>, which queues the
  first verification job for the identifier given. DRF validates every field first and
  runs \<^verbatim>\<open>validate\<close> only when no field failed.
\<close>

record signup_request =
  req_email :: "string option"
  req_mobile :: "string option"
  req_national_code :: "string option"
  req_password :: "string option"
  req_agree :: "bool option"

section \<open>Validation\<close>

definition required_errors :: "string option \<Rightarrow> (string \<Rightarrow> string list) \<Rightarrow> string list" where
  "required_errors v f =
     (case v of None \<Rightarrow> [''This field is required.'']
      | Some x \<Rightarrow> if x = [] then [''This field may not be blank.''] else f x)"

definition optional_errors :: "string option \<Rightarrow> (string \<Rightarrow> string list) \<Rightarrow> string list" where
  "optional_errors v f =
     (case v of None \<Rightarrow> [] | Some x \<Rightarrow> if x = [] then [''This field may not be blank.''] else f x)"

definition national_code_errors :: "store \<Rightarrow> string \<Rightarrow> string list" where
  "national_code_errors s n =
     (if 10 < length n then [''Ensure this field has no more than 10 characters.''] else [])
     @ (case validate_national_code n of Inl (ValidationError ms) \<Rightarrow> ms | _ \<Rightarrow> [])
     @ (if national_code_taken s n then [''This national code already used''] else [])"

definition signup_field_errors :: "store \<Rightarrow> signup_request \<Rightarrow> string list" where
  "signup_field_errors s r =
     optional_errors (req_email r)
       (\<lambda>e. email_field_errors e @ (if email_taken s e then [''This email already used''] else []))
     @ optional_errors (req_mobile r) (mobile_errors s)
     @ required_errors (req_national_code r) (national_code_errors s)
     @ required_errors (req_password r) password_errors"

text \<open>\<^verbatim>\<open>SignupSerializer.validate\<close>.\<close>

definition signup_validate :: "signup_request \<Rightarrow> string list" where
  "signup_validate r =
     (if \<not> truthy (req_mobile r) \<and> \<not> truthy (req_email r)
      then [''Either mobile or email must be supplied'']
      else if truthy (req_mobile r) \<and> truthy (req_email r)
      then [''Just use one of email or mobile'']
      else if req_agree r \<noteq> Some True
      then [''User must agree with policy to register'']
      else [])"

definition signup_errors :: "store \<Rightarrow> signup_request \<Rightarrow> string list" where
  "signup_errors s r =
     (case signup_field_errors s r of [] \<Rightarrow> signup_validate r | es \<Rightarrow> es)"

section \<open>Creation\<close>

text \<open>\<^verbatim>\<open>ContactCustomerManager.create_customer\<close>: an inactive, unverified customer.\<close>

definition create_customer :: "uuid \<Rightarrow> string option \<Rightarrow> uuid option \<Rightarrow> store \<Rightarrow> uuid \<times> store" where
  "create_customer c pw owner s =
     (let (k, s1) = fresh_id s
      in (k, s1\<lparr>customers := customers s1 @
            [\<lparr>customer_id = k, username = c, password = make_password pw, customer_owner = owner,
              is_active = False, email_verify = None, mobile_verify = None, total_credit = 0\<rparr>]\<rparr>))"

text \<open>
  \<^verbatim>\<open>SignupSerializer.create\<close>, row by row; no transaction surrounds it, so a refused
  insert leaves the rows written before it. The result is the contact id and the
  customer id.
\<close>

definition signup_create :: "signup_request \<Rightarrow> time \<Rightarrow> store \<Rightarrow> (exn + uuid \<times> uuid) \<times> store" where
  "signup_create r now s =
     (let nc = (case req_national_code r of None \<Rightarrow> [] | Some x \<Rightarrow> x)
      in if national_code_taken s nc then (Inl IntegrityError, s)
      else
       (let (p, s1) = fresh_id s;
            s2 = s1\<lparr>peoples := peoples s1 @ [\<lparr>people_id = p, name = [], last_name = [], national_code = nc\<rparr>]\<rparr>;
            (c, s3) = fresh_id s2
        in case create_contact \<lparr>contact_id = c, contact_owner = Some p, email = req_email r,
                                  mobile = req_mobile r\<rparr> s3 of
             Inl e \<Rightarrow> (Inl e, s3)
           | Inr s4 \<Rightarrow>
              (let (cu, s5) = create_customer c (Some (case req_password r of None \<Rightarrow> [] | Some x \<Rightarrow> x)) (Some p) s4;
                   s6 = create_email_change cu None None now s5;
                   s7 = create_phone_change cu None None now s6
               in (Inr (c, cu), s7))))"

text \<open>The \<^verbatim>\<open>signup\<close> view: validate, create, queue the first verification, answer 201.\<close>

definition signup :: "signup_request \<Rightarrow> time \<Rightarrow> sys \<Rightarrow> outcome" where
  "signup r now S =
     (case signup_errors (db S) r of
        m # ms \<Rightarrow> (Inl (ValidationError (m # ms)), S)
      | [] \<Rightarrow>
        (case signup_create r now (db S) of
           (Inl e, s') \<Rightarrow> (Inl e, S\<lparr>db := s'\<rparr>)
         | (Inr (c, cu), s') \<Rightarrow>
            (let S1 = S\<lparr>db := s'\<rparr>;
                 S2 = (if truthy (req_email r) then enqueue (SendEmailVerification c) S1 else S1);
                 S3 = (if truthy (req_mobile r) then enqueue (SendMobileVerificationCode c) S2 else S2)
             in (Inr (Response 201 (CustomerData cu)), S3))))"

section \<open>Lemmas\<close>

lemma signup_create_Inr:
  assumes "signup_create r now s = (Inr (c, cu), s')"
  shows "c = Suc (next_id s) \<and> cu = Suc (Suc (next_id s))
    \<and> contacts s' = contacts s @ [prep_contact \<lparr>contact_id = c, contact_owner = Some (next_id s),
         email = req_email r, mobile = req_mobile r\<rparr>]
    \<and> customers s' = customers s @ [\<lparr>customer_id = cu, username = c,
         password = make_password (Some (case req_password r of None \<Rightarrow> [] | Some x \<Rightarrow> x)),
         customer_owner = Some (next_id s), is_active = False, email_verify = None,
         mobile_verify = None, total_credit = 0\<rparr>]
    \<and> email_changes s' = email_changes s @ [\<lparr>ec_id = Suc (Suc (Suc (next_id s))), ec_customer = cu,
         old_email = None, new_email = None, ec_created_at = now\<rparr>]
    \<and> phone_changes s' = phone_changes s @ [\<lparr>pc_id = Suc (Suc (Suc (Suc (next_id s)))), pc_customer = cu,
         old_mobile = None, new_mobile = None, pc_created_at = now\<rparr>]
    \<and> email_temps s' = email_temps s \<and> otp_temps s' = otp_temps s
    \<and> next_id s' = next_id s + 5"
  using assms
  by (auto simp: signup_create_def Let_def fresh_id_def create_contact_def create_customer_def
      create_email_change_def create_phone_change_def split: if_splits sum.splits prod.splits)

lemma signup_create_Inl:
  assumes "signup_create r now s = (Inl e, s')"
  shows "s' = s \<or> (e = IntegrityError \<and> customers s' = customers s \<and> contacts s' = contacts s
     \<and> peoples s' = peoples s @ [\<lparr>people_id = next_id s, name = [], last_name = [],
           national_code = (case req_national_code r of None \<Rightarrow> [] | Some x \<Rightarrow> x)\<rparr>])"
  using assms
  by (auto simp: signup_create_def Let_def fresh_id_def create_contact_def
      split: if_splits sum.splits prod.splits)


lemma optional_errors_Nil: "optional_errors v f = [] \<Longrightarrow> get_prep_value v = v"
  by (auto simp: optional_errors_def get_prep_value_def split: option.splits if_splits)

lemma required_errors_Nil: "required_errors v f = [] \<Longrightarrow> \<exists>x. v = Some x"
  by (auto simp: required_errors_def split: option.splits)

lemma signup_errors_Nil:
  assumes "signup_errors s r = []"
  shows "get_prep_value (req_email r) = req_email r \<and> get_prep_value (req_mobile r) = req_mobile r
    \<and> (\<exists>p. req_password r = Some p) \<and> truthy (req_email r) \<noteq> truthy (req_mobile r)
    \<and> req_agree r = Some True"
proof -
  have f: "signup_field_errors s r = []" and v: "signup_validate r = []"
    using assms by (auto simp: signup_errors_def split: list.splits)
  from f show ?thesis using v
    by (auto simp: signup_field_errors_def signup_validate_def split: if_splits
        dest!: optional_errors_Nil required_errors_Nil)
qed

text \<open>C16: a registration that answers 201 creates an inactive, unverified customer with the
  given password, a contact holding exactly the identifier supplied, the change rows the
  verification views read, and queues one verification job, for that identifier.\<close>

theorem signup_registers:
  assumes "signup r now S = (Inr (Response 201 (CustomerData cu)), S')" "ids_below (db S)"
  shows "\<exists>c cust ct p. get_customer (db S') cu = Some cust \<and> username cust = c
    \<and> \<not> is_active cust \<and> email_verify cust = None \<and> mobile_verify cust = None
    \<and> req_password r = Some p \<and> check_password (password cust) p
    \<and> get_contact (db S') c = Some ct \<and> email ct = req_email r \<and> mobile ct = req_mobile r
    \<and> latest_email_change (db S') cu \<noteq> None \<and> latest_phone_change (db S') cu \<noteq> None
    \<and> jobs S' = jobs S @ [if truthy (req_email r) then SendEmailVerification c
                          else SendMobileVerificationCode c]"
proof -
  obtain c s' where e: "signup_errors (db S) r = []" and cr: "signup_create r now (db S) = (Inr (c, cu), s')"
    and db: "db S' = s'"
    and jb: "jobs S' = jobs S @ (if truthy (req_email r) then [SendEmailVerification c] else [])
                @ (if truthy (req_mobile r) then [SendMobileVerificationCode c] else [])"
    using assms(1)
    by (auto simp: signup_def Let_def enqueue_def split: list.splits sum.splits prod.splits)
  note v = signup_errors_Nil [OF e]
  note rows = signup_create_Inr [OF cr]
  obtain p where pw: "req_password r = Some p" using v by blast
  have j: "jobs S' = jobs S @ [if truthy (req_email r) then SendEmailVerification c
                               else SendMobileVerificationCode c]"
    using jb v by auto
  let ?cust = "\<lparr>customer_id = cu, username = c, password = make_password (Some p),
         customer_owner = Some (next_id (db S)), is_active = False, email_verify = None,
         mobile_verify = None, total_credit = 0\<rparr>"
  have gc: "get_customer s' cu = Some ?cust"
    using rows assms(2) pw by (auto simp: get_customer_def ids_below_def intro!: find_append_fresh)
  have gt: "get_contact s' c = Some (prep_contact \<lparr>contact_id = c, contact_owner = Some (next_id (db S)),
         email = req_email r, mobile = req_mobile r\<rparr>)"
    using rows assms(2) by (auto simp: get_contact_def ids_below_def prep_contact_def intro!: find_append_fresh)
  have le: "latest_email_change s' cu \<noteq> None" "latest_phone_change s' cu \<noteq> None"
    using rows by (simp_all add: latest_email_change_def latest_phone_change_def newest_None_iff)
  show ?thesis
    using gc gt le db j pw v rows
    by (auto simp: prep_contact_def make_password_def check_password_def)
qed

text \<open>A registration with both identifiers or with neither, or without the policy
  agreement, is refused with a validation error and writes nothing.\<close>

theorem signup_rejects:
  assumes "truthy (req_email r) = truthy (req_mobile r) \<or> req_agree r \<noteq> Some True"
  shows "\<exists>ms. signup r now S = (Inl (ValidationError ms), S)"
proof -
  have "signup_errors (db S) r \<noteq> []" using assms signup_errors_Nil by blast
  then show ?thesis by (auto simp: signup_def split: list.splits)
qed

text \<open>C17: registration is not atomic: when the contact insert is refused, the People row
  written before it stays, and its national code then counts as already used.\<close>

theorem signup_create_partial:
  assumes "signup_create r now s = (Inl e, s')" "req_national_code r = Some n"
    and "\<not> national_code_taken s n"
  shows "e = IntegrityError \<and> national_code_taken s' n \<and> customers s' = customers s
    \<and> contacts s' = contacts s"
proof -
  have "s' \<noteq> s"
  proof
    assume "s' = s"
    with assms show False
      by (auto simp: signup_create_def Let_def fresh_id_def split: if_splits sum.splits prod.splits
          dest: arg_cong [where f = next_id])
  qed
  with signup_create_Inl [OF assms(1)] assms(2) show ?thesis
    by (auto simp: national_code_taken_def)
qed

end
