(* ===== verification/Scenarios.thy ===== *)
theory Scenarios
  imports Signup
begin

text \<open>
  Concrete states of the service, built row by row, on which the workflow theorems are
  applied: their hypotheses are evaluated by the simplifier on these states, which shows
  that each theorem speaks about situations the service really reaches. The customer 1
  owns contact 10 (email \<^verbatim>\<open>a@x.io\<close>, mobile \<^verbatim>\<open>09123456789\<close>), registered at time 0
  with one email ticket (id 5) and the empty change rows signup creates; contact 11 holds
  \<^verbatim>\<open>b@x.io\<close>.
\<close>

definition demo_customer :: customer where
  "demo_customer = \<lparr>customer_id = 1, username = 10, password = Hashed ''secret12'',
     customer_owner = None, is_active = False, email_verify = None, mobile_verify = None,
     total_credit = 0\<rparr>"

definition demo_contact :: contact where
  "demo_contact = \<lparr>contact_id = 10, contact_owner = None, email = Some ''a@x.io'',
     mobile = Some ''09123456789''\<rparr>"

definition demo_temp :: email_temp where
  "demo_temp = \<lparr>et_id = 5, et_customer = 1, et_email = ''a@x.io'', et_created_at = 0\<rparr>"

definition demo_email_change :: email_change where
  "demo_email_change = \<lparr>ec_id = 20, ec_customer = 1, old_email = None, new_email = None,
     ec_created_at = 0\<rparr>"

definition demo_phone_change :: phone_change where
  "demo_phone_change = \<lparr>pc_id = 21, pc_customer = 1, old_mobile = None, new_mobile = None,
     pc_created_at = 0\<rparr>"

definition demo_store :: store where
  "demo_store = \<lparr>contacts = [demo_contact,
       \<lparr>contact_id = 11, contact_owner = None, email = Some ''b@x.io'', mobile = None\<rparr>],
     customers = [demo_customer], peoples = [], email_temps = [demo_temp], otp_temps = [],
     email_changes = [demo_email_change], phone_changes = [demo_phone_change], next_id = 30\<rparr>"

definition demo_sys :: sys where
  "demo_sys = init_sys\<lparr>db := demo_store\<rparr>"

text \<open>A pending profile change to \<^verbatim>\<open>b@x.io\<close>, an address contact 11 holds.\<close>

definition clash_sys :: sys where
  "clash_sys = init_sys\<lparr>db := demo_store\<lparr>email_changes :=
     [demo_email_change\<lparr>new_email := Some ''b@x.io''\<rparr>]\<rparr>\<rparr>"

text \<open>Tickets for three distinct addresses.\<close>

definition limit_sys :: sys where
  "limit_sys = init_sys\<lparr>db := demo_store\<lparr>email_temps := [demo_temp,
     demo_temp\<lparr>et_id := 6, et_email := ''c@x.io''\<rparr>, demo_temp\<lparr>et_id := 7, et_email := ''d@x.io''\<rparr>]\<rparr>\<rparr>"

text \<open>Registrations: a mobile-only request spelling the number of contact 10 with the
  \<^verbatim>\<open>+98\<close> prefix; a request giving both identifiers; an email-only request for an
  address contact 11 holds.\<close>

definition alias_request :: signup_request where
  "alias_request = \<lparr>req_email = None, req_mobile = Some ''+989123456789'',
     req_national_code = Some ''0000000051'', req_password = Some ''abcdefg1'', req_agree = Some True\<rparr>"

definition both_request :: signup_request where
  "both_request = alias_request\<lparr>req_email := Some ''c@x.io''\<rparr>"

definition taken_request :: signup_request where
  "taken_request = alias_request\<lparr>req_email := Some ''b@x.io'', req_mobile := None\<rparr>"

lemmas demo_defs = demo_sys_def clash_sys_def limit_sys_def demo_store_def demo_customer_def
  demo_contact_def demo_temp_def demo_email_change_def demo_phone_change_def init_sys_def
  empty_store_def empty_jwt_def authentication_customer_def
  alias_request_def both_request_def taken_request_def

lemmas view_defs = verify_email_def resend_email_def change_email_def verify_mobile_def
  resend_mobile_code_def change_mobile_def get_customer_def get_contact_def latest_email_change_def
  latest_phone_change_def customer_email_temps_def customer_otp_temps_def save_customer_def
  apply_new_email_def delete_email_temps_def save_email_change_def refresh_token_def for_user_def
  save_contact_def prep_contact_def contact_clash_def enqueue_def

section \<open>Witnesses of the email channel\<close>

lemma demo_verify_email:
  "\<exists>r a S'. verify_email authentication_customer 1 5 50 demo_sys = (Inr (Response 200 (TokenPair r a)), S')"
  by (simp add: view_defs demo_defs Let_def)

lemma verify_email_reconfirm_witness:
  "\<exists>r a S'. verify_email authentication_customer 1 5 50 demo_sys = (Inr (Response 200 (TokenPair r a)), S')
     \<and> verify_email authentication_customer 1 5 60 S' = (Inr (Response 200 (Success ''Email already activated'')), S')"
proof -
  obtain r a S' where eq: "verify_email authentication_customer 1 5 50 demo_sys = (Inr (Response 200 (TokenPair r a)), S')"
    using demo_verify_email by blast
  show ?thesis using eq verify_email_reconfirm [OF eq] by blast
qed

lemma verify_email_confirms_witness:
  "\<exists>r a S' cu ec. verify_email authentication_customer 1 5 50 demo_sys = (Inr (Response 200 (TokenPair r a)), S')
     \<and> get_customer (db S') 1 = Some (cu\<lparr>email_verify := Some 50, is_active := True\<rparr>)
     \<and> latest_email_change (db demo_sys) 1 = Some ec \<and> customer_email_temps (db S') 1 = [] \<and> token_user r = 1"
proof -
  obtain r a S' where eq: "verify_email authentication_customer 1 5 50 demo_sys = (Inr (Response 200 (TokenPair r a)), S')"
    using demo_verify_email by blast
  show ?thesis using eq verify_email_confirms [OF eq] by blast
qed

lemma verify_email_expired_witness:
  "get_customer (db demo_sys) 1 = Some demo_customer \<and> email_verify demo_customer = None
   \<and> latest_email_change (db demo_sys) 1 \<noteq> None
   \<and> find (\<lambda>t. et_id t = 5) (customer_email_temps (db demo_sys) 1) = Some demo_temp
   \<and> email_verification_expire_time authentication_customer < 200 - et_created_at demo_temp
   \<and> verify_email authentication_customer 1 5 200 demo_sys = (Inr (Response 400 (Error ''Expired'')), demo_sys)"
proof -
  have h: "get_customer (db demo_sys) 1 = Some demo_customer" "email_verify demo_customer = None"
    "latest_email_change (db demo_sys) 1 \<noteq> None"
    "find (\<lambda>t. et_id t = 5) (customer_email_temps (db demo_sys) 1) = Some demo_temp"
    "email_verification_expire_time authentication_customer < 200 - et_created_at demo_temp"
    by (simp_all add: view_defs demo_defs)
  show ?thesis using h verify_email_expired [OF h] by simp
qed

lemma verify_email_partial_commit_witness:
  "\<exists>e S'. verify_email authentication_customer 1 5 50 clash_sys = (Inl e, S') \<and> S' \<noteq> clash_sys
     \<and> (\<exists>cu. get_customer (db S') 1 = Some (cu\<lparr>email_verify := Some 50, is_active := True\<rparr>)
          \<and> customer_email_temps (db S') 1 = customer_email_temps (db clash_sys) 1)"
proof -
  have eq: "verify_email authentication_customer 1 5 50 clash_sys =
      (Inl IntegrityError, clash_sys\<lparr>db := save_customer
         (demo_customer\<lparr>email_verify := Some 50, is_active := True\<rparr>) (db clash_sys)\<rparr>)"
    by (simp add: view_defs demo_defs Let_def)
  have ne: "clash_sys\<lparr>db := save_customer
         (demo_customer\<lparr>email_verify := Some 50, is_active := True\<rparr>) (db clash_sys)\<rparr> \<noteq> clash_sys"
    by (simp add: demo_defs save_customer_def)
  show ?thesis using eq ne verify_email_partial_commit [OF eq ne] by blast
qed

lemma resend_email_cooldown_witness:
  "get_customer (db demo_sys) 1 = Some demo_customer
   \<and> newest et_created_at (customer_email_temps (db demo_sys) 1) = Some demo_temp
   \<and> resend_email authentication_customer 1 50 demo_sys =
       (Inr (Response 400 (WaitError ''to request to resend email'' 50)), demo_sys)
   \<and> resend_email authentication_customer 1 150 demo_sys =
       (Inr (Response 200 (Success ''Email resent'')), demo_sys\<lparr>jobs := [SendEmailVerification 10]\<rparr>)"
proof -
  have h: "get_customer (db demo_sys) 1 = Some demo_customer" "email_verify demo_customer = None"
    "newest et_created_at (customer_email_temps (db demo_sys) 1) = Some demo_temp"
    by (simp_all add: view_defs demo_defs)
  show ?thesis
    using h resend_email_cooldown [OF h, of authentication_customer 50]
      resend_email_cooldown [OF h, of authentication_customer 150]
    by (simp add: demo_defs)
qed

lemma change_email_limit_witness:
  "change_email_errors (db limit_sys) ''e@x.io'' = [] \<and> distinct_temp_emails (db limit_sys) 1 = 3
   \<and> change_email authentication_customer 1 (Some ''e@x.io'') 0 limit_sys =
       (Inr (Response 400 (Error ''Max email change request exceeded'')), limit_sys)"
proof -
  have h: "change_email_errors (db limit_sys) ''e@x.io'' = []"
    "get_customer (db limit_sys) 1 = Some demo_customer" "email_verify demo_customer = None"
    "email_verification_change_limit authentication_customer \<le> distinct_temp_emails (db limit_sys) 1"
    by (code_simp, simp_all add: view_defs demo_defs distinct_temp_emails_def)
  have "distinct_temp_emails (db limit_sys) 1 = 3"
    by (simp add: demo_defs distinct_temp_emails_def customer_email_temps_def)
  then show ?thesis using h change_email_limit [OF h] by simp
qed

lemma change_email_own_address_witness:
  "\<exists>ms. change_email authentication_customer 1 (Some ''a@x.io'') 0 demo_sys = (Inl (ValidationError ms), demo_sys)
      \<and> ''This email already used'' \<in> set ms"
proof -
  have h: "get_customer (db demo_sys) 1 = Some demo_customer"
    "get_contact (db demo_sys) (username demo_customer) = Some demo_contact"
    "email demo_contact = Some ''a@x.io''"
    by (simp_all add: view_defs demo_defs)
  show ?thesis using change_email_own_address [OF h] by blast
qed

lemma change_email_missing_field_witness:
  "distinct_temp_emails (db demo_sys) 1 = 1
   \<and> change_email authentication_customer 1 None 0 demo_sys = (Inl KeyError, demo_sys)"
proof -
  have h: "get_customer (db demo_sys) 1 = Some demo_customer" "email_verify demo_customer = None"
    "distinct_temp_emails (db demo_sys) 1 < email_verification_change_limit authentication_customer"
    by (simp_all add: view_defs demo_defs distinct_temp_emails_def)
  have "distinct_temp_emails (db demo_sys) 1 = 1"
    by (simp add: demo_defs distinct_temp_emails_def customer_email_temps_def)
  then show ?thesis using change_email_missing_field [OF h] by simp
qed

section \<open>Witnesses of the mobile channel\<close>

lemma mobile_no_ticket_witness:
  "customer_otp_temps (db demo_sys) 1 = []
   \<and> verify_mobile authentication_customer 1 1234 0 demo_sys = (Inl IndexError, demo_sys)
   \<and> resend_mobile_code authentication_customer 1 0 demo_sys = (Inl IndexError, demo_sys)"
proof -
  have h: "1000 \<le> (1234::int)" "(1234::int) \<le> 9999"
    "get_customer (db demo_sys) 1 = Some demo_customer" "mobile_verify demo_customer = None"
    "latest_phone_change (db demo_sys) 1 \<noteq> None" "customer_otp_temps (db demo_sys) 1 = []"
    by (simp_all add: view_defs demo_defs)
  show ?thesis using h mobile_no_ticket [OF h] by simp
qed

lemma send_then_verify_mobile_witness:
  "\<exists>S1 r a S'. send_mobile_verification_code 10 0 demo_sys = (Inr (), S1)
      \<and> verify_mobile authentication_customer 1 1234 60 S1 = (Inr (Response 200 (TokenPair r a)), S')"
proof -
  obtain S1 where s: "send_mobile_verification_code 10 0 demo_sys = (Inr (), S1)"
    by (simp add: send_mobile_verification_code_def view_defs demo_defs contact_customer_def fresh_id_def)
  have h: "contact_customer (db demo_sys) 10 = Some demo_customer"
    "get_customer (db demo_sys) (customer_id demo_customer) = Some demo_customer"
    "mobile_verify demo_customer = None"
    "latest_phone_change (db demo_sys) (customer_id demo_customer) = Some demo_phone_change"
    "\<not> truthy (new_mobile demo_phone_change)"
    "\<forall>t\<in>set (customer_otp_temps (db demo_sys) (customer_id demo_customer)). ot_created_at t \<le> 0"
    "60 - 0 \<le> otp_expire_time authentication_customer"
    by (simp_all add: view_defs demo_defs contact_customer_def)
  have "customer_id demo_customer = 1" by (simp add: demo_defs)
  then show ?thesis using s send_then_verify_mobile [OF s h] by auto
qed

lemma change_mobile_unbounded_witness:
  "\<exists>s1. change_mobile 1 ''09351234567'' 0 demo_sys =
     (Inr (Response 200 (Success ''Code sent'')),
      demo_sys\<lparr>db := s1, jobs := [SendMobileVerificationCode 10]\<rparr>)"
proof -
  obtain s1 where sv: "save_contact (demo_contact\<lparr>mobile := Some ''09351234567''\<rparr>) (db demo_sys) = Inr s1"
    by (simp add: view_defs demo_defs)
  have h: "mobile_errors (db demo_sys) ''09351234567'' = []"
    "get_customer (db demo_sys) 1 = Some demo_customer" "mobile_verify demo_customer = None"
    "get_contact (db demo_sys) (username demo_customer) = Some demo_contact"
    by (code_simp, simp_all add: view_defs demo_defs)
  show ?thesis using change_mobile_unbounded [OF h sv] by (simp add: demo_defs)
qed

section \<open>Registration\<close>

lemma alias_request_valid: "signup_errors (db demo_sys) alias_request = []"
  by code_simp

lemma demo_signup:
  "signup alias_request 0 demo_sys = (Inr (Response 201 (CustomerData 32)),
     snd (signup alias_request 0 demo_sys))"
  unfolding signup_def alias_request_valid
  by (simp add: demo_defs signup_create_def Let_def fresh_id_def create_contact_def prep_contact_def
      contact_clash_def create_customer_def create_email_change_def create_phone_change_def
      national_code_taken_def)

lemma signup_registers_witness:
  "ids_below (db demo_sys) \<and> (\<exists>c cust. get_customer (db (snd (signup alias_request 0 demo_sys))) 32 = Some cust
     \<and> username cust = c \<and> \<not> is_active cust
     \<and> jobs (snd (signup alias_request 0 demo_sys)) = [SendMobileVerificationCode c])"
proof -
  have i: "ids_below (db demo_sys)" by (simp add: demo_defs ids_below_def)
  have j: "jobs demo_sys = []" by (simp add: demo_defs)
  have t: "\<not> truthy (req_email alias_request)" by (simp add: demo_defs)
  show ?thesis using signup_registers [OF demo_signup i] i j t by auto
qed

lemma signup_rejects_witness:
  "truthy (req_email both_request) = truthy (req_mobile both_request)
   \<and> (\<exists>ms. signup both_request 0 demo_sys = (Inl (ValidationError ms), demo_sys))"
proof -
  have h: "truthy (req_email both_request) = truthy (req_mobile both_request)"
    by (simp add: demo_defs)
  show ?thesis using h signup_rejects [of both_request] by blast
qed

lemma signup_create_partial_witness:
  "\<exists>e s'. signup_create taken_request 0 demo_store = (Inl e, s')
     \<and> \<not> national_code_taken demo_store ''0000000051'' \<and> national_code_taken s' ''0000000051''"
proof -
  have eq: "signup_create taken_request 0 demo_store = (Inl IntegrityError,
      snd (signup_create taken_request 0 demo_store))"
    by (simp add: demo_defs signup_create_def Let_def fresh_id_def create_contact_def prep_contact_def
      contact_clash_def national_code_taken_def)
  have n: "req_national_code taken_request = Some ''0000000051''" "\<not> national_code_taken demo_store ''0000000051''"
    by (simp_all add: demo_defs national_code_taken_def)
  show ?thesis using eq n signup_create_partial [OF eq n] by blast
qed

text \<open>C18: the mobile regex accepts several spellings of one number and the uniqueness check
  compares strings, so a second customer registers with \<^verbatim>\<open>+989123456789\<close> while
  \<^verbatim>\<open>09123456789\<close>, the same subscriber number, is already registered.\<close>

theorem signup_mobile_alias:
  "mobile_taken (db demo_sys) ''09123456789''
   \<and> drop 1 ''09123456789'' = drop 3 ''+989123456789''
   \<and> (\<exists>cu S'. signup alias_request 0 demo_sys = (Inr (Response 201 (CustomerData cu)), S')
        \<and> mobile_taken (db S') ''09123456789'' \<and> mobile_taken (db S') ''+989123456789'')"
proof -
  have m: "mobile_taken (db demo_sys) ''09123456789''"
    by (simp add: demo_defs mobile_taken_def)
  have "mobile_taken (db (snd (signup alias_request 0 demo_sys))) ''09123456789''
      \<and> mobile_taken (db (snd (signup alias_request 0 demo_sys))) ''+989123456789''"
    unfolding signup_def alias_request_valid
    by (simp add: demo_defs signup_create_def Let_def fresh_id_def create_contact_def prep_contact_def
      contact_clash_def create_customer_def create_email_change_def create_phone_change_def
      national_code_taken_def mobile_taken_def enqueue_def)
  moreover have "drop 1 ''09123456789'' = drop 3 ''+989123456789''" by simp
  ultimately show ?thesis using m demo_signup by blast
qed

end
