(* ===== verification/Signin.thy ===== *)
theory Signin
  imports Signup
begin

text \<open>
  Sign-in: \<^verbatim>\<open>SigninSerializer\<close> (\<^verbatim>\<open>src/authentication/apps/customer/serializers.py\<close>),
  the authentication backend \<^verbatim>\<open>EmailMobileAuthentication\<close>
  (\<^verbatim>\<open>src/authentication/apps/customer/authentication.py\<close>), the recaptcha check
  \<^verbatim>\<open>validate_recaptcha\<close> (\<^verbatim>\<open>src/authentication/apps/customer/utils.py\<close>) and the
  \<^verbatim>\<open>signin\<close> view with its failure counter in the cache. The view is split where
  it reads the counter: \<open>signin_check\<close> runs up to the lockout test and hands the key
  and the count it read to \<open>signin_auth\<close>, which authenticates and writes the counter.
  \<open>signin\<close> composes the two, as the view runs them; two requests interleaved between
  the phases show what the non-atomic read-then-write does.
\<close>

section \<open>Requests and the recaptcha service\<close>

record signin_request =
  si_email :: "string option"
  si_mobile :: "string option"
  si_password :: "string option"
  si_recaptcha :: "string option"

text \<open>
  JSON values as \<^verbatim>\<open>json.loads\<close> returns them, with Python's truth value: \<^verbatim>\<open>None\<close>,
  zero, the empty string, list and dict are false. A number is its literal
  \<open>m \<cdot> 10\<^sup>e\<close> (mantissa and decimal exponent); it is zero exactly when \<open>m\<close> is (a float
  literal below the smallest subnormal, which Python rounds to \<^verbatim>\<open>0.0\<close>, is outside
  the model).
\<close>

datatype json = JNull | JBool bool | JNumber int int | JString string
  | JArray "json list" | JObject "(string \<times> json) list"

fun py_truthy :: "json \<Rightarrow> bool" where
  "py_truthy JNull = False"
| "py_truthy (JBool b) = b"
| "py_truthy (JNumber m e) = (m \<noteq> 0)"
| "py_truthy (JString s) = (s \<noteq> [])"
| "py_truthy (JArray xs) = (xs \<noteq> [])"
| "py_truthy (JObject ms) = (ms \<noteq> [])"

text \<open>
  What \<^verbatim>\<open>requests.post(URL, data).json()\<close> gives back: a request exception, or the
  members of the JSON object the service answers, in document order (the siteverify API
  always answers an object). The service is a parameter of the view: the model makes no
  assumption about its answers.
\<close>

datatype captcha_reply = CaptchaRequestException | CaptchaJson "(string \<times> json) list"

text \<open>
  \<^verbatim>\<open>validation_response.get("success", False)\<close> read for its truth value; of repeated
  members \<^verbatim>\<open>json.loads\<close> keeps the last.
\<close>

definition validate_recaptcha :: "(string \<Rightarrow> captcha_reply) \<Rightarrow> string \<Rightarrow> bool" where
  "validate_recaptcha service r =
     (case service r of
        CaptchaRequestException \<Rightarrow> False
      | CaptchaJson ms \<Rightarrow> (case map_of (rev ms) ''success'' of None \<Rightarrow> False | Some v \<Rightarrow> py_truthy v))"

section \<open>SigninSerializer\<close>

definition signin_field_errors :: "signin_request \<Rightarrow> string list" where
  "signin_field_errors r =
     optional_errors (si_email r) (\<lambda>e. if email_format e then [] else [''Enter a valid email address.''])
     @ optional_errors (si_mobile r) (\<lambda>m. if mobile_regex m then [] else [''Enter a valid mobile''])
     @ required_errors (si_password r) (\<lambda>p. [])
     @ optional_errors (si_recaptcha r) (\<lambda>c. [])"

definition signin_validate :: "settings \<Rightarrow> signin_request \<Rightarrow> string list" where
  "signin_validate cfg r =
     (if recaptcha_enabled cfg \<and> \<not> truthy (si_recaptcha r) then [''Recaptcha required'']
      else if \<not> truthy (si_mobile r) \<and> \<not> truthy (si_email r)
      then [''Either mobile or email must be supplied'']
      else if truthy (si_mobile r) \<and> truthy (si_email r)
      then [''Just use one of email or mobile'']
      else [])"

definition signin_errors :: "settings \<Rightarrow> signin_request \<Rightarrow> string list" where
  "signin_errors cfg r =
     (case signin_field_errors r of [] \<Rightarrow> signin_validate cfg r | es \<Rightarrow> es)"

section \<open>EmailMobileAuthentication\<close>

text \<open>
  \<^verbatim>\<open>ModelBackend.user_can_authenticate(user)\<close>: \<^verbatim>\<open>getattr(user, "is_active", None)\<close>
  is true or absent. The argument is the object's \<^verbatim>\<open>is_active\<close> attribute, \<open>None\<close>
  when it has none. The backend passes it \<^verbatim>\<open>customer.username\<close>, a \<^verbatim>\<open>Contact\<close>,
  which declares no \<^verbatim>\<open>is_active\<close>: the call sites below pass \<open>None\<close>.
\<close>

definition user_can_authenticate :: "bool option \<Rightarrow> bool" where
  "user_can_authenticate a = (case a of None \<Rightarrow> True | Some b \<Rightarrow> b)"

text \<open>
  The body shared by the email and the mobile branch: the contact found by the unique
  lookup, its customer (\<^verbatim>\<open>contact.customer\<close>; a missing one raises
  \<^verbatim>\<open>DoesNotExist\<close>, caught), and the password check.
\<close>

definition authenticate_contact :: "store \<Rightarrow> contact option \<Rightarrow> string \<Rightarrow> customer option" where
  "authenticate_contact s c pw =
     (case c of
        None \<Rightarrow> None
      | Some ct \<Rightarrow>
        (case contact_customer s (contact_id ct) of
           None \<Rightarrow> None
         | Some cu \<Rightarrow> if check_password (password cu) pw \<and> user_can_authenticate None
                     then Some cu else None))"

definition authenticate :: "store \<Rightarrow> string option \<Rightarrow> string option \<Rightarrow> string \<Rightarrow> customer option" where
  "authenticate s e m pw =
     (if truthy e then authenticate_contact s (find (\<lambda>c. email c = e) (contacts s)) pw
      else if truthy m then authenticate_contact s (find (\<lambda>c. mobile c = m) (contacts s)) pw
      else None)"

text \<open>\<^verbatim>\<open>get_user(contact_id)\<close>: looks the id up among customers.\<close>

definition get_user :: "store \<Rightarrow> uuid \<Rightarrow> customer option" where
  "get_user s i =
     (case get_customer s i of
        None \<Rightarrow> None
      | Some cu \<Rightarrow> if user_can_authenticate None then Some cu else None)"

section \<open>The signin view\<close>

definition auth_failure_key :: "string \<Rightarrow> string \<Rightarrow> string" where
  "auth_failure_key u ip = ''LOGIN_FAILURES_OF_'' @ u @ ''_AT_'' @ ip"

definition login_username :: "signin_request \<Rightarrow> string" where
  "login_username r =
     (if truthy (si_email r) then (case si_email r of None \<Rightarrow> [] | Some e \<Rightarrow> e)
      else if truthy (si_mobile r) then (case si_mobile r of None \<Rightarrow> [] | Some m \<Rightarrow> m)
      else [])"

definition lockout_time_in_mins :: int where
  "lockout_time_in_mins = 10"

text \<open>\<^verbatim>\<open>cache.get(auth_failure_key) or 0\<close>.\<close>

definition failure_count :: "string \<Rightarrow> time \<Rightarrow> cache \<Rightarrow> nat" where
  "failure_count key now c = (case cache_get key now c of None \<Rightarrow> 0 | Some n \<Rightarrow> n)"

text \<open>The recaptcha branch: checked only when \<^verbatim>\<open>RECAPTCHA["ENABLED"]\<close>.\<close>

definition captcha_ok :: "settings \<Rightarrow> (string \<Rightarrow> captcha_reply) \<Rightarrow> signin_request \<Rightarrow> bool" where
  "captcha_ok cfg service r =
     (if recaptcha_enabled cfg
      then validate_recaptcha service (case si_recaptcha r of None \<Rightarrow> [] | Some c \<Rightarrow> c)
      else True)"

text \<open>
  First phase (lines 213--245): validation, recaptcha, the counter read
  (\<^verbatim>\<open>cache.get(key) or 0\<close>) and the lockout test. It either answers or passes on
  the key and the count read. The request's source address is \<open>ip\<close>.
\<close>

definition signin_check ::
  "settings \<Rightarrow> (string \<Rightarrow> captcha_reply) \<Rightarrow> signin_request \<Rightarrow> string \<Rightarrow> time \<Rightarrow> sys
   \<Rightarrow> outcome + string \<times> nat" where
  "signin_check cfg service r ip now S =
     (case signin_errors cfg r of
        m # ms \<Rightarrow> Inl (Inl (ValidationError (m # ms)), S)
      | [] \<Rightarrow>
        if \<not> captcha_ok cfg service r
        then Inl (Inr (Response 401 (Detail ''Wrong Captcha.'')), S)
        else
         (let key = auth_failure_key (login_username r) ip;
              failures = failure_count key now (cache S)
          in if 4 \<le> failures
             then Inl (Inr (Response 401 (Detail ''Username is locked out. Try in 10 minutes.'')), S)
             else Inr (key, failures)))"

text \<open>
  Second phase (lines 247--277): authenticate; on failure write the count read plus one
  with a fresh ten-minute timeout, on success delete the counter, then refuse an
  inactive customer or answer with a token pair.
\<close>

abbreviation signin_pw :: "signin_request \<Rightarrow> string" where
  "signin_pw r \<equiv> case si_password r of None \<Rightarrow> [] | Some p \<Rightarrow> p"

definition signin_auth :: "signin_request \<Rightarrow> string \<Rightarrow> nat \<Rightarrow> time \<Rightarrow> sys \<Rightarrow> outcome" where
  "signin_auth r key failures now S =
     (case authenticate (db S) (si_email r) (si_mobile r) (signin_pw r) of
        None \<Rightarrow> (Inr (Response 401 (DetailFailures ''Invalid username/password.'' failures)),
                 S\<lparr>cache := cache_set key (Suc failures) (lockout_time_in_mins * 60) now (cache S)\<rparr>)
      | Some cu \<Rightarrow>
        (let S1 = S\<lparr>cache := cache_delete key (cache S)\<rparr>
         in if \<not> is_active cu
            then (Inr (Response 401 (Detail ''Customer account is disabled.'')), S1)
            else (let ((rt, at), S2) = refresh_token cu now S1
                  in (Inr (Response 200 (TokenPair rt at)), S2))))"

definition signin ::
  "settings \<Rightarrow> (string \<Rightarrow> captcha_reply) \<Rightarrow> signin_request \<Rightarrow> string \<Rightarrow> time \<Rightarrow> sys \<Rightarrow> outcome" where
  "signin cfg service r ip now S =
     (case signin_check cfg service r ip now S of
        Inl out \<Rightarrow> out
      | Inr (key, failures) \<Rightarrow> signin_auth r key failures now S)"

text \<open>The same request repeated from one source address at the given times.\<close>

fun signin_attempts ::
  "settings \<Rightarrow> (string \<Rightarrow> captcha_reply) \<Rightarrow> signin_request \<Rightarrow> string \<Rightarrow> time list \<Rightarrow> sys \<Rightarrow> sys" where
  "signin_attempts cfg service r ip [] S = S"
| "signin_attempts cfg service r ip (t # ts) S =
     signin_attempts cfg service r ip ts (snd (signin cfg service r ip t S))"

text \<open>Consecutive failures within the ten-minute lockout timeout.\<close>

abbreviation lock_window :: "time \<Rightarrow> time \<Rightarrow> bool" where
  "lock_window a b \<equiv> a \<le> b \<and> b < a + 600"

section \<open>Lemmas\<close>

lemma signin_check_Inr:
  "signin_check cfg service r ip now S = Inr (k, n) \<Longrightarrow>
   signin_errors cfg r = [] \<and> captcha_ok cfg service r \<and> k = auth_failure_key (login_username r) ip
   \<and> n = failure_count k now (cache S) \<and> n < 4"
  by (auto simp: signin_check_def Let_def split: list.splits if_splits)

lemma signin_check_pass:
  "signin_errors cfg r = [] \<Longrightarrow> captcha_ok cfg service r \<Longrightarrow>
   failure_count (auth_failure_key (login_username r) ip) now (cache S) < 4 \<Longrightarrow>
   signin_check cfg service r ip now S =
     Inr (auth_failure_key (login_username r) ip, failure_count (auth_failure_key (login_username r) ip) now (cache S))"
  by (simp add: signin_check_def Let_def)

lemma signin_check_locked:
  "signin_errors cfg r = [] \<Longrightarrow> captcha_ok cfg service r \<Longrightarrow>
   4 \<le> failure_count (auth_failure_key (login_username r) ip) now (cache S) \<Longrightarrow>
   signin_check cfg service r ip now S =
     Inl (Inr (Response 401 (Detail ''Username is locked out. Try in 10 minutes.'')), S)"
  by (simp add: signin_check_def Let_def)

lemma signin_auth_fail:
  "authenticate (db S) (si_email r) (si_mobile r) (signin_pw r) = None \<Longrightarrow>
   signin_auth r k n now S =
     (Inr (Response 401 (DetailFailures ''Invalid username/password.'' n)),
      S\<lparr>cache := cache_set k (Suc n) 600 now (cache S)\<rparr>)"
  by (simp add: signin_auth_def lockout_time_in_mins_def)

lemma signin_auth_success:
  assumes "authenticate (db S) (si_email r) (si_mobile r) (signin_pw r) = Some cu"
  shows "cache (snd (signin_auth r k n now S)) = cache_delete k (cache S)
    \<and> (if is_active cu
       then (\<exists>rt at. fst (signin_auth r k n now S) = Inr (Response 200 (TokenPair rt at))
                    \<and> token_user rt = customer_id cu)
       else fst (signin_auth r k n now S) = Inr (Response 401 (Detail ''Customer account is disabled.'')))"
proof (cases "is_active cu")
  case True
  obtain rt at S2 where rt: "refresh_token cu now (S\<lparr>cache := cache_delete k (cache S)\<rparr>) = ((rt, at), S2)"
    by (metis prod.exhaust)
  from refresh_token_frame [OF rt] refresh_token_user [OF rt] assms True show ?thesis
    by (simp add: signin_auth_def rt)
next
  case False
  with assms show ?thesis by (simp add: signin_auth_def)
qed

lemma failure_count_set:
  "failure_count k now' (cache_set k v t now c) = (if now' < now + t then v else 0)"
  by (simp add: failure_count_def cache_get_set_at)

lemma signin_fail_step:
  assumes "signin_errors cfg r = []" "captcha_ok cfg service r"
    and "authenticate (db S) (si_email r) (si_mobile r) (signin_pw r) = None"
    and "failure_count (auth_failure_key (login_username r) ip) now (cache S) = n" "n < 4"
  shows "signin cfg service r ip now S =
     (Inr (Response 401 (DetailFailures ''Invalid username/password.'' n)),
      S\<lparr>cache := cache_set (auth_failure_key (login_username r) ip) (Suc n) 600 now (cache S)\<rparr>)"
  using assms by (simp add: signin_def signin_check_pass signin_auth_fail)

lemma signin_attempts_fail:
  assumes "signin_errors cfg r = []" "captcha_ok cfg service r"
    and "authenticate (db S) (si_email r) (si_mobile r) (signin_pw r) = None"
    and "successively lock_window (t # ts)"
    and "failure_count (auth_failure_key (login_username r) ip) t (cache S) + length (t # ts) \<le> 4"
  shows "signin_attempts cfg service r ip (t # ts) S =
     S\<lparr>cache := cache_set (auth_failure_key (login_username r) ip)
        (failure_count (auth_failure_key (login_username r) ip) t (cache S) + length (t # ts))
        600 (last (t # ts)) (cache S)\<rparr>"
  using assms
proof (induction ts arbitrary: t S)
  case Nil
  then show ?case by (simp add: signin_fail_step)
next
  case (Cons t' ts)
  let ?k = "auth_failure_key (login_username r) ip"
  let ?n = "failure_count ?k t (cache S)"
  let ?S1 = "S\<lparr>cache := cache_set ?k (Suc ?n) 600 t (cache S)\<rparr>"
  have step: "snd (signin cfg service r ip t S) = ?S1"
    using Cons.prems by (simp add: signin_fail_step)
  have "failure_count ?k t' (cache ?S1) = Suc ?n"
    using Cons.prems(4) by (simp add: failure_count_set)
  then have "signin_attempts cfg service r ip (t' # ts) ?S1 =
      ?S1\<lparr>cache := cache_set ?k (Suc ?n + length (t' # ts)) 600 (last (t' # ts)) (cache ?S1)\<rparr>"
    using Cons.IH [of ?S1 t'] Cons.prems by simp
  then show ?case using step by simp
qed

lemma authenticate_in:
  "authenticate s e m pw = Some cu \<Longrightarrow> cu \<in> set (customers s)"
  by (auto simp: authenticate_def authenticate_contact_def contact_customer_def
      split: option.splits if_splits simp: find_Some_iff)

lemma signin_token_pair:
  assumes "signin cfg service r ip now S = (Inr (Response 200 (TokenPair rt at)), S')"
  shows "\<exists>cu S1. authenticate (db S) (si_email r) (si_mobile r) (signin_pw r) = Some cu \<and> is_active cu
    \<and> db S1 = db S \<and> refresh_token cu now S1 = ((rt, at), S')"
proof -
  obtain k n where c: "signin_check cfg service r ip now S = Inr (k, n)"
    using assms by (cases "signin_check cfg service r ip now S")
      (auto simp: signin_def signin_check_def Let_def split: list.splits if_splits)
  then have a: "signin_auth r k n now S = (Inr (Response 200 (TokenPair rt at)), S')"
    using assms by (simp add: signin_def)
  show ?thesis
  proof (cases "authenticate (db S) (si_email r) (si_mobile r) (signin_pw r)")
    case None
    with a show ?thesis by (simp add: signin_auth_fail)
  next
    case (Some cu)
    let ?S1 = "S\<lparr>cache := cache_delete k (cache S)\<rparr>"
    have "is_active cu \<and> refresh_token cu now ?S1 = ((rt, at), S')"
      using a Some by (auto simp: signin_auth_def Let_def split: prod.splits if_splits)
    with Some show ?thesis by (intro exI [of _ cu] exI [of _ ?S1]) simp
  qed
qed

section \<open>Properties\<close>

text \<open>
  C19. Four consecutive failed sign-ins for one identifier and source address, each within ten minutes of the previous one and starting from no live counter, lock out a fifth attempt with the same identifier from that address, whatever its password, within ten minutes of the fourth failure; the locked-out request changes nothing.
\<close>

lemma four_failures_lock_out:
  assumes "signin_errors cfg r = []" "captcha_ok cfg service r"
    and "authenticate (db S) (si_email r) (si_mobile r) (signin_pw r) = None"
    and "length ts = 4" "successively lock_window ts"
    and "failure_count (auth_failure_key (login_username r) ip) (hd ts) (cache S) = 0"
    and "signin_errors cfg r' = []" "captcha_ok cfg service r'"
    and "login_username r' = login_username r"
    and "lock_window (last ts) t"
  shows "signin cfg service r' ip t (signin_attempts cfg service r ip ts S) =
     (Inr (Response 401 (Detail ''Username is locked out. Try in 10 minutes.'')),
      signin_attempts cfg service r ip ts S)"
proof -
  obtain t0 ts' where ts: "ts = t0 # ts'" using assms(4) by (cases ts) auto
  let ?k = "auth_failure_key (login_username r) ip"
  have "signin_attempts cfg service r ip ts S =
      S\<lparr>cache := cache_set ?k 4 600 (last ts) (cache S)\<rparr>"
    using signin_attempts_fail [OF assms(1-3), of t0 ts'] assms(4-6) ts by simp
  moreover have "failure_count ?k t (cache_set ?k 4 600 (last ts) (cache S)) = 4"
    using assms(10) by (simp add: failure_count_set)
  ultimately show ?thesis
    using assms(7-9) by (simp add: signin_def signin_check_locked)
qed

text \<open>
  C20. A sign-in that passes validation and the lockout test and whose credentials authenticate deletes the failure counter of its key; it answers with a token pair for the customer when the customer is active, and with 401 "Customer account is disabled." otherwise.
\<close>

lemma signin_success_clears:
  assumes "signin_errors cfg r = []" "captcha_ok cfg service r"
    and "failure_count (auth_failure_key (login_username r) ip) now (cache S) < 4"
    and "authenticate (db S) (si_email r) (si_mobile r) (signin_pw r) = Some cu"
  shows "cache_get (auth_failure_key (login_username r) ip) t' (cache (snd (signin cfg service r ip now S))) = None
    \<and> (if is_active cu
       then (\<exists>rt at. fst (signin cfg service r ip now S) = Inr (Response 200 (TokenPair rt at))
                    \<and> token_user rt = customer_id cu)
       else fst (signin cfg service r ip now S) = Inr (Response 401 (Detail ''Customer account is disabled.'')))"
proof -
  let ?k = "auth_failure_key (login_username r) ip"
  let ?n = "failure_count ?k now (cache S)"
  have e: "signin cfg service r ip now S = signin_auth r ?k ?n now S"
    using assms(1-3) by (simp add: signin_def signin_check_pass)
  show ?thesis using signin_auth_success [OF assms(4), of ?k ?n now] unfolding e
    by (cases "is_active cu") simp_all
qed

text \<open>
  C21. A failed sign-in stores the count read plus one with an expiry ten minutes after this failure: the lockout window slides with every failure instead of running from the first one, as the spec's fixed TTL would.
\<close>

lemma failed_signin_restarts_ttl:
  assumes "signin_errors cfg r = []" "captcha_ok cfg service r"
    and "authenticate (db S) (si_email r) (si_mobile r) (signin_pw r) = None"
    and "failure_count (auth_failure_key (login_username r) ip) now (cache S) = n" "n < 4"
  shows "cache (snd (signin cfg service r ip now S)) (auth_failure_key (login_username r) ip) =
     Some (Suc n, now + 600)"
  using signin_fail_step [OF assms] by (simp add: cache_set_def)

text \<open>
  C22. The failure counter is read and written without an atomic increment: two failing sign-ins for the same key that both read the counter before either writes it leave it one higher, where the same two requests run one after the other leave it two higher.
\<close>

lemma signin_counter_race:
  assumes c1: "signin_check cfg service r1 ip now S = Inr (k, n)"
    and c2: "signin_check cfg service r2 ip now S = Inr (k, n)"
    and a1: "authenticate (db S) (si_email r1) (si_mobile r1) (signin_pw r1) = None"
    and a2: "authenticate (db S) (si_email r2) (si_mobile r2) (signin_pw r2) = None"
    and "Suc n < 4"
  shows "cache_get k now (cache (snd (signin_auth r2 k n now (snd (signin_auth r1 k n now S))))) = Some (Suc n)
    \<and> cache_get k now (cache (snd (signin cfg service r2 ip now (snd (signin cfg service r1 ip now S)))))
        = Some (Suc (Suc n))"
proof -
  let ?S1 = "S\<lparr>cache := cache_set k (Suc n) 600 now (cache S)\<rparr>"
  have s1: "signin cfg service r1 ip now S = (Inr (Response 401 (DetailFailures ''Invalid username/password.'' n)), ?S1)"
    using c1 a1 by (simp add: signin_def signin_auth_fail)
  have "failure_count k now (cache ?S1) = Suc n" by (simp add: failure_count_set)
  then have "signin_check cfg service r2 ip now ?S1 = Inr (k, Suc n)"
    using signin_check_Inr [OF c2] assms(5) by (simp add: signin_check_pass)
  then have "snd (signin cfg service r2 ip now ?S1) = ?S1\<lparr>cache := cache_set k (Suc (Suc n)) 600 now (cache ?S1)\<rparr>"
    using a2 by (simp add: signin_def signin_auth_fail)
  then show ?thesis using s1 a1 a2 by (simp add: signin_auth_fail cache_get_set_at)
qed

text \<open>
  With the UNIQUE constraints of Contact in force, authenticating with a non-empty email finds the customer of the contact holding that email, whatever mobile is also passed, and returns it exactly when the password matches; is_active is not consulted.
\<close>

lemma authenticate_by_email:
  assumes "unique_contacts s" "ct \<in> set (contacts s)" "email ct = Some e" "e \<noteq> []"
    and "contact_customer s (contact_id ct) = Some cu"
  shows "authenticate s (Some e) m pw = (if check_password (password cu) pw then Some cu else None)"
  using find_unique_email [OF assms(1-3)] assms(4,5)
  by (simp add: authenticate_def authenticate_contact_def user_can_authenticate_def)

text \<open>
  C23. With recaptcha enabled, a sign-in whose recaptcha response the service does not confirm with a truthy "success" member (a request exception, an answer without "success", or one whose last "success" is false, null, zero or empty) is refused with 401 "Wrong Captcha." before the credentials are looked at, and changes nothing.
\<close>

lemma recaptcha_fail_closed:
  assumes "recaptcha_enabled cfg" "signin_errors cfg r = []"
    and "\<forall>ms v. service (case si_recaptcha r of None \<Rightarrow> [] | Some c \<Rightarrow> c) = CaptchaJson ms
               \<and> map_of (rev ms) ''success'' = Some v \<longrightarrow> \<not> py_truthy v"
  shows "signin cfg service r ip now S = (Inr (Response 401 (Detail ''Wrong Captcha.'')), S)"
proof -
  have "\<not> captcha_ok cfg service r"
    using assms(1,3) by (auto simp: captcha_ok_def validate_recaptcha_def split: captcha_reply.splits option.splits)
  with assms(2) show ?thesis by (simp add: signin_def signin_check_def)
qed

end
