(* ===== verification/SigninScenarios.thy ===== *)
theory SigninScenarios
  imports Scenarios Signin
begin

text \<open>
  Sign-in scenarios on the states of \<open>Scenarios\<close>: customer 1 (inactive, password
  \<^verbatim>\<open>secret12\<close>) signs in with the email \<^verbatim>\<open>a@x.io\<close> of contact 10 from one source
  address; the recaptcha service of \<open>service_down\<close> always fails with a request exception,
  and \<open>service_falsy\<close> answers an object whose last \<^verbatim>\<open>"success"\<close> is falsy.
\<close>

definition demo_ip :: string where
  "demo_ip = ''10.0.0.1''"

definition wrong_signin :: signin_request where
  "wrong_signin = \<lparr>si_email = Some ''a@x.io'', si_mobile = None, si_password = Some ''wrong123'',
     si_recaptcha = None\<rparr>"

definition good_signin :: signin_request where
  "good_signin = wrong_signin\<lparr>si_password := Some ''secret12''\<rparr>"

definition service_down :: "string \<Rightarrow> captcha_reply" where
  "service_down r = CaptchaRequestException"

text \<open>A service that answers \<^verbatim>\<open>{"success": true, "success": ""}\<close>: the last member counts.\<close>

definition service_falsy :: "string \<Rightarrow> captcha_reply" where
  "service_falsy r = CaptchaJson [(''success'', JBool True), (''success'', JString [])]"

definition demo_key :: string where
  "demo_key = auth_failure_key ''a@x.io'' demo_ip"

text \<open>Two failures recorded, the last one expiring at time 600.\<close>

definition counter_sys :: sys where
  "counter_sys = demo_sys\<lparr>cache := [demo_key \<mapsto> (2, 600)]\<rparr>"

lemmas signin_demo_defs = demo_ip_def wrong_signin_def good_signin_def service_down_def
  demo_key_def counter_sys_def

lemma wrong_signin_valid: "signin_errors authentication_customer wrong_signin = []"
  by code_simp

lemma good_signin_valid: "signin_errors authentication_customer good_signin = []"
  by code_simp

lemma demo_captcha_ok: "captcha_ok authentication_customer service r"
  by (simp add: captcha_ok_def authentication_customer_def)

lemma demo_login_username:
  "login_username wrong_signin = ''a@x.io''" "login_username good_signin = ''a@x.io''"
  by (simp_all add: login_username_def signin_demo_defs)

lemma wrong_signin_fails:
  "authenticate (db demo_sys) (si_email wrong_signin) (si_mobile wrong_signin) (signin_pw wrong_signin) = None"
  by (simp add: authenticate_def authenticate_contact_def contact_customer_def check_password_def
      demo_defs signin_demo_defs)

lemma good_signin_succeeds:
  "authenticate (db demo_sys) (si_email good_signin) (si_mobile good_signin) (signin_pw good_signin)
     = Some demo_customer"
  by (simp add: authenticate_def authenticate_contact_def contact_customer_def check_password_def
      user_can_authenticate_def
      demo_defs signin_demo_defs)

lemma four_failures_lock_out_witness:
  "signin authentication_customer service_down good_signin demo_ip 2000
     (signin_attempts authentication_customer service_down wrong_signin demo_ip [0, 500, 1000, 1500] demo_sys) =
   (Inr (Response 401 (Detail ''Username is locked out. Try in 10 minutes.'')),
    signin_attempts authentication_customer service_down wrong_signin demo_ip [0, 500, 1000, 1500] demo_sys)"
proof -
  have c: "failure_count (auth_failure_key (login_username wrong_signin) demo_ip) (hd [0, 500, 1000, 1500]) (cache demo_sys) = 0"
    by (simp add: failure_count_def cache_get_def demo_defs)
  show ?thesis
    using four_failures_lock_out [OF wrong_signin_valid demo_captcha_ok wrong_signin_fails _ _ c
        good_signin_valid demo_captcha_ok]
    by (simp add: demo_login_username)
qed

lemma signin_success_clears_witness:
  "cache_get demo_key 0 (cache (snd (signin authentication_customer service_down good_signin demo_ip 100 counter_sys))) = None
   \<and> fst (signin authentication_customer service_down good_signin demo_ip 100 counter_sys)
       = Inr (Response 401 (Detail ''Customer account is disabled.''))"
proof -
  have db: "db counter_sys = db demo_sys" by (simp add: counter_sys_def)
  have c: "failure_count (auth_failure_key (login_username good_signin) demo_ip) 100 (cache counter_sys) < 4"
    by (simp add: failure_count_def cache_get_def signin_demo_defs demo_login_username)
  show ?thesis
    using signin_success_clears [OF good_signin_valid demo_captcha_ok c, of demo_customer 0] good_signin_succeeds
    by (simp add: db demo_login_username demo_key_def demo_customer_def)
qed

lemma failed_signin_restarts_ttl_witness:
  "cache counter_sys demo_key = Some (2, 600)
   \<and> cache (snd (signin authentication_customer service_down wrong_signin demo_ip 500 counter_sys)) demo_key
       = Some (3, 1100)"
proof -
  have db: "db counter_sys = db demo_sys" by (simp add: counter_sys_def)
  have c: "failure_count (auth_failure_key (login_username wrong_signin) demo_ip) 500 (cache counter_sys) = 2"
    by (simp add: failure_count_def cache_get_def demo_login_username demo_key_def counter_sys_def)
  show ?thesis
    using failed_signin_restarts_ttl [OF wrong_signin_valid demo_captcha_ok _ c] wrong_signin_fails
    by (simp add: db demo_login_username demo_key_def counter_sys_def)
qed

lemma signin_counter_race_witness:
  "cache_get demo_key 0 (cache (snd (signin_auth wrong_signin demo_key 0 0
       (snd (signin_auth wrong_signin demo_key 0 0 demo_sys))))) = Some 1
   \<and> cache_get demo_key 0 (cache (snd (signin authentication_customer service_down wrong_signin demo_ip 0
       (snd (signin authentication_customer service_down wrong_signin demo_ip 0 demo_sys))))) = Some 2"
proof -
  have c: "signin_check authentication_customer service_down wrong_signin demo_ip 0 demo_sys = Inr (demo_key, 0)"
    using signin_check_pass [OF wrong_signin_valid demo_captcha_ok, of demo_ip 0 demo_sys]
    by (simp add: failure_count_def cache_get_def demo_defs login_username_def signin_demo_defs)
  show ?thesis using signin_counter_race [OF c c wrong_signin_fails wrong_signin_fails] by simp
qed

lemma demo_unique_contacts: "unique_contacts demo_store"
  by (simp add: unique_contacts_def demo_store_def demo_contact_def)

lemma authenticate_by_email_witness:
  "authenticate demo_store (Some ''a@x.io'') (Some ''09000000000'') ''secret12'' = Some demo_customer
   \<and> authenticate demo_store (Some ''a@x.io'') None ''secret99'' = None"
proof -
  have ct: "demo_contact \<in> set (contacts demo_store)" "email demo_contact = Some ''a@x.io''"
    by (simp_all add: demo_store_def demo_contact_def)
  have cu: "contact_customer demo_store (contact_id demo_contact) = Some demo_customer"
    by (simp add: contact_customer_def demo_store_def demo_customer_def demo_contact_def)
  show ?thesis
    using authenticate_by_email [OF demo_unique_contacts ct _ cu]
    by (simp add: check_password_def demo_customer_def)
qed

lemma recaptcha_fail_closed_witness:
  "signin (authentication_customer\<lparr>recaptcha_enabled := True\<rparr>) service_falsy
     (good_signin\<lparr>si_recaptcha := Some ''tok''\<rparr>) demo_ip 0 demo_sys
   = (Inr (Response 401 (Detail ''Wrong Captcha.'')), demo_sys)"
proof -
  have v: "signin_errors (authentication_customer\<lparr>recaptcha_enabled := True\<rparr>) (good_signin\<lparr>si_recaptcha := Some ''tok''\<rparr>) = []"
    by code_simp
  show ?thesis
    using recaptcha_fail_closed [OF _ v] by (simp add: service_falsy_def)
qed

end
