(* ===== verification/Account.thy ===== *)
theory Account
  imports Signin
begin

text \<open>
  The views of \<^verbatim>\<open>CustomerViewSet\<close> (\<^verbatim>\<open>src/authentication/apps/customer/views.py\<close>)
  that need an authenticated request: \<^verbatim>\<open>signout\<close> and \<^verbatim>\<open>change_password\<close>,
  with \<^verbatim>\<open>SignoutSerializer\<close> and \<^verbatim>\<open>ChangePasswordSerializer\<close>. Requests are
  authenticated by \<^verbatim>\<open>JWTAuthentication\<close> (\<^verbatim>\<open>REST_FRAMEWORK\<close> in
  \<^verbatim>\<open>settings/base_settings.py\<close>) and gated by \<^verbatim>\<open>IsAuthenticated\<close>; both are library
  code, modelled from the spec and the libraries' documented behaviour: the header's
  access token must decode and name an existing, active customer.
\<close>

section \<open>Request authentication\<close>

definition request_user :: "token option \<Rightarrow> time \<Rightarrow> sys \<Rightarrow> customer option" where
  "request_user h now S =
     (case h of
        None \<Rightarrow> None
      | Some t \<Rightarrow>
        (case decode_access t now (jwt S) of
           Inl e \<Rightarrow> None
         | Inr u \<Rightarrow>
           (case get_customer (db S) u of
              None \<Rightarrow> None
            | Some cu \<Rightarrow> if is_active cu then Some cu else None)))"

text \<open>\<^verbatim>\<open>permission_classes=[IsAuthenticated]\<close>: the view runs only for a request user.\<close>

definition authenticated :: "token option \<Rightarrow> time \<Rightarrow> sys \<Rightarrow> (customer \<Rightarrow> outcome) \<Rightarrow> outcome" where
  "authenticated h now S view =
     (case request_user h now S of None \<Rightarrow> (Inl NotAuthenticated, S) | Some u \<Rightarrow> view u)"

section \<open>Refresh tokens in a request body\<close>

text \<open>
  The \<^verbatim>\<open>refresh\<close> field as sent: absent, blank, a string that is no token of this
  service, or a token.
\<close>

datatype token_arg = ArgMissing | ArgBlank | ArgMalformed | ArgToken token

text \<open>\<^verbatim>\<open>refresh = serializers.CharField()\<close>: required and not blank.\<close>

definition refresh_field_errors :: "token_arg \<Rightarrow> string list" where
  "refresh_field_errors a =
     (case a of
        ArgMissing \<Rightarrow> [''This field is required.'']
      | ArgBlank \<Rightarrow> [''This field may not be blank.'']
      | _ \<Rightarrow> [])"

text \<open>\<^verbatim>\<open>RefreshToken(refresh_token)\<close>: \<^verbatim>\<open>TokenError\<close> unless a valid refresh token.\<close>

definition refresh_token_of :: "token_arg \<Rightarrow> time \<Rightarrow> jwt_state \<Rightarrow> exn + token" where
  "refresh_token_of a now j =
     (case a of ArgToken t \<Rightarrow> decode_refresh t now j | _ \<Rightarrow> Inl TokenError)"

section \<open>signout\<close>

definition signout :: "token option \<Rightarrow> token_arg \<Rightarrow> time \<Rightarrow> sys \<Rightarrow> outcome" where
  "signout h a now S =
     authenticated h now S (\<lambda>u.
       case refresh_field_errors a of
         m # ms \<Rightarrow> (Inl (ValidationError (m # ms)), S)
       | [] \<Rightarrow>
         (case refresh_token_of a now (jwt S) of
            Inl e \<Rightarrow> (Inr (Response 400 (Error ''token is invalid or expired'')), S)
          | Inr t \<Rightarrow> (Inr (Response 205 (Detail ''Successfull log out.'')),
                      S\<lparr>jwt := blacklist t (jwt S)\<rparr>)))"

section \<open>change_password\<close>

record password_request =
  cp_old :: "string option"
  cp_new :: "string option"
  cp_confirm :: "string option"
  cp_refresh :: token_arg

definition change_password_field_errors :: "password_request \<Rightarrow> string list" where
  "change_password_field_errors r =
     required_errors (cp_old r) (\<lambda>p. [])
     @ required_errors (cp_new r) new_password_errors
     @ required_errors (cp_confirm r) (\<lambda>p. [])
     @ refresh_field_errors (cp_refresh r)"

text \<open>\<^verbatim>\<open>ChangePasswordSerializer.validate\<close>.\<close>

definition change_password_validate :: "password_request \<Rightarrow> string list" where
  "change_password_validate r =
     (if cp_new r = cp_old r then [''new password same as old password.'']
      else if cp_confirm r \<noteq> cp_new r then [''new password is not same as confirm password.'']
      else [])"

definition change_password_errors :: "password_request \<Rightarrow> string list" where
  "change_password_errors r =
     (case change_password_field_errors r of [] \<Rightarrow> change_password_validate r | es \<Rightarrow> es)"

text \<open>
  The view: \<^verbatim>\<open>get_object()\<close> first (any customer id, whoever the request user is),
  then validation, the old-password check, \<^verbatim>\<open>set_password\<close> and \<^verbatim>\<open>save()\<close>, and
  only then the refresh token, whose failure answers 400 after the save.
\<close>

definition change_password :: "token option \<Rightarrow> uuid \<Rightarrow> password_request \<Rightarrow> time \<Rightarrow> sys \<Rightarrow> outcome" where
  "change_password h i r now S =
     authenticated h now S (\<lambda>u.
       case get_customer (db S) i of
         None \<Rightarrow> (Inl Http404, S)
       | Some cu \<Rightarrow>
         (case change_password_errors r of
            m # ms \<Rightarrow> (Inl (ValidationError (m # ms)), S)
          | [] \<Rightarrow>
            if \<not> check_password (password cu) (case cp_old r of None \<Rightarrow> [] | Some p \<Rightarrow> p)
            then (Inr (Response 400 (FieldError ''old_password'' ''Incorrect Password.'')), S)
            else
             (let cu' = cu\<lparr>password := make_password (cp_new r)\<rparr>;
                  S1 = S\<lparr>db := save_customer cu' (db S)\<rparr>
              in case refresh_token_of (cp_refresh r) now (jwt S1) of
                   Inl e \<Rightarrow> (Inr (Response 400 (Error ''token is invalid or expired'')), S1)
                 | Inr t \<Rightarrow>
                   (Inr (Response 200 (Detail ''Password has been successfully updated and you log out.'')),
                    S1\<lparr>jwt := blacklist t (jwt S1)\<rparr>))))"

section \<open>Lemmas\<close>

lemma authenticated_Some:
  "request_user h now S = Some u \<Longrightarrow> authenticated h now S view = view u"
  by (simp add: authenticated_def)

lemma authenticated_None:
  "request_user h now S = None \<Longrightarrow> authenticated h now S view = (Inl NotAuthenticated, S)"
  by (simp add: authenticated_def)

lemma request_user_blacklist [simp]:
  "request_user h now (S\<lparr>jwt := blacklist t (jwt S)\<rparr>) = request_user h now S"
  by (simp add: request_user_def split: option.splits sum.splits)

lemma signout_success:
  assumes "signout h a now S = (Inr (Response 205 d), S')"
  shows "\<exists>t. a = ArgToken t \<and> decode_refresh t now (jwt S) = Inr t \<and> S' = S\<lparr>jwt := blacklist t (jwt S)\<rparr>"
  using assms
  by (auto simp: signout_def authenticated_def refresh_token_of_def refresh_field_errors_def
      decode_refresh_def split: option.splits list.splits sum.splits token_arg.splits if_splits)

section \<open>Properties\<close>

text \<open>
  C24. A sign-out that answers 205 was given a refresh token that was valid at that moment, and blacklists it: from then on decoding that exact token fails at every time, also before its embedded expiry. Nothing else changes for request authentication: every access token, including the one issued with the revoked refresh token, authenticates exactly the requests it authenticated before, until it expires.
\<close>

lemma signout_revokes:
  assumes "signout h (ArgToken t) now S = (Inr (Response 205 d), S')"
  shows "decode_refresh t now (jwt S) = Inr t \<and> (\<forall>now'. decode_refresh t now' (jwt S') = Inl TokenError)
    \<and> (\<forall>h' now'. request_user h' now' S' = request_user h' now' S)"
  using signout_success [OF assms] by (auto intro: decode_refresh_blacklisted blacklisted_in_blacklist)

text \<open>
  C25. change_password saves the new password before it checks the refresh token: with a correct old password and a refresh token that does not decode (expired, blacklisted or malformed) the view answers 400 "token is invalid or expired" and the password has nevertheless been changed, and no token is revoked.
\<close>

lemma change_password_partial_commit:
  assumes "request_user h now S = Some u" "get_customer (db S) i = Some cu"
    and "change_password_errors r = []" "cp_old r = Some old" "check_password (password cu) old"
    and "refresh_token_of (cp_refresh r) now (jwt S) = Inl e"
  shows "\<exists>S'. change_password h i r now S = (Inr (Response 400 (Error ''token is invalid or expired'')), S')
    \<and> get_customer (db S') i = Some (cu\<lparr>password := make_password (cp_new r)\<rparr>) \<and> jwt S' = jwt S"
proof -
  have "customer_id cu = i" using get_customer_Some [OF assms(2)] by simp
  then have "get_customer (save_customer (cu\<lparr>password := make_password (cp_new r)\<rparr>) (db S)) i
      = Some (cu\<lparr>password := make_password (cp_new r)\<rparr>)"
    using get_customer_save_same [of "db S" "cu\<lparr>password := make_password (cp_new r)\<rparr>"] assms(2) by simp
  with assms show ?thesis by (simp add: change_password_def authenticated_Some Let_def)
qed

text \<open>
  C30. Sign-in and request authentication round-trip: when sign-in answers 200 with a token pair, the credentials authenticated a customer, the refresh token names that customer, and the access token authenticates later requests as exactly that customer until it expires (customer ids being primary keys).
\<close>

lemma signin_access_roundtrip:
  assumes "signin cfg service r ip now S = (Inr (Response 200 (TokenPair rt at)), S')"
    and "distinct (map customer_id (customers (db S)))"
    and "now' < now + access_token_lifetime"
  shows "\<exists>cu. authenticate (db S) (si_email r) (si_mobile r) (signin_pw r) = Some cu
    \<and> token_user rt = customer_id cu \<and> request_user (Some at) now' S' = Some cu"
proof -
  obtain cu S1 where cu: "authenticate (db S) (si_email r) (si_mobile r) (signin_pw r) = Some cu"
    and act: "is_active cu" and S1: "db S1 = db S" and rt: "refresh_token cu now S1 = ((rt, at), S')"
    using signin_token_pair [OF assms(1)] by blast
  have "get_customer (db S') (customer_id cu) = Some cu"
    using refresh_token_frame [OF rt] S1 get_customer_distinct [OF assms(2) authenticate_in [OF cu]] by simp
  then show ?thesis
    using cu act refresh_token_user [OF rt] refresh_token_access [OF rt assms(3)]
    by (simp add: request_user_def)
qed

end
