(* ===== verification/Profile.thy ===== *)
theory Profile
  imports Account
begin

text \<open>
  Profile update: \<^verbatim>\<open>CustomerUpdateSerializer\<close>
  (\<^verbatim>\<open>src/authentication/apps/customer/serializers.py\<close>) and the \<^verbatim>\<open>update\<close> view of
  \<^verbatim>\<open>CustomerViewSet\<close> (PATCH on a customer id). A new email or mobile is not written to
  the contact: \<^verbatim>\<open>update\<close> clears the channel's verification time and records a change
  row whose \<^verbatim>\<open>new_email\<close>/\<^verbatim>\<open>new_mobile\<close> the next confirmation applies (see
  \<open>Verification\<close>); the view then queues a verification job for every channel whose
  newest change row is pending. The owner is the \<^verbatim>\<open>People\<close> row \<^verbatim>\<open>instance.owner\<close>
  names (signup creates no \<^verbatim>\<open>Company\<close> owners).
\<close>

section \<open>People rows\<close>

definition get_people :: "store \<Rightarrow> uuid \<Rightarrow> people option" where
  "get_people s i = find (\<lambda>p. people_id p = i) (peoples s)"

text \<open>\<^verbatim>\<open>people.save()\<close>: the database refuses a national code another row holds.\<close>

definition save_people :: "people \<Rightarrow> store \<Rightarrow> exn + store" where
  "save_people p s =
     (if list_ex (\<lambda>q. people_id q \<noteq> people_id p \<and> national_code q = national_code p) (peoples s)
      then Inl IntegrityError
      else Inr (s\<lparr>peoples := map (\<lambda>q. if people_id q = people_id p then p else q) (peoples s)\<rparr>))"

section \<open>CustomerUpdateSerializer\<close>

record update_request =
  up_email :: "string option"
  up_mobile :: "string option"
  up_national_code :: "string option"
  up_name :: "string option"
  up_last_name :: "string option"

text \<open>The fields in the order of \<^verbatim>\<open>Meta.fields\<close>; \<^verbatim>\<open>validate\<close> adds nothing.\<close>

definition update_errors :: "store \<Rightarrow> update_request \<Rightarrow> string list" where
  "update_errors s r =
     optional_errors (up_email r)
       (\<lambda>e. email_field_errors e @ (if email_taken s e then [''This email already used''] else []))
     @ optional_errors (up_national_code r) (national_code_errors s)
     @ optional_errors (up_mobile r) (mobile_errors s)
     @ optional_errors (up_name r) (\<lambda>x. [])
     @ optional_errors (up_last_name r) (\<lambda>x. [])"

text \<open>
  \<^verbatim>\<open>update(instance, validated_data)\<close>: the email step, the mobile step, then the owner.
  Each step saves the in-memory customer, so the mobile step's save keeps the email
  step's change. An owner that is missing makes \<^verbatim>\<open>instance.owner.name\<close> fail.
\<close>

definition update_email_step :: "update_request \<Rightarrow> contact \<Rightarrow> time \<Rightarrow> customer \<times> store \<Rightarrow> customer \<times> store" where
  "update_email_step r ct now cs =
     (case up_email r of
        None \<Rightarrow> cs
      | Some e \<Rightarrow>
        (let cu' = (fst cs)\<lparr>email_verify := None\<rparr>
         in (cu', create_email_change (customer_id cu') (email ct) (Some e) now (save_customer cu' (snd cs)))))"

definition update_mobile_step :: "update_request \<Rightarrow> contact \<Rightarrow> time \<Rightarrow> customer \<times> store \<Rightarrow> customer \<times> store" where
  "update_mobile_step r ct now cs =
     (case up_mobile r of
        None \<Rightarrow> cs
      | Some m \<Rightarrow>
        (let cu' = (fst cs)\<lparr>mobile_verify := None\<rparr>
         in (cu', create_phone_change (customer_id cu') (mobile ct) (Some m) now (save_customer cu' (snd cs)))))"

definition update_owner :: "update_request \<Rightarrow> customer \<Rightarrow> store \<Rightarrow> exn + store" where
  "update_owner r cu s =
     (case customer_owner cu of
        None \<Rightarrow> Inl AttributeError
      | Some p \<Rightarrow>
        (case get_people s p of
           None \<Rightarrow> Inl AttributeError
         | Some pe \<Rightarrow>
           save_people
             (pe\<lparr>name := (case up_name r of None \<Rightarrow> name pe | Some x \<Rightarrow> x),
                 last_name := (case up_last_name r of None \<Rightarrow> last_name pe | Some x \<Rightarrow> x),
                 national_code := (case up_national_code r of None \<Rightarrow> national_code pe | Some x \<Rightarrow> x)\<rparr>) s))"

definition customer_update :: "update_request \<Rightarrow> customer \<Rightarrow> time \<Rightarrow> store \<Rightarrow> (exn + customer) \<times> store" where
  "customer_update r cu now s =
     (case get_contact s (username cu) of
        None \<Rightarrow> (Inl DoesNotExist, s)
      | Some ct \<Rightarrow>
        (let (cu2, s2) = update_mobile_step r ct now (update_email_step r ct now (cu, s))
         in case update_owner r cu2 s2 of
              Inl e \<Rightarrow> (Inl e, s2)
            | Inr s3 \<Rightarrow> (Inr cu2, s3)))"

section \<open>The update view\<close>

text \<open>
  \<^verbatim>\<open>CustomerViewSet.update\<close>: \<^verbatim>\<open>get_object()\<close> (any customer id), validation,
  \<^verbatim>\<open>perform_update\<close>, then the newest change rows decide which verification jobs to
  queue, whether or not this request changed that channel.
\<close>

definition update :: "token option \<Rightarrow> uuid \<Rightarrow> update_request \<Rightarrow> time \<Rightarrow> sys \<Rightarrow> outcome" where
  "update h i r now S =
     authenticated h now S (\<lambda>u.
       case get_customer (db S) i of
         None \<Rightarrow> (Inl Http404, S)
       | Some cu \<Rightarrow>
         (case update_errors (db S) r of
            m # ms \<Rightarrow> (Inl (ValidationError (m # ms)), S)
          | [] \<Rightarrow>
            (case customer_update r cu now (db S) of
               (Inl e, s') \<Rightarrow> (Inl e, S\<lparr>db := s'\<rparr>)
             | (Inr cu', s') \<Rightarrow>
               (case latest_email_change s' i of
                  None \<Rightarrow> (Inl DoesNotExist, S\<lparr>db := s'\<rparr>)
                | Some ec \<Rightarrow>
                  (case latest_phone_change s' i of
                     None \<Rightarrow> (Inl DoesNotExist, S\<lparr>db := s'\<rparr>)
                   | Some pc \<Rightarrow>
                     (let S1 = S\<lparr>db := s'\<rparr>;
                          S2 = (if truthy (new_email ec)
                                then enqueue (SendEmailVerification (username cu)) S1 else S1);
                          S3 = (if truthy (new_mobile pc)
                                then enqueue (SendMobileVerificationCode (username cu)) S2 else S2)
                      in (Inr (Response 201 (CustomerData i)), S3)))))))"

section \<open>Lemmas\<close>

lemma save_people_Inr: "save_people p s = Inr s' \<Longrightarrow> s' = s\<lparr>peoples := peoples s'\<rparr>"
  by (auto simp: save_people_def split: if_splits)

lemma update_owner_Inr: "update_owner r cu s = Inr s' \<Longrightarrow> s' = s\<lparr>peoples := peoples s'\<rparr>"
  by (auto simp: update_owner_def split: option.splits dest: save_people_Inr)

lemma update_step_frame [simp]:
  "contacts (snd (update_email_step r ct now cs)) = contacts (snd cs)"
  "phone_changes (snd (update_email_step r ct now cs)) = phone_changes (snd cs)"
  "contacts (snd (update_mobile_step r ct now cs)) = contacts (snd cs)"
  "email_changes (snd (update_mobile_step r ct now cs)) = email_changes (snd cs)"
  by (simp_all add: update_email_step_def update_mobile_step_def Let_def split: option.splits)

lemma update_owner_frame:
  "update_owner r cu s = Inr s' \<Longrightarrow> customers s' = customers s \<and> contacts s' = contacts s
     \<and> email_changes s' = email_changes s \<and> phone_changes s' = phone_changes s"
  by (auto simp: update_owner_def save_people_def split: option.splits if_splits)

text \<open>The rows the two channel steps leave, whatever the owner step does.\<close>

lemma customer_update_db:
  assumes "get_contact s (username cu) = Some ct" "get_customer s (customer_id cu) = Some cu"
    and "customer_update r cu now s = (res, s')"
  shows "get_customer s' (customer_id cu) =
           Some (cu\<lparr>email_verify := (case up_email r of None \<Rightarrow> email_verify cu | Some e \<Rightarrow> None),
                    mobile_verify := (case up_mobile r of None \<Rightarrow> mobile_verify cu | Some m \<Rightarrow> None)\<rparr>)
    \<and> contacts s' = contacts s
    \<and> email_changes s' = email_changes (snd (update_email_step r ct now (cu, s)))
    \<and> phone_changes s' = phone_changes (snd (update_mobile_step r ct now (update_email_step r ct now (cu, s))))"
proof -
  obtain cu2 s2 where st: "update_mobile_step r ct now (update_email_step r ct now (cu, s)) = (cu2, s2)"
    by (metis prod.exhaust)
  have k: "customer_id (fst (update_email_step r ct now (cu, s))) = customer_id cu"
    by (simp add: update_email_step_def Let_def split: option.splits)
  have g1: "get_customer (snd (update_email_step r ct now (cu, s))) (customer_id cu) =
      Some (fst (update_email_step r ct now (cu, s)))"
    using assms(2) by (auto simp: update_email_step_def Let_def get_customer_save_id split: option.splits)
  have s2: "customers s' = customers s2 \<and> contacts s' = contacts s2
      \<and> email_changes s' = email_changes s2 \<and> phone_changes s' = phone_changes s2"
    using assms(1,3) st by (auto simp: customer_update_def split: sum.splits dest: update_owner_frame)
  have "contacts s2 = contacts s \<and> email_changes s2 = email_changes (snd (update_email_step r ct now (cu, s)))"
    using st update_step_frame(3,4) [of r ct now "update_email_step r ct now (cu, s)"] update_step_frame(1) [of r ct now "(cu, s)"]
    by simp
  moreover have "get_customer s2 (customer_id cu) = Some cu2"
    using st g1 k by (auto simp: update_mobile_step_def Let_def get_customer_save_id split: option.splits)
  moreover have "cu2 = cu\<lparr>email_verify := (case up_email r of None \<Rightarrow> email_verify cu | Some e \<Rightarrow> None),
                    mobile_verify := (case up_mobile r of None \<Rightarrow> mobile_verify cu | Some m \<Rightarrow> None)\<rparr>"
    using st by (auto simp: update_mobile_step_def update_email_step_def Let_def split: option.splits)
  ultimately show ?thesis using s2 st
    by (auto simp: get_customer_def)
qed

lemma update_db:
  assumes "request_user h now S = Some u" "get_customer (db S) i = Some cu" "update_errors (db S) r = []"
    and "customer_update r cu now (db S) = (res, s')"
  shows "db (snd (update h i r now S)) = s'"
  using assms by (auto simp: update_def authenticated_Some Let_def split: sum.splits option.splits)

section \<open>Properties\<close>

text \<open>
  C26. A profile update that changes only the mobile clears the customer's
  mobile_verify and nothing else of the customer row: is_active and email_verify keep
  their values (the spec resets is_active to false), the contact keeps its mobile, and the
  newest PhoneChange row of the customer holds the new number.
\<close>

lemma update_mobile_keeps_active:
  assumes "request_user h now S = Some u" "get_customer (db S) i = Some cu" "update_errors (db S) r = []"
    and "up_email r = None" "up_mobile r = Some m" "get_contact (db S) (username cu) = Some ct"
    and "\<forall>pc\<in>set (phone_changes (db S)). pc_created_at pc \<le> now"
  shows "get_customer (db (snd (update h i r now S))) i = Some (cu\<lparr>mobile_verify := None\<rparr>)
    \<and> (\<exists>pc. latest_phone_change (db (snd (update h i r now S))) i = Some pc \<and> new_mobile pc = Some m)
    \<and> get_contact (db (snd (update h i r now S))) (username cu) = Some ct"
proof -
  obtain res s' where cu: "customer_update r cu now (db S) = (res, s')" by (metis prod.exhaust)
  have i: "customer_id cu = i" using get_customer_Some [OF assms(2)] by simp
  have m: "m \<noteq> []" using assms(3,5) by (auto simp: update_errors_def optional_errors_def)
  have db: "db (snd (update h i r now S)) = s'" by (rule update_db [OF assms(1-3) cu])
  note rows = customer_update_db [OF assms(6) assms(2) [folded i] cu]
  let ?pc = "\<lparr>pc_id = next_id (save_customer (cu\<lparr>mobile_verify := None\<rparr>) (db S)), pc_customer = i,
     old_mobile = get_prep_value (mobile ct), new_mobile = Some m, pc_created_at = now\<rparr>"
  have ph: "phone_changes s' = phone_changes (db S) @ [?pc]"
    using rows assms(4,5) m i by (simp add: update_email_step_def update_mobile_step_def Let_def)
  have "latest_phone_change s' i = Some ?pc"
    using latest_phone_change_snoc [OF _ ph] assms(7) by simp
  then show ?thesis using rows db i assms(4-6) by (auto simp: get_contact_def)
qed

text \<open>
  C27. The update view checks no ownership: any authenticated customer can update another
  customer's profile. An email change clears the target's email_verify and records a
  pending change to the given address, which the next email confirmation applies.
\<close>

lemma update_other_customer_email:
  assumes "request_user h now S = Some u" "customer_id u \<noteq> i" "get_customer (db S) i = Some cu"
    and "update_errors (db S) r = []" "up_email r = Some e" "get_contact (db S) (username cu) = Some ct"
    and "\<forall>ec\<in>set (email_changes (db S)). ec_created_at ec \<le> now"
  shows "\<exists>cu' ec. get_customer (db (snd (update h i r now S))) i = Some cu' \<and> email_verify cu' = None
    \<and> latest_email_change (db (snd (update h i r now S))) i = Some ec \<and> new_email ec = Some e
    \<and> old_email ec = get_prep_value (email ct)"
proof -
  obtain res s' where cu: "customer_update r cu now (db S) = (res, s')" by (metis prod.exhaust)
  have i: "customer_id cu = i" using get_customer_Some [OF assms(3)] by simp
  have e: "e \<noteq> []" using assms(4,5) by (auto simp: update_errors_def optional_errors_def)
  have db: "db (snd (update h i r now S)) = s'" by (rule update_db [OF assms(1,3,4) cu])
  note rows = customer_update_db [OF assms(6) assms(3) [folded i] cu]
  let ?ec = "\<lparr>ec_id = next_id (save_customer (cu\<lparr>email_verify := None\<rparr>) (db S)), ec_customer = i,
     old_email = get_prep_value (email ct), new_email = Some e, ec_created_at = now\<rparr>"
  have em: "email_changes s' = email_changes (db S) @ [?ec]"
    using rows assms(5) e i by (simp add: update_email_step_def Let_def)
  have "latest_email_change s' i = Some ?ec"
    using latest_email_change_snoc [OF _ em] assms(7) by simp
  then show ?thesis using rows db i assms(5) by auto
qed

end
