(* ===== verification/AccountScenarios.thy ===== *)
theory AccountScenarios
  imports SigninScenarios Profile
begin

text \<open>
  Session scenarios: customer 1 is active (email confirmed at time 0), owns the People
  row 40 and holds the token pair minted at time 0; customer 2 (contact 11) is another
  active customer holding an access token of its own.
\<close>

definition active_customer :: customer where
  "active_customer = demo_customer\<lparr>is_active := True, email_verify := Some 0, customer_owner := Some 40\<rparr>"

definition other_customer :: customer where
  "other_customer = \<lparr>customer_id = 2, username = 11, password = Hashed ''other123'',
     customer_owner = None, is_active = True, email_verify = Some 0, mobile_verify = None,
     total_credit = 0\<rparr>"

definition demo_people :: people where
  "demo_people = \<lparr>people_id = 40, name = ''Ali'', last_name = ''Ahmadi'', national_code = ''0000000051''\<rparr>"

definition session_store :: store where
  "session_store = demo_store\<lparr>customers := [active_customer, other_customer], peoples := [demo_people]\<rparr>"

definition demo_refresh :: token where
  "demo_refresh = \<lparr>jti = 0, token_user = 1, token_kind = RefreshKind, token_exp = 86400\<rparr>"

definition demo_access :: token where
  "demo_access = \<lparr>jti = 1, token_user = 1, token_kind = AccessKind, token_exp = 7200\<rparr>"

definition other_access :: token where
  "other_access = \<lparr>jti = 3, token_user = 2, token_kind = AccessKind, token_exp = 7200\<rparr>"

definition session_sys :: sys where
  "session_sys = init_sys\<lparr>db := session_store,
     jwt := \<lparr>issued = [demo_refresh, demo_access, \<lparr>jti = 2, token_user = 2, token_kind = RefreshKind,
               token_exp = 86400\<rparr>, other_access],
             outstanding = [demo_refresh], blacklisted = [], next_jti = 4\<rparr>\<rparr>"

definition new_password_request :: password_request where
  "new_password_request = \<lparr>cp_old = Some ''secret12'', cp_new = Some ''newpass99'',
     cp_confirm = Some ''newpass99'', cp_refresh = ArgMalformed\<rparr>"

definition mobile_update :: update_request where
  "mobile_update = \<lparr>up_email = None, up_mobile = Some ''09350000000'', up_national_code = None,
     up_name = None, up_last_name = None\<rparr>"

definition hijack_update :: update_request where
  "hijack_update = mobile_update\<lparr>up_email := Some ''m@evil.io'', up_mobile := None\<rparr>"

lemmas session_defs = active_customer_def other_customer_def demo_people_def session_store_def
  demo_refresh_def demo_access_def other_access_def session_sys_def new_password_request_def
  mobile_update_def hijack_update_def

text \<open>The tokens of customer 1 are those \<^verbatim>\<open>refresh_token\<close> mints at time 0.\<close>

lemma session_tokens_minted:
  "fst (refresh_token active_customer 0 (init_sys\<lparr>db := session_store\<rparr>)) = (demo_refresh, demo_access)"
  by (simp add: refresh_token_def for_user_def Let_def session_defs demo_defs
      access_token_lifetime_def refresh_token_lifetime_def)

lemma demo_request_user:
  "request_user (Some demo_access) 100 session_sys = Some active_customer"
  "request_user (Some other_access) 100 session_sys = Some other_customer"
  by (simp_all add: request_user_def decode_access_def get_customer_def session_defs demo_defs)

lemma signout_revokes_witness:
  "\<exists>S'. signout (Some demo_access) (ArgToken demo_refresh) 100 session_sys
          = (Inr (Response 205 (Detail ''Successfull log out.'')), S')
     \<and> decode_refresh demo_refresh 100 (jwt session_sys) = Inr demo_refresh
     \<and> decode_refresh demo_refresh 200 (jwt S') = Inl TokenError
     \<and> request_user (Some demo_access) 200 S' = Some active_customer"
proof -
  have d: "decode_refresh demo_refresh 100 (jwt session_sys) = Inr demo_refresh"
    by (simp add: decode_refresh_def session_defs)
  obtain S' where s: "signout (Some demo_access) (ArgToken demo_refresh) 100 session_sys
      = (Inr (Response 205 (Detail ''Successfull log out.'')), S')"
    using d demo_request_user by (simp add: signout_def authenticated_def refresh_field_errors_def
      refresh_token_of_def)
  have "request_user (Some demo_access) 200 session_sys = Some active_customer"
    by (simp add: request_user_def decode_access_def get_customer_def session_defs demo_defs)
  then show ?thesis using s signout_revokes [OF s] by auto
qed

lemma change_password_partial_commit_witness:
  "\<exists>S'. change_password (Some demo_access) 1 new_password_request 100 session_sys
          = (Inr (Response 400 (Error ''token is invalid or expired'')), S')
     \<and> get_customer (db S') 1 = Some (active_customer\<lparr>password := Hashed ''newpass99''\<rparr>)"
proof -
  have v: "change_password_errors new_password_request = []" by code_simp
  have g: "get_customer (db session_sys) 1 = Some active_customer"
    by (simp add: get_customer_def session_defs demo_defs)
  show ?thesis
    using change_password_partial_commit [OF demo_request_user(1) g v, where old = "''secret12''" and e = TokenError]
    by (simp add: new_password_request_def check_password_def active_customer_def demo_customer_def
        refresh_token_of_def make_password_def) blast
qed

lemma update_mobile_keeps_active_witness:
  "get_customer (db (snd (update (Some demo_access) 1 mobile_update 100 session_sys))) 1
     = Some (active_customer\<lparr>mobile_verify := None\<rparr>)
   \<and> is_active active_customer \<and> email_verify active_customer = Some 0"
proof -
  have v: "update_errors (db session_sys) mobile_update = []" by code_simp
  have g: "get_customer (db session_sys) 1 = Some active_customer"
    by (simp add: get_customer_def session_defs demo_defs)
  have c: "get_contact (db session_sys) (username active_customer) = Some demo_contact"
    by (simp add: get_contact_def session_defs demo_defs)
  have t: "\<forall>pc\<in>set (phone_changes (db session_sys)). pc_created_at pc \<le> 100"
    by (simp add: session_defs demo_defs)
  show ?thesis
    using update_mobile_keeps_active [OF demo_request_user(1) g v _ _ c t]
    by (simp add: mobile_update_def active_customer_def)
qed

lemma update_other_customer_email_witness:
  "\<exists>cu' ec. get_customer (db (snd (update (Some other_access) 1 hijack_update 100 session_sys))) 1 = Some cu'
     \<and> email_verify cu' = None
     \<and> latest_email_change (db (snd (update (Some other_access) 1 hijack_update 100 session_sys))) 1 = Some ec
     \<and> new_email ec = Some ''m@evil.io'' \<and> old_email ec = Some ''a@x.io''"
proof -
  have v: "update_errors (db session_sys) hijack_update = []" by code_simp
  have g: "get_customer (db session_sys) 1 = Some active_customer"
    by (simp add: get_customer_def session_defs demo_defs)
  have c: "get_contact (db session_sys) (username active_customer) = Some demo_contact"
    by (simp add: get_contact_def session_defs demo_defs)
  have t: "\<forall>ec\<in>set (email_changes (db session_sys)). ec_created_at ec \<le> 100"
    by (simp add: session_defs demo_defs)
  have o: "customer_id other_customer \<noteq> 1" by (simp add: other_customer_def)
  show ?thesis
    using update_other_customer_email [OF demo_request_user(2) o g v _ c t]
    by (simp add: hijack_update_def demo_contact_def)
qed

lemma session_signin:
  "authenticate (db session_sys) (si_email good_signin) (si_mobile good_signin) (signin_pw good_signin)
     = Some active_customer"
  by (simp add: authenticate_def authenticate_contact_def contact_customer_def check_password_def
      user_can_authenticate_def session_defs demo_defs signin_demo_defs)

lemma signin_access_roundtrip_witness:
  "\<exists>rt at S'. signin authentication_customer service_down good_signin demo_ip 100 session_sys
       = (Inr (Response 200 (TokenPair rt at)), S')
     \<and> request_user (Some at) 7000 S' = Some active_customer"
proof -
  have c: "failure_count (auth_failure_key (login_username good_signin) demo_ip) 100 (cache session_sys) < 4"
    by (simp add: failure_count_def cache_get_def session_defs init_sys_def)
  let ?k = "auth_failure_key (login_username good_signin) demo_ip"
  obtain rt at S' where rt: "refresh_token active_customer 100
      (session_sys\<lparr>cache := cache_delete ?k (cache session_sys)\<rparr>) = ((rt, at), S')"
    by (metis prod.exhaust)
  have act: "is_active active_customer" by (simp add: active_customer_def)
  have eq: "signin authentication_customer service_down good_signin demo_ip 100 session_sys
       = (Inr (Response 200 (TokenPair rt at)), S')"
    using c session_signin act rt
    by (simp add: signin_def signin_check_pass [OF good_signin_valid demo_captcha_ok] signin_auth_def)
  have "distinct (map customer_id (customers (db session_sys)))"
    by (simp add: session_defs demo_defs)
  from signin_access_roundtrip [OF eq this, of 7000] session_signin eq show ?thesis
    by (auto simp: access_token_lifetime_def)
qed

end
