(* ===== verification/Pagination.thy ===== *)
theory Pagination
  imports Prelude
begin

text \<open>
  Page-number pagination as the list views use it: \<^verbatim>\<open>HeaderPagination\<close>
  (\<^verbatim>\<open>src/authentication/paginations.py\<close>), the \<^verbatim>\<open>DEFAULT_PAGINATION_CLASS\<close> of
  \<^verbatim>\<open>REST_FRAMEWORK\<close>, over DRF's \<^verbatim>\<open>PageNumberPagination\<close> and Django's
  \<^verbatim>\<open>Paginator\<close> (library code, modelled from their source as documented). The
  settings give no \<^verbatim>\<open>PAGE_SIZE\<close>, so a request without a valid
  \<^verbatim>\<open>page_size\<close> query parameter is not paginated at all. A query parameter
  is given as what Python's \<^verbatim>\<open>int()\<close> makes of it: \<open>None\<close> when it is absent
  or no integer literal.
\<close>

section \<open>Page size\<close>

definition max_page_size :: nat where
  "max_page_size = 100"

text \<open>\<^verbatim>\<open>api_settings.PAGE_SIZE\<close>: not set in \<^verbatim>\<open>REST_FRAMEWORK\<close>.\<close>

definition default_page_size :: "nat option" where
  "default_page_size = None"

text \<open>
  \<^verbatim>\<open>_positive_int(integer_string, strict, cutoff)\<close>: \<^verbatim>\<open>ValueError\<close> (here
  \<open>None\<close>) for a negative value, or zero when strict; else the value, capped by the cutoff.
\<close>

definition positive_int :: "int \<Rightarrow> bool \<Rightarrow> nat option \<Rightarrow> nat option" where
  "positive_int ret strict cutoff =
     (if ret < 0 \<or> (ret = 0 \<and> strict) then None
      else (case cutoff of None \<Rightarrow> Some (nat ret) | Some c \<Rightarrow> Some (min (nat ret) c)))"

text \<open>
  \<^verbatim>\<open>get_page_size(request)\<close>: the \<^verbatim>\<open>page_size\<close> parameter when it is a positive
  integer, capped at \<^verbatim>\<open>max_page_size\<close>; on \<^verbatim>\<open>KeyError\<close> or \<^verbatim>\<open>ValueError\<close> the
  class's \<^verbatim>\<open>page_size\<close>.
\<close>

definition get_page_size :: "int option \<Rightarrow> nat option" where
  "get_page_size q =
     (case q of
        None \<Rightarrow> default_page_size
      | Some n \<Rightarrow> (case positive_int n True (Some max_page_size) of
                    None \<Rightarrow> default_page_size
                  | Some k \<Rightarrow> Some k))"

section \<open>Django's Paginator\<close>

text \<open>
  \<^verbatim>\<open>Paginator.num_pages\<close> with \<^verbatim>\<open>orphans = 0\<close> and
  \<^verbatim>\<open>allow_empty_first_page = True\<close>: \<^verbatim>\<open>ceil(max(1, count) / per_page)\<close>.
\<close>

definition num_pages :: "nat \<Rightarrow> nat \<Rightarrow> nat" where
  "num_pages count per_page = (max 1 count + per_page - 1) div per_page"

text \<open>
  The \<^verbatim>\<open>page\<close> query parameter: the string \<^verbatim>\<open>"last"\<close>, an integer, or anything
  else; an absent parameter is the integer 1.
\<close>

datatype page_arg = PageLast | PageNumber int | PageInvalid

text \<open>
  \<^verbatim>\<open>Paginator.validate_number\<close>: \<^verbatim>\<open>PageNotAnInteger\<close> or \<^verbatim>\<open>EmptyPage\<close> (both
  \<^verbatim>\<open>InvalidPage\<close>, here \<open>None\<close>) unless the number is a page; page 1 always is.
\<close>

definition validate_number :: "page_arg \<Rightarrow> nat \<Rightarrow> nat option" where
  "validate_number a np =
     (case a of
        PageInvalid \<Rightarrow> None
      | PageLast \<Rightarrow> None
      | PageNumber n \<Rightarrow>
          if n < 1 then None
          else if int np < n then (if n = 1 then Some 1 else None)
          else Some (nat n))"

text \<open>
  \<^verbatim>\<open>Paginator.page(number)\<close>: the rows \<^verbatim>\<open>bottom = (number - 1) * per_page\<close> up to
  \<^verbatim>\<open>top = bottom + per_page\<close>, cut at \<^verbatim>\<open>count\<close>.
\<close>

definition page_slice :: "'a list \<Rightarrow> nat \<Rightarrow> nat \<Rightarrow> 'a list" where
  "page_slice xs per_page number =
     (let bottom = (number - 1) * per_page;
          top = bottom + per_page;
          top' = (if length xs \<le> top then length xs else top)
      in take (top' - bottom) (drop bottom xs))"

section \<open>PageNumberPagination and HeaderPagination\<close>

text \<open>
  \<^verbatim>\<open>paginate_queryset\<close>: no pagination (\<open>Inr None\<close>) without a page size; else
  the page number (\<^verbatim>\<open>"last"\<close> read as \<^verbatim>\<open>num_pages\<close>), \<^verbatim>\<open>NotFound\<close> for an
  invalid page, or the page's rows with \<^verbatim>\<open>paginator.count\<close>, which
  \<^verbatim>\<open>HeaderPagination.get_paginated_response\<close> sends as \<^verbatim>\<open>X-Result-Count\<close>.
\<close>

definition paginate :: "nat option \<Rightarrow> page_arg \<Rightarrow> 'a list \<Rightarrow> exn + ('a list \<times> nat) option" where
  "paginate page_size a xs =
     (case page_size of
        None \<Rightarrow> Inr None
      | Some k \<Rightarrow>
          (if k = 0 then Inr None
           else
            (let np = num_pages (length xs) k;
                 number = (case a of PageLast \<Rightarrow> PageNumber (int np) | _ \<Rightarrow> a)
             in case validate_number number np of
                  None \<Rightarrow> Inl NotFound
                | Some n \<Rightarrow> Inr (Some (page_slice xs k n, length xs)))))"

section \<open>Lemmas\<close>

lemma get_page_size_le: "get_page_size q = Some k \<Longrightarrow> 0 < k \<and> k \<le> max_page_size"
  by (auto simp: get_page_size_def positive_int_def default_page_size_def max_page_size_def
      split: option.splits if_splits)

lemma num_pages_pos: "0 < k \<Longrightarrow> 0 < num_pages n k"
  by (auto simp: num_pages_def div_greater_zero_iff)

lemma length_page_slice: "length (page_slice xs k n) \<le> k"
  by (simp add: page_slice_def Let_def) linarith

lemma validate_number_page:
  "1 \<le> n \<Longrightarrow> n \<le> num_pages c k \<Longrightarrow> validate_number (PageNumber (int n)) (num_pages c k) = Some n"
  by (simp add: validate_number_def)

lemma page_slice_map: "page_slice (map f xs) k n = map f (page_slice xs k n)"
  by (simp add: page_slice_def Let_def take_map drop_map)

end
