(* ===== verification/ReadViews.thy ===== *)
theory ReadViews
  imports Account Pagination
begin

text \<open>
  The views that only read: \<^verbatim>\<open>CustomerViewSet.list\<close> (DRF's
  \<^verbatim>\<open>ListModelMixin\<close> over \<^verbatim>\<open>Customer.objects.all()\<close> with the
  \<^verbatim>\<open>HeaderPagination\<close> of \<open>Pagination\<close>), and the \<^verbatim>\<open>Info\<close> and
  \<^verbatim>\<open>Config\<close> views of \<^verbatim>\<open>src/authentication/views.py\<close>. None of them changes
  the state. The list is the customer table read in insertion order (the query
  \<^verbatim>\<open>Customer.objects.all()\<close> has no ordering, so this is an assumption on the
  database, the same for every page's query), each row rendered by
  \<^verbatim>\<open>CustomerSerializer\<close> (\<open>customer_serializer\<close> of \<open>Tasks\<close>): its
  \<^verbatim>\<open>url\<close>, \<^verbatim>\<open>is_active\<close>, verification times and credit.
\<close>

section \<open>The list view\<close>

text \<open>
  \<^verbatim>\<open>ListModelMixin.list\<close>: \<^verbatim>\<open>paginate_queryset\<close>; with a page, the serialized
  page and \<^verbatim>\<open>X-Result-Count\<close>; without one, every row. The queryset is
  paginated first and the page's rows are serialized. The \<^verbatim>\<open>page_size\<close>
  and \<^verbatim>\<open>page\<close> query parameters are \<open>q\<close> and \<open>a\<close>. The view set's
  \<^verbatim>\<open>permission_classes\<close> apply: \<^verbatim>\<open>IsAuthenticated\<close>, and no ownership filter.
\<close>

definition list_customers :: "token option \<Rightarrow> int option \<Rightarrow> page_arg \<Rightarrow> time \<Rightarrow> sys \<Rightarrow> outcome" where
  "list_customers h q a now S =
     authenticated h now S (\<lambda>u.
       case paginate (get_page_size q) a (customers (db S)) of
         Inl e \<Rightarrow> (Inl e, S)
       | Inr None \<Rightarrow> (Inr (Response 200 (CustomerList (map customer_serializer (customers (db S))))), S)
       | Inr (Some (pg, n)) \<Rightarrow> (Inr (Response 200 (PagedCustomers (map customer_serializer pg) n)), S))"

text \<open>What a client reads from a list response: the rows of the body, if any.\<close>

definition listed_rows :: "outcome \<Rightarrow> customer_repr list" where
  "listed_rows out =
     (case fst out of
        Inl e \<Rightarrow> []
      | Inr (Response c b) \<Rightarrow>
          (case b of CustomerList cs \<Rightarrow> cs | PagedCustomers cs n \<Rightarrow> cs | _ \<Rightarrow> []))"

section \<open>Info and Config\<close>

text \<open>\<^verbatim>\<open>Info.get\<close>: no authentication, no permission; the service's name, version and provider and \<^verbatim>\<open>get_local_time()\<close>.\<close>

definition info_view :: "time \<Rightarrow> sys \<Rightarrow> outcome" where
  "info_view now S = (Inr (Response 200 (InfoData now)), S)"

text \<open>\<^verbatim>\<open>PUBLIC_APP_SETTING\<close> of \<^verbatim>\<open>settings/apps_settings.py\<close>.\<close>

definition public_app_setting :: "string list" where
  "public_app_setting = []"

text \<open>
  The keys of \<^verbatim>\<open>public_settings\<close> after \<^verbatim>\<open>public_settings.update({setting: ...})\<close>
  for each listed setting: a dict keeps the first position of a repeated key.
\<close>

definition public_settings :: "string list \<Rightarrow> string list" where
  "public_settings names = fold (\<lambda>s ks. if s \<in> set ks then ks else ks @ [s]) names []"

definition config_view :: "token option \<Rightarrow> time \<Rightarrow> sys \<Rightarrow> outcome" where
  "config_view h now S =
     authenticated h now S (\<lambda>u. (Inr (Response 200 (PublicSettings (public_settings public_app_setting))), S))"

section \<open>Lemmas\<close>

lemma read_views_state [simp]:
  "snd (list_customers h q a now S) = S"
  "snd (info_view now S) = S"
  "snd (config_view h now S) = S"
  by (simp_all add: list_customers_def info_view_def config_view_def authenticated_def
      split: option.splits sum.splits)

lemma list_customers_paged:
  assumes "request_user h now S = Some u" "get_page_size q = Some k"
    and "1 \<le> n" "n \<le> num_pages (length (customers (db S))) k"
  shows "list_customers h q (PageNumber (int n)) now S =
    (Inr (Response 200 (PagedCustomers (page_slice (map customer_serializer (customers (db S))) k n)
      (length (customers (db S))))), S)"
proof -
  have "0 < k" using get_page_size_le [OF assms(2)] by simp
  then show ?thesis
    using assms by (simp add: list_customers_def authenticated_Some paginate_def validate_number_page
        page_slice_map)
qed

lemma list_customers_unpaged:
  "request_user h now S = Some u \<Longrightarrow> get_page_size q = None \<Longrightarrow>
   list_customers h q a now S = (Inr (Response 200 (CustomerList (map customer_serializer (customers (db S))))), S)"
  by (simp add: list_customers_def authenticated_Some paginate_def)

lemma take_drop_length: "take m (drop b xs) = take (length (take m (drop b xs))) (drop b xs)"
  by (simp add: min_def)

section \<open>Properties\<close>

text \<open>
  C33. A page of the customer list holds at most max_page_size = 100 rows, whatever page_size the client asks for; the rows are a contiguous run of the serialized customer table, the X-Result-Count header is the number of all customers, and listing changes nothing.
\<close>

theorem list_page_bounded:
  assumes "list_customers h q a now S = (Inr (Response c (PagedCustomers pg n)), S')"
  shows "length pg \<le> max_page_size \<and> n = length (customers (db S))
    \<and> (\<exists>i. pg = take (length pg) (drop i (map customer_serializer (customers (db S))))) \<and> S' = S"
proof -
  obtain k m where k: "get_page_size q = Some k"
    and pg: "pg = page_slice (map customer_serializer (customers (db S))) k m"
    and n: "n = length (customers (db S))" and S': "S' = S"
    using assms by (auto simp: list_customers_def authenticated_def paginate_def Let_def
        page_slice_map split: option.splits sum.splits if_splits)
  have "length pg \<le> max_page_size"
    using length_page_slice [of "map customer_serializer (customers (db S))" k m] get_page_size_le [OF k] pg by simp
  moreover have "\<exists>i. pg = take (length pg) (drop i (map customer_serializer (customers (db S))))"
    unfolding pg page_slice_def Let_def by (rule exI, rule take_drop_length)
  ultimately show ?thesis using n S' by blast
qed

text \<open>
  C34. The list view filters nothing by owner: to any authenticated customer, whoever it is, the list without page_size answers every customer's row in the table, as CustomerSerializer renders it (url, is_active, email_verify, mobile_verify, total_credit), so each customer reads the verification state and credit of all the others; listing changes nothing.
\<close>

theorem list_discloses_all_customers:
  assumes "request_user h now S = Some u"
  shows "listed_rows (list_customers h None a now S) = map customer_serializer (customers (db S))
    \<and> snd (list_customers h None a now S) = S"
  using list_customers_unpaged [OF assms, of None a]
  by (simp add: get_page_size_def default_page_size_def listed_rows_def)

end
