(* ===== verification/System.thy ===== *)
theory System
  imports Profile ReadViews
begin

text \<open>
  The service as a whole: every request the URL configuration routes to a modelled view
  (\<^verbatim>\<open>src/authentication/urls.py\<close>, \<^verbatim>\<open>src/authentication/apps/customer/urls.py\<close>),
  dispatched by \<open>handle\<close>, and the celery worker, which runs any queued job at any later
  time (celery gives no order). \<open>step\<close> is one request or one job; \<open>reach\<close> the states
  reachable from the empty service. Request times are arbitrary: no property below
  depends on a monotone clock. The invariants are proved by rule induction over
  \<open>reach\<close>: the store invariant \<open>store_inv\<close> (collection \<open>inv_rules\<close>), the monotone
  blacklist and the bound on the sign-in failure counters; \<open>run_jobs\<close> shows the
  worker alone empties the queue.
\<close>

datatype request =
    SignupReq signup_request
  | VerifyEmailReq uuid uuid
  | ResendEmailReq uuid
  | ChangeEmailReq uuid "string option"
  | VerifyMobileReq uuid int
  | ResendMobileReq uuid
  | ChangeMobileReq uuid string
  | SigninReq "string \<Rightarrow> captcha_reply" signin_request string
  | SignoutReq "token option" token_arg
  | ChangePasswordReq "token option" uuid password_request
  | UpdateReq "token option" uuid update_request
  | TokenRefreshReq token
  | ListReq "token option" "int option" page_arg
  | InfoReq
  | ConfigReq "token option"

text \<open>\<^verbatim>\<open>TokenRefreshView\<close> (\<^verbatim>\<open>token/refresh/\<close>): a new access token for a valid refresh token.\<close>

definition token_refresh_view :: "token \<Rightarrow> time \<Rightarrow> sys \<Rightarrow> outcome" where
  "token_refresh_view t now S =
     (case token_refresh t now (jwt S) of
        (Inl e, j) \<Rightarrow> (Inl e, S\<lparr>jwt := j\<rparr>)
      | (Inr a, j) \<Rightarrow> (Inr (Response 200 (AccessToken a)), S\<lparr>jwt := j\<rparr>))"

fun handle :: "settings \<Rightarrow> request \<Rightarrow> time \<Rightarrow> sys \<Rightarrow> outcome" where
  "handle cfg (SignupReq r) now S = signup r now S"
| "handle cfg (VerifyEmailReq i k) now S = verify_email cfg i k now S"
| "handle cfg (ResendEmailReq i) now S = resend_email cfg i now S"
| "handle cfg (ChangeEmailReq i e) now S = change_email cfg i e now S"
| "handle cfg (VerifyMobileReq i c) now S = verify_mobile cfg i c now S"
| "handle cfg (ResendMobileReq i) now S = resend_mobile_code cfg i now S"
| "handle cfg (ChangeMobileReq i m) now S = change_mobile i m now S"
| "handle cfg (SigninReq service r ip) now S = signin cfg service r ip now S"
| "handle cfg (SignoutReq h a) now S = signout h a now S"
| "handle cfg (ChangePasswordReq h i r) now S = change_password h i r now S"
| "handle cfg (UpdateReq h i r) now S = update h i r now S"
| "handle cfg (TokenRefreshReq t) now S = token_refresh_view t now S"
| "handle cfg (ListReq h q a) now S = list_customers h q a now S"
| "handle cfg InfoReq now S = info_view now S"
| "handle cfg (ConfigReq h) now S = config_view h now S"

inductive step :: "settings \<Rightarrow> sys \<Rightarrow> sys \<Rightarrow> bool" where
  request: "step cfg S (snd (handle cfg rq now S))"
| worker: "jb \<in> set (jobs S) \<Longrightarrow> step cfg S (run_job jb now (S\<lparr>jobs := remove1 jb (jobs S)\<rparr>))"

inductive reach :: "settings \<Rightarrow> sys \<Rightarrow> bool" where
  init: "reach cfg init_sys"
| step: "reach cfg S \<Longrightarrow> step cfg S S' \<Longrightarrow> reach cfg S'"

inductive_cases step_cases: "step cfg S S'"

text \<open>
  The worker consuming the queue front to back, each job at time \<open>now\<close>: the queue
  a run leaves is the rest of the list (no job queues another job).
\<close>

fun run_jobs :: "job list \<Rightarrow> time \<Rightarrow> sys \<Rightarrow> sys" where
  "run_jobs [] now S = S"
| "run_jobs (jb # js) now S = run_jobs js now (run_job jb now (S\<lparr>jobs := js\<rparr>))"

section \<open>Revocation\<close>

lemma refresh_token_blacklisted [simp]:
  "blacklisted (jwt (snd (refresh_token cu now S))) = blacklisted (jwt S)"
  by (simp add: refresh_token_def for_user_def Let_def split: prod.splits)

lemma refresh_token_blacklisted_eq:
  "refresh_token cu now S = (p, S') \<Longrightarrow> blacklisted (jwt S') = blacklisted (jwt S)"
  by (auto simp: refresh_token_def for_user_def Let_def split: prod.splits)

lemma blacklisted_handle:
  "set (blacklisted (jwt S)) \<subseteq> set (blacklisted (jwt (snd (handle cfg rq now S))))"
proof (cases rq)
  case (VerifyEmailReq i k)
  then show ?thesis
    by (auto simp: verify_email_def Let_def split: option.splits sum.splits prod.splits if_splits dest!: refresh_token_blacklisted_eq)
next
  case (VerifyMobileReq i c)
  then show ?thesis
    by (auto simp: verify_mobile_def Let_def split: option.splits sum.splits prod.splits if_splits list.splits dest!: refresh_token_blacklisted_eq)
qed (auto simp: signup_def resend_email_def change_email_def resend_mobile_code_def change_mobile_def
      signin_def signin_check_def signin_auth_def signout_def change_password_def update_def authenticated_def
      token_refresh_view_def token_refresh_def blacklist_def Let_def
      split: option.splits sum.splits prod.splits if_splits list.splits dest!: refresh_token_blacklisted_eq)

lemma step_blacklisted:
  "step cfg S S' \<Longrightarrow> set (blacklisted (jwt S)) \<subseteq> set (blacklisted (jwt S'))"
  by (induction rule: step.induct) (simp_all add: blacklisted_handle)

lemma steps_blacklisted:
  "(step cfg)\<^sup>*\<^sup>* S S' \<Longrightarrow> set (blacklisted (jwt S)) \<subseteq> set (blacklisted (jwt S'))"
  by (induction rule: rtranclp_induct) (auto dest: step_blacklisted)

section \<open>Failure counters and the queue\<close>

lemma refresh_token_cache: "refresh_token cu now S = (p, S') \<Longrightarrow> cache S' = cache S"
  using refresh_token_frame by blast

lemma cache_handle_other:
  assumes "\<forall>service r ip. rq \<noteq> SigninReq service r ip"
  shows "cache (snd (handle cfg rq now S)) = cache S"
proof (cases rq)
  case (VerifyEmailReq i k)
  then show ?thesis
    by (auto simp: verify_email_def Let_def split: option.splits sum.splits prod.splits if_splits dest!: refresh_token_cache)
next
  case (VerifyMobileReq i c)
  then show ?thesis
    by (auto simp: verify_mobile_def Let_def split: option.splits sum.splits prod.splits if_splits list.splits dest!: refresh_token_cache)
next
  case (SigninReq service r ip)
  with assms show ?thesis by simp
qed (auto simp: signup_def resend_email_def change_email_def resend_mobile_code_def change_mobile_def
      signout_def change_password_def update_def authenticated_def enqueue_def
      token_refresh_view_def Let_def
      split: option.splits sum.splits prod.splits if_splits list.splits)

lemma signin_cache:
  assumes "cache (snd (signin cfg service r ip now S)) k' = Some (v, e)"
  shows "cache S k' = Some (v, e) \<or> v \<le> 4"
proof (cases "signin_check cfg service r ip now S")
  case (Inl out)
  then have "out = (fst out, S)"
    by (auto simp: signin_check_def Let_def split: list.splits if_splits)
  with Inl assms show ?thesis by (simp add: signin_def) (metis snd_conv)
next
  case (Inr kn)
  obtain k n where kn: "kn = (k, n)" by (cases kn)
  have "n < 4" using signin_check_Inr Inr kn by blast
  with Inr kn assms show ?thesis
    by (auto simp: signin_def signin_auth_def cache_set_def cache_delete_def Let_def
        split: option.splits prod.splits if_splits dest!: refresh_token_cache)
qed

lemma counters_handle:
  assumes "\<forall>k v e. cache S k = Some (v, e) \<longrightarrow> v \<le> 4"
    and "cache (snd (handle cfg rq now S)) k = Some (v, e)"
  shows "v \<le> 4"
proof (cases "\<exists>service r ip. rq = SigninReq service r ip")
  case True
  then obtain service r ip where "rq = SigninReq service r ip" by blast
  with assms show ?thesis using signin_cache [of cfg service r ip now S k v e] by auto
next
  case False
  with assms show ?thesis by (auto simp: cache_handle_other)
qed

lemma run_job_cache [simp]: "cache (run_job jb now S) = cache S"
  by (auto simp: run_job_def send_email_verification_def send_mobile_verification_code_def Let_def
      split: job.splits option.splits prod.splits)

lemma run_job_jobs [simp]: "jobs (run_job jb now S) = jobs S"
  by (auto simp: run_job_def send_email_verification_def send_mobile_verification_code_def Let_def
      split: job.splits option.splits prod.splits)

lemma counters_step:
  assumes "step cfg S S'" "\<forall>k v e. cache S k = Some (v, e) \<longrightarrow> v \<le> 4"
  shows "\<forall>k v e. cache S' k = Some (v, e) \<longrightarrow> v \<le> 4"
  using assms
proof (induction rule: step.induct)
  case (request cfg S rq now)
  then show ?case using counters_handle by blast
next
  case (worker jb S cfg now)
  then show ?case by simp
qed

lemma run_jobs_steps:
  "jobs S = js \<Longrightarrow> (step cfg)\<^sup>*\<^sup>* S (run_jobs js now S) \<and> jobs (run_jobs js now S) = []"
proof (induction js arbitrary: S)
  case Nil
  then show ?case by simp
next
  case (Cons jb js)
  let ?S1 = "run_job jb now (S\<lparr>jobs := js\<rparr>)"
  have "step cfg S ?S1"
    using step.worker [of jb S cfg now] Cons.prems by simp
  moreover have "(step cfg)\<^sup>*\<^sup>* ?S1 (run_jobs js now ?S1) \<and> jobs (run_jobs js now ?S1) = []"
    by (rule Cons.IH) simp
  ultimately show ?case by (auto intro: converse_rtranclp_into_rtranclp)
qed

section \<open>Store invariants\<close>

definition store_inv :: "store \<Rightarrow> bool" where
  "store_inv s \<longleftrightarrow> unique_contacts s \<and> (\<forall>c\<in>set (contacts s). contact_id c < next_id s)
     \<and> (\<forall>t\<in>set (otp_temps s). ot_code t = otp_code) \<and> columns_prepped s"

named_theorems inv_rules "preservation of store_inv by the writes of the views and tasks"

lemma inv_same:
  "contacts s' = contacts s \<Longrightarrow> next_id s \<le> next_id s' \<Longrightarrow> set (otp_temps s') \<subseteq> set (otp_temps s) \<Longrightarrow>
   store_inv s \<Longrightarrow> store_inv s'"
  unfolding store_inv_def unique_contacts_def columns_prepped_def by fastforce

lemma inv_save_customer [inv_rules]: "store_inv s \<Longrightarrow> store_inv (save_customer cu s)"
  by (rule inv_same) (auto simp: save_customer_def)

lemma inv_save_email_change [inv_rules]: "store_inv s \<Longrightarrow> store_inv (save_email_change e s)"
  by (rule inv_same) (auto simp: save_email_change_def)

lemma inv_save_phone_change [inv_rules]: "store_inv s \<Longrightarrow> store_inv (save_phone_change e s)"
  by (rule inv_same) (auto simp: save_phone_change_def)

lemma inv_delete_email_temps [inv_rules]: "store_inv s \<Longrightarrow> store_inv (delete_email_temps i s)"
  by (rule inv_same) (auto simp: delete_email_temps_def)

lemma inv_delete_otp_temps [inv_rules]: "store_inv s \<Longrightarrow> store_inv (delete_otp_temps i s)"
  by (rule inv_same) (auto simp: delete_otp_temps_def)

lemma inv_create_email_change [inv_rules]: "store_inv s \<Longrightarrow> store_inv (create_email_change i o' n now s)"
  by (rule inv_same) (auto simp: create_email_change_def fresh_id_def)

lemma inv_create_phone_change [inv_rules]: "store_inv s \<Longrightarrow> store_inv (create_phone_change i o' n now s)"
  by (rule inv_same) (auto simp: create_phone_change_def fresh_id_def)

lemma inv_save_contact [inv_rules]: "save_contact ct s = Inr s' \<Longrightarrow> store_inv s \<Longrightarrow> store_inv s'"
proof -
  assume a: "save_contact ct s = Inr s'" and i: "store_inv s"
  have k: "contact_id (prep_contact ct) = contact_id ct" by (simp add: prep_contact_def)
  from a have s': "s' = s\<lparr>contacts := map (\<lambda>c. if contact_id c = contact_id ct then prep_contact ct else c) (contacts s)\<rparr>"
    by (auto simp: save_contact_def Let_def k split: if_splits)
  have "\<forall>c\<in>set (contacts s'). contact_id c < next_id s'"
    using i unfolding s' store_inv_def by (auto simp: k)
  moreover have "columns_prepped s'"
    using i unfolding s' store_inv_def columns_prepped_def by (auto simp: list_all_iff)
  ultimately show "store_inv s'"
    using i save_contact_unique [OF _ a] unfolding store_inv_def by (simp add: s')
qed

lemma inv_apply_new_email [inv_rules]: "apply_new_email cu v s = Inr s' \<Longrightarrow> store_inv s \<Longrightarrow> store_inv s'"
  by (auto simp: apply_new_email_def split: if_splits option.splits intro: inv_save_contact)

lemma inv_apply_new_mobile [inv_rules]: "apply_new_mobile cu v s = Inr s' \<Longrightarrow> store_inv s \<Longrightarrow> store_inv s'"
  by (auto simp: apply_new_mobile_def split: if_splits option.splits intro: inv_save_contact)

lemma inv_create_contact:
  assumes "create_contact ct s = Inr s'" "store_inv s" "contact_id ct < next_id s"
    and "\<forall>c\<in>set (contacts s). contact_id c \<noteq> contact_id ct"
  shows "store_inv s'"
proof -
  have k: "contact_id (prep_contact ct) = contact_id ct" by (simp add: prep_contact_def)
  from assms(1) have s': "s' = s\<lparr>contacts := contacts s @ [prep_contact ct]\<rparr>"
    by (auto simp: create_contact_def Let_def split: if_splits)
  have "contact_id ct \<notin> contact_id ` set (contacts s)" using assms(4) by auto
  then have "unique_contacts s'"
    using create_contact_unique [OF _ assms(1)] assms(2) by (simp add: store_inv_def)
  then show ?thesis using assms(2,3) unfolding store_inv_def columns_prepped_def s' by (auto simp: k)
qed

lemma inv_create_customer [inv_rules]:
  "create_customer c p o' s = (k, s') \<Longrightarrow> store_inv s \<Longrightarrow> store_inv s'"
  by (rule inv_same) (auto simp: create_customer_def fresh_id_def)

lemma inv_signup_create [inv_rules]:
  assumes "signup_create r now s = (res, s')" "store_inv s"
  shows "store_inv s'"
proof -
  let ?s3 = "s\<lparr>peoples := peoples s @ [\<lparr>people_id = next_id s, name = [], last_name = [],
      national_code = (case req_national_code r of None \<Rightarrow> [] | Some x \<Rightarrow> x)\<rparr>],
      next_id := Suc (Suc (next_id s))\<rparr>"
  have i3: "store_inv ?s3" by (rule inv_same [OF _ _ _ assms(2)]) auto
  have c: "store_inv s4" if "create_contact ct ?s3 = Inr s4" "contact_id ct = Suc (next_id s)" for ct s4
  proof -
    have "\<forall>c\<in>set (contacts ?s3). contact_id c \<noteq> contact_id ct"
      using assms(2) that(2) unfolding store_inv_def by fastforce
    then show ?thesis using inv_create_contact [OF that(1) i3] that(2) by simp
  qed
  show ?thesis
    using assms i3
    by (auto simp: signup_create_def Let_def fresh_id_def split: if_splits sum.splits prod.splits
        dest!: c intro!: inv_create_phone_change inv_create_email_change intro: inv_create_customer)
qed

lemma inv_update_steps [inv_rules]:
  "store_inv (snd cs) \<Longrightarrow> store_inv (snd (update_email_step r ct now cs))"
  "store_inv (snd cs) \<Longrightarrow> store_inv (snd (update_mobile_step r ct now cs))"
  by (auto simp: update_email_step_def update_mobile_step_def Let_def split: option.splits intro: inv_rules)

lemma inv_update_owner [inv_rules]: "update_owner r cu s = Inr s' \<Longrightarrow> store_inv s \<Longrightarrow> store_inv s'"
  by (rule inv_same) (auto simp: update_owner_def save_people_def split: option.splits if_splits)

lemma inv_customer_update [inv_rules]:
  assumes "customer_update r cu now s = (res, s')" "store_inv s"
  shows "store_inv s'"
proof (cases "get_contact s (username cu)")
  case None
  with assms show ?thesis by (simp add: customer_update_def)
next
  case (Some ct)
  obtain cu2 s2 where st: "update_mobile_step r ct now (update_email_step r ct now (cu, s)) = (cu2, s2)"
    by (metis prod.exhaust)
  have "store_inv s2"
    using inv_update_steps(2) [OF inv_update_steps(1), of "(cu, s)" r ct now r ct now] assms(2) st by simp
  with assms(1) Some st show ?thesis
    by (auto simp: customer_update_def split: sum.splits intro: inv_update_owner)
qed

lemma send_email_verification_frame:
  "contacts (db (snd (send_email_verification c now S))) = contacts (db S)
   \<and> next_id (db S) \<le> next_id (db (snd (send_email_verification c now S)))
   \<and> otp_temps (db (snd (send_email_verification c now S))) = otp_temps (db S)"
  by (simp add: send_email_verification_def Let_def fresh_id_def split: option.splits prod.splits)

lemma send_mobile_verification_code_frame:
  "contacts (db (snd (send_mobile_verification_code c now S))) = contacts (db S)
   \<and> next_id (db S) \<le> next_id (db (snd (send_mobile_verification_code c now S)))
   \<and> (\<forall>t\<in>set (otp_temps (db (snd (send_mobile_verification_code c now S)))).
        t \<in> set (otp_temps (db S)) \<or> ot_code t = otp_code)"
  by (simp add: send_mobile_verification_code_def Let_def fresh_id_def split: option.splits prod.splits)

lemma inv_run_job [inv_rules]: "store_inv (db S) \<Longrightarrow> store_inv (db (run_job jb now S))"
proof (cases jb)
  case (SendEmailVerification c)
  then show "store_inv (db S) \<Longrightarrow> ?thesis"
    using send_email_verification_frame [of c now S] by (simp add: run_job_def inv_same)
next
  case (SendMobileVerificationCode c)
  assume "store_inv (db S)"
  with SendMobileVerificationCode show ?thesis
    using send_mobile_verification_code_frame [of c now S]
    unfolding store_inv_def unique_contacts_def columns_prepped_def run_job_def by fastforce
qed

lemma refresh_token_db: "refresh_token cu now S = (p, S') \<Longrightarrow> db S' = db S"
  using refresh_token_frame by blast

lemma inv_verify_email:
  assumes "store_inv (db S)"
  shows "store_inv (db (snd (verify_email cfg i k now S)))"
proof -
  have a: "store_inv (save_customer cu (db S))" for cu using assms by (rule inv_save_customer)
  have b: "store_inv (delete_email_temps i (save_email_change e s))"
    if "apply_new_email cu v (save_customer cu (db S)) = Inr s" for cu v s e
    using inv_apply_new_email [OF that a] by (blast intro: inv_delete_email_temps inv_save_email_change)
  show ?thesis using assms a b
    by (auto simp: verify_email_def Let_def split: option.splits sum.splits prod.splits if_splits
        dest!: refresh_token_db)
qed

lemma inv_verify_mobile:
  assumes "store_inv (db S)"
  shows "store_inv (db (snd (verify_mobile cfg i c now S)))"
proof -
  have a: "store_inv (save_customer cu (delete_otp_temps i (db S)))" for cu
    using assms by (blast intro: inv_save_customer inv_delete_otp_temps)
  have b: "store_inv (save_phone_change e s)"
    if "apply_new_mobile cu v (save_customer cu (delete_otp_temps i (db S))) = Inr s" for cu v s e
    using inv_apply_new_mobile [OF that a] by (blast intro: inv_save_phone_change)
  show ?thesis using assms a b
    by (auto simp: verify_mobile_def Let_def split: option.splits sum.splits prod.splits if_splits list.splits
        dest!: refresh_token_db)
qed

lemma inv_signup: "store_inv (db S) \<Longrightarrow> store_inv (db (snd (signup r now S)))"
  by (auto simp: signup_def Let_def enqueue_def split: list.splits sum.splits prod.splits
      intro: inv_signup_create)

lemma inv_change_email: "store_inv (db S) \<Longrightarrow> store_inv (db (snd (change_email cfg i e now S)))"
  by (auto simp: change_email_def enqueue_def split: option.splits sum.splits list.splits if_splits
      intro: inv_save_contact)

lemma inv_change_mobile: "store_inv (db S) \<Longrightarrow> store_inv (db (snd (change_mobile i m now S)))"
  by (auto simp: change_mobile_def enqueue_def split: option.splits sum.splits list.splits if_splits
      intro: inv_save_contact)

lemma db_resend [simp]:
  "db (snd (resend_email cfg i now S)) = db S"
  "db (snd (resend_mobile_code cfg i now S)) = db S"
  by (simp_all add: resend_email_def resend_mobile_code_def split: option.splits if_splits)

lemma db_signin [simp]: "db (snd (signin cfg service r ip now S)) = db S"
proof -
  have "db (snd (signin_auth r k n now S)) = db S" for k n
    by (auto simp: signin_auth_def Let_def split: option.splits prod.splits dest!: refresh_token_db)
  then show ?thesis
    by (auto simp: signin_def signin_check_def Let_def split: sum.splits list.splits if_splits)
qed

lemma db_signout [simp]: "db (snd (signout h a now S)) = db S"
  by (simp add: signout_def authenticated_def split: option.splits list.splits sum.splits)

lemma db_token_refresh [simp]: "db (snd (token_refresh_view t now S)) = db S"
  by (simp add: token_refresh_view_def split: prod.splits sum.splits)

lemma inv_change_password: "store_inv (db S) \<Longrightarrow> store_inv (db (snd (change_password h i r now S)))"
  by (auto simp: change_password_def authenticated_def Let_def split: option.splits list.splits sum.splits
      intro: inv_save_customer)

lemma inv_update: "store_inv (db S) \<Longrightarrow> store_inv (db (snd (update h i r now S)))"
  by (auto simp: update_def authenticated_def Let_def enqueue_def
      split: option.splits sum.splits prod.splits list.splits intro: inv_customer_update)

lemma inv_handle: "store_inv (db S) \<Longrightarrow> store_inv (db (snd (handle cfg rq now S)))"
  by (cases rq) (simp_all add: inv_verify_email inv_verify_mobile inv_signup inv_change_email
      inv_change_mobile inv_change_password inv_update)

lemma inv_step: "step cfg S S' \<Longrightarrow> store_inv (db S) \<Longrightarrow> store_inv (db S')"
proof (induction rule: step.induct)
  case (request cfg S rq now)
  then show ?case by (rule inv_handle)
next
  case (worker jb S cfg now)
  then show ?case using inv_run_job [of "S\<lparr>jobs := remove1 jb (jobs S)\<rparr>" jb now] by simp
qed

lemma store_inv_init: "store_inv (db init_sys)"
  by (simp add: store_inv_def unique_contacts_def columns_prepped_def init_sys_def empty_store_def)

lemma reach_store_inv: "reach cfg S \<Longrightarrow> store_inv (db S)"
  by (induction rule: reach.induct) (auto intro: store_inv_init inv_step)

section \<open>Properties\<close>

text \<open>
  C28. Revocation is permanent: once a sign-out has blacklisted a refresh token, no later
  sequence of requests and worker jobs makes that token decode again, at any time.
\<close>

lemma revocation_permanent:
  assumes "signout h (ArgToken t) now S = (Inr (Response 205 d), S1)" "(step cfg)\<^sup>*\<^sup>* S1 S'"
  shows "decode_refresh t now' (jwt S') = Inl TokenError"
proof -
  have "jti t \<in> set (blacklisted (jwt S1))"
    using signout_success [OF assms(1)] blacklisted_in_blacklist by auto
  then show ?thesis
    using steps_blacklisted [OF assms(2)] decode_refresh_blacklisted by blast
qed

text \<open>
  C29. In every reachable state the UNIQUE constraints of Contact hold (contact ids are
  distinct and no email or mobile is held by two contacts) and every OTP ticket holds the
  code 1234. Every view and task preserves this, signup's row-by-row create included,
  because the database refuses a clashing save; the only writer of OTPTemp rows is
  send_mobile_verification_code, whose code is the constant, so any mobile verification
  accepts 1234.
\<close>

theorem reachable_store_invariant:
  "reach cfg S \<Longrightarrow> unique_contacts (db S) \<and> (\<forall>t\<in>set (otp_temps (db S)). ot_code t = 1234)"
  using reach_store_inv by (simp add: store_inv_def otp_code_def)

text \<open>
  C31. In every reachable state every failure counter in the cache is at most 4: the sign-in view writes the count it read plus one only after the lockout test passed on that count, deletes the counter on success, and no other view or task writes the cache.
\<close>

theorem reachable_failure_counter_bounded:
  "reach cfg S \<Longrightarrow> cache S k = Some (v, e) \<Longrightarrow> v \<le> 4"
proof (induction arbitrary: k v e rule: reach.induct)
  case (init cfg)
  then show ?case by (simp add: init_sys_def)
next
  case (step cfg S S')
  then show ?case using counters_step [OF step.hyps(2)] by blast
qed

text \<open>
  C32. The job queue always drains: from any state the worker alone reaches a state with no queued job, running every queued job once, front to back.
\<close>

theorem worker_drains_queue:
  "(step cfg)\<^sup>*\<^sup>* S (run_jobs (jobs S) now S) \<and> jobs (run_jobs (jobs S) now S) = []"
  by (rule run_jobs_steps) (rule refl)

end
