(* ===== verification/ContactIndex.thy ===== *)
theory ContactIndex
  imports Store
begin

text \<open>
  The identity store as the spec describes it: lookup by a unique field. The abstract
  view of the contact table is one finite map per unique column, from the value to the
  id of the contact holding it (\<open>contact_index\<close>); the abstract writes are the map
  updates of \<open>index_put\<close>. The row list with \<^verbatim>\<open>save()\<close> and \<^verbatim>\<open>create()\<close> of
  \<open>Store\<close> refines this map interface while the UNIQUE constraints hold, in the style
  of \<open>lookup (update a b m) = (lookup m)(a := Some b)\<close>.
\<close>

section \<open>The abstract index\<close>

text \<open>\<^verbatim>\<open>Contact.objects.get(email=v)\<close> (or \<^verbatim>\<open>mobile=v\<close>) read as a map to the contact id.\<close>

definition contact_index :: "(contact \<Rightarrow> string option) \<Rightarrow> contact list \<Rightarrow> string \<rightharpoonup> uuid" where
  "contact_index k cs v = map_option contact_id (find (\<lambda>c. k c = Some v) cs)"

text \<open>The abstract write: the contact \<open>i\<close> gives up its old value and takes the new one.\<close>

definition index_put :: "(string \<rightharpoonup> uuid) \<Rightarrow> uuid \<Rightarrow> string option \<Rightarrow> string option \<Rightarrow> string \<rightharpoonup> uuid" where
  "index_put m i old new =
     (let m' = (case old of None \<Rightarrow> m | Some ov \<Rightarrow> m(ov := None))
      in case new of None \<Rightarrow> m' | Some n \<Rightarrow> m'(n \<mapsto> i))"

text \<open>A column whose non-NULL values no two rows share.\<close>

definition key_unique :: "(contact \<Rightarrow> string option) \<Rightarrow> contact list \<Rightarrow> bool" where
  "key_unique k cs \<longleftrightarrow> (\<forall>c\<in>set cs. \<forall>d\<in>set cs. k c = k d \<and> k c \<noteq> None \<longrightarrow> c = d)"

section \<open>Lemmas\<close>

lemma unique_contacts_key:
  assumes "unique_contacts s" "k = email \<or> k = mobile"
  shows "key_unique k (contacts s)"
  using assms unique_contacts_same unfolding key_unique_def by (metis unique_contacts_def)

lemma contact_index_Some:
  "key_unique k cs \<Longrightarrow> c \<in> set cs \<Longrightarrow> k c = Some v \<Longrightarrow> contact_index k cs v = Some (contact_id c)"
proof -
  assume u: "key_unique k cs" and c: "c \<in> set cs" "k c = Some v"
  then obtain d where d: "find (\<lambda>c. k c = Some v) cs = Some d"
    by (cases "find (\<lambda>c. k c = Some v) cs") (auto simp: find_None_iff)
  then have "d \<in> set cs" "k d = Some v" by (auto simp: find_Some_iff)
  with u c have "d = c" unfolding key_unique_def by fastforce
  with d show ?thesis by (simp add: contact_index_def)
qed

lemma contact_index_None:
  "\<forall>c\<in>set cs. k c \<noteq> Some v \<Longrightarrow> contact_index k cs v = None"
  by (simp add: contact_index_def find_None_iff)

lemma index_put_apply:
  "index_put m i old new v = (if new = Some v then Some i else if old = Some v then None else m v)"
  by (auto simp: index_put_def Let_def split: option.splits)

lemma distinct_id_same:
  "distinct (map contact_id cs) \<Longrightarrow> c \<in> set cs \<Longrightarrow> d \<in> set cs \<Longrightarrow> contact_id c = contact_id d \<Longrightarrow> c = d"
  by (metis distinct_map inj_onD)

text \<open>The rows after a save: the saved row, and every other row unchanged.\<close>

lemma save_contact_set:
  assumes "unique_contacts s" "get_contact s (contact_id ct) = Some old" "save_contact ct s = Inr s'"
  shows "set (contacts s') = insert (prep_contact ct) {c \<in> set (contacts s). contact_id c \<noteq> contact_id ct}"
proof -
  have k: "contact_id (prep_contact ct) = contact_id ct" by (simp add: prep_contact_def)
  from assms(3) have cs': "contacts s' =
      map (\<lambda>c. if contact_id c = contact_id (prep_contact ct) then prep_contact ct else c) (contacts s)"
    by (auto simp: save_contact_def Let_def split: if_splits)
  have "old \<in> set (contacts s)" "contact_id old = contact_id ct"
    using assms(2) by (auto simp: get_contact_def find_Some_iff)
  then have "prep_contact ct \<in> set (contacts s')"
    unfolding cs' using update_key_mem [of old "contacts s" contact_id "prep_contact ct"] k by simp
  then show ?thesis unfolding cs' using k by auto
qed

lemma save_contact_index:
  assumes "unique_contacts s" "k = email \<or> k = mobile"
    and "get_contact s (contact_id ct) = Some old" "save_contact ct s = Inr s'"
  shows "contact_index k (contacts s') =
    index_put (contact_index k (contacts s)) (contact_id ct) (k old) (k (prep_contact ct))"
proof (rule ext)
  fix v
  let ?ct = "prep_contact ct" and ?cs = "contacts s" and ?cs' = "contacts s'"
  have ku: "key_unique k ?cs" by (rule unique_contacts_key [OF assms(1,2)])
  have ku': "key_unique k ?cs'" by (rule unique_contacts_key [OF save_contact_unique [OF assms(1,4)] assms(2)])
  have set': "set ?cs' = insert ?ct {c \<in> set ?cs. contact_id c \<noteq> contact_id ct}"
    by (rule save_contact_set [OF assms(1,3,4)])
  have old: "old \<in> set ?cs" "contact_id old = contact_id ct"
    using assms(3) by (auto simp: get_contact_def find_Some_iff)
  have dist: "distinct (map contact_id ?cs)" using assms(1) by (simp add: unique_contacts_def)
  have k: "contact_id ?ct = contact_id ct" by (simp add: prep_contact_def)
  show "contact_index k ?cs' v = index_put (contact_index k ?cs) (contact_id ct) (k old) (k ?ct) v"
  proof (cases "k ?ct = Some v")
    case True
    then show ?thesis using contact_index_Some [OF ku', of ?ct v] set' k by (simp add: index_put_apply)
  next
    case new: False
    show ?thesis
    proof (cases "k old = Some v")
      case True
      have "\<forall>c\<in>set ?cs'. k c \<noteq> Some v"
      proof
        fix c assume c: "c \<in> set ?cs'"
        show "k c \<noteq> Some v"
        proof
          assume kc: "k c = Some v"
          with c new set' have "c \<in> set ?cs" "contact_id c \<noteq> contact_id ct" by auto
          moreover have "c = old" using ku kc True old(1) \<open>c \<in> set ?cs\<close> unfolding key_unique_def by fastforce
          ultimately show False using old(2) by simp
        qed
      qed
      then show ?thesis using new True by (simp add: contact_index_None index_put_apply)
    next
      case False
      show ?thesis
      proof (cases "\<exists>c\<in>set ?cs. k c = Some v")
        case True
        then obtain c where c: "c \<in> set ?cs" "k c = Some v" by blast
        have "contact_id c \<noteq> contact_id ct"
          using distinct_id_same [OF dist c(1) old(1)] old(2) False c(2) by auto
        then have "c \<in> set ?cs'" using set' c(1) by simp
        then show ?thesis
          using contact_index_Some [OF ku' _ c(2)] contact_index_Some [OF ku c] new False
          by (simp add: index_put_apply)
      next
        case none: False
        then have "\<forall>c\<in>set ?cs'. k c \<noteq> Some v" using set' new by auto
        then show ?thesis using none new False by (simp add: contact_index_None index_put_apply)
      qed
    qed
  qed
qed

lemma find_append_split:
  "find P (xs @ ys) = (case find P xs of None \<Rightarrow> find P ys | Some x \<Rightarrow> Some x)"
  by (induction xs) auto

lemma create_contact_index:
  assumes "unique_contacts s" "k = email \<or> k = mobile"
    and "contact_id ct \<notin> contact_id ` set (contacts s)" "create_contact ct s = Inr s'"
  shows "contact_index k (contacts s') = index_put (contact_index k (contacts s)) (contact_id ct) None (k (prep_contact ct))"
proof (rule ext)
  fix v
  let ?ct = "prep_contact ct"
  from assms(4) have cs': "contacts s' = contacts s @ [?ct]" and nc: "\<not> contact_clash (contacts s) ?ct"
    by (auto simp: create_contact_def Let_def split: if_splits)
  have ku': "key_unique k (contacts s')"
    by (rule unique_contacts_key [OF create_contact_unique [OF assms(1,4,3)] assms(2)])
  have k: "contact_id ?ct = contact_id ct" by (simp add: prep_contact_def)
  show "contact_index k (contacts s') v = index_put (contact_index k (contacts s)) (contact_id ct) None (k ?ct) v"
  proof (cases "k ?ct = Some v")
    case True
    then show ?thesis using contact_index_Some [OF ku', of ?ct v] cs' k by (simp add: index_put_apply)
  next
    case False
    then show ?thesis using cs' by (simp add: contact_index_def index_put_apply find_append_split split: option.splits)
  qed
qed

section \<open>Properties\<close>

text \<open>
  C36. While the UNIQUE constraints of Contact hold, contact.save() refines the map interface of the identity store: after saving a contact, lookup by email and lookup by mobile are the old lookups with the contact's previous value removed and the saved value (after get_prep_value) mapped to the contact's id.
\<close>

theorem save_contact_refines_index:
  assumes "unique_contacts s" "get_contact s (contact_id ct) = Some old" "save_contact ct s = Inr s'"
  shows "contact_index email (contacts s') =
      index_put (contact_index email (contacts s)) (contact_id ct) (email old) (get_prep_value (email ct))
    \<and> contact_index mobile (contacts s') =
      index_put (contact_index mobile (contacts s)) (contact_id ct) (mobile old) (get_prep_value (mobile ct))"
  using save_contact_index [OF assms(1) _ assms(2,3), of email] save_contact_index [OF assms(1) _ assms(2,3), of mobile]
  by (simp add: prep_contact_def)

end
