(* ===== verification/SystemScenarios.thy ===== *)
theory SystemScenarios
  imports AccountScenarios System ContactIndex
begin

text \<open>
  Runs of the whole service: a registration on the empty service followed by the worker
  running the job it queued, and a sign-out followed by further requests.
\<close>

definition reg_sys1 :: sys where
  "reg_sys1 = snd (handle authentication_customer (SignupReq alias_request) 0 init_sys)"

definition reg_sys2 :: sys where
  "reg_sys2 = run_job (SendMobileVerificationCode 1) 10
     (reg_sys1\<lparr>jobs := remove1 (SendMobileVerificationCode 1) (jobs reg_sys1)\<rparr>)"

text \<open>A failed sign-in on the empty service: its counter is the only cache entry.\<close>

definition lock_sys :: sys where
  "lock_sys = snd (handle authentication_customer (SigninReq service_down wrong_signin demo_ip) 0 init_sys)"

text \<open>
  An account takeover: customer 2, signed in with its own access token, updates the email
  of customer 1; the worker runs the queued verification job; the link reaches the
  address customer 2 chose.
\<close>

definition hijack_sys1 :: sys where
  "hijack_sys1 = snd (update (Some other_access) 1 hijack_update 100 session_sys)"

definition hijack_sys2 :: sys where
  "hijack_sys2 = run_job (SendEmailVerification 10) 110 (hijack_sys1\<lparr>jobs := []\<rparr>)"

lemma alias_request_valid_empty: "signup_errors empty_store alias_request = []"
  by code_simp

lemma alias_request_valid_init: "signup_errors (db init_sys) alias_request = []"
  using alias_request_valid_empty by (simp add: init_sys_def)

lemma reg_sys1_jobs: "jobs reg_sys1 = [SendMobileVerificationCode 1]"
  unfolding reg_sys1_def handle.simps signup_def alias_request_valid_init
  by (simp add: init_sys_def empty_store_def
      signup_create_def Let_def fresh_id_def create_contact_def create_customer_def prep_contact_def
      contact_clash_def national_code_taken_def enqueue_def alias_request_def create_email_change_def
      create_phone_change_def)

lemma reach_reg_sys2: "reach authentication_customer reg_sys2"
proof -
  have r1: "reach authentication_customer reg_sys1"
    unfolding reg_sys1_def by (rule reach.step [OF reach.init step.request])
  show ?thesis
    unfolding reg_sys2_def by (rule reach.step [OF r1 step.worker]) (simp add: reg_sys1_jobs)
qed

lemma reg_sys2_otp:
  "otp_temps (db reg_sys2) = [\<lparr>ot_id = 5, ot_customer = 2, ot_code = 1234, ot_created_at = 10\<rparr>]"
  unfolding reg_sys2_def reg_sys1_def handle.simps signup_def alias_request_valid_init
  by (simp add: init_sys_def empty_store_def
      signup_create_def Let_def fresh_id_def create_contact_def create_customer_def prep_contact_def
      contact_clash_def national_code_taken_def enqueue_def alias_request_def create_email_change_def
      create_phone_change_def run_job_def send_mobile_verification_code_def get_contact_def
      contact_customer_def otp_code_def)

lemma reachable_store_invariant_witness:
  "reach authentication_customer reg_sys2 \<and> unique_contacts (db reg_sys2)
   \<and> \<lparr>ot_id = 5, ot_customer = 2, ot_code = 1234, ot_created_at = 10\<rparr> \<in> set (otp_temps (db reg_sys2))
   \<and> ot_code (hd (otp_temps (db reg_sys2))) = 1234"
  using reachable_store_invariant [OF reach_reg_sys2] reach_reg_sys2 reg_sys2_otp by simp

lemma demo_signout:
  "signout (Some demo_access) (ArgToken demo_refresh) 100 session_sys
     = (Inr (Response 205 (Detail ''Successfull log out.'')),
        session_sys\<lparr>jwt := blacklist demo_refresh (jwt session_sys)\<rparr>)"
  using demo_request_user(1)
  by (simp add: signout_def authenticated_def refresh_field_errors_def refresh_token_of_def
      decode_refresh_def session_defs)

lemma revocation_permanent_witness:
  "decode_refresh demo_refresh 300
     (jwt (snd (handle authentication_customer (TokenRefreshReq demo_refresh) 200
        (session_sys\<lparr>jwt := blacklist demo_refresh (jwt session_sys)\<rparr>)))) = Inl TokenError"
proof -
  have "(step authentication_customer)\<^sup>*\<^sup>* (session_sys\<lparr>jwt := blacklist demo_refresh (jwt session_sys)\<rparr>)
      (snd (handle authentication_customer (TokenRefreshReq demo_refresh) 200
        (session_sys\<lparr>jwt := blacklist demo_refresh (jwt session_sys)\<rparr>)))"
    by (rule r_into_rtranclp) (rule step.request)
  then show ?thesis using revocation_permanent [OF demo_signout] by blast
qed

lemma lock_sys_cache: "cache lock_sys demo_key = Some (1, 600)"
proof -
  have a: "authenticate (db init_sys) (si_email wrong_signin) (si_mobile wrong_signin) (signin_pw wrong_signin) = None"
    by (simp add: authenticate_def authenticate_contact_def init_sys_def empty_store_def wrong_signin_def)
  have c: "failure_count (auth_failure_key (login_username wrong_signin) demo_ip) 0 (cache init_sys) = 0"
    by (simp add: failure_count_def cache_get_def init_sys_def)
  show ?thesis
    using signin_fail_step [OF wrong_signin_valid demo_captcha_ok a c]
    by (simp add: lock_sys_def cache_set_def demo_key_def demo_login_username)
qed

lemma reachable_failure_counter_bounded_witness:
  "reach authentication_customer lock_sys \<and> cache lock_sys demo_key = Some (1, 600) \<and> (1::nat) \<le> 4"
proof -
  have r: "reach authentication_customer lock_sys"
    unfolding lock_sys_def by (rule reach.step [OF reach.init step.request])
  show ?thesis using reachable_failure_counter_bounded [OF r lock_sys_cache] r lock_sys_cache by simp
qed

lemma reg_sys2_contacts: "contacts (db reg_sys2) \<noteq> []"
  unfolding reg_sys2_def reg_sys1_def handle.simps signup_def alias_request_valid_init
  by (simp add: init_sys_def empty_store_def
      signup_create_def Let_def fresh_id_def create_contact_def create_customer_def prep_contact_def
      contact_clash_def national_code_taken_def enqueue_def alias_request_def create_email_change_def
      create_phone_change_def run_job_def send_mobile_verification_code_def get_contact_def
      contact_customer_def)

lemma page_size_one: "get_page_size (Some 1) = Some 1"
  by (simp add: get_page_size_def positive_int_def max_page_size_def)

lemma session_customers: "customers (db session_sys) = [active_customer, other_customer]"
  by (simp add: session_defs)

lemma list_page_bounded_witness:
  "list_customers (Some demo_access) (Some 1) (PageNumber 2) 100 session_sys
     = (Inr (Response 200 (PagedCustomers [customer_serializer other_customer] 2)), session_sys)
   \<and> length [customer_serializer other_customer] \<le> max_page_size"
proof -
  have n: "(2::nat) \<le> num_pages (length (customers (db session_sys))) 1"
    by (simp add: session_customers num_pages_def)
  have l: "list_customers (Some demo_access) (Some 1) (PageNumber 2) 100 session_sys
     = (Inr (Response 200 (PagedCustomers [customer_serializer other_customer] 2)), session_sys)"
    using list_customers_paged [OF demo_request_user(1) page_size_one _ n]
    by (simp add: session_customers page_slice_def)
  show ?thesis using list_page_bounded [OF l] l by simp
qed

lemma list_discloses_all_customers_witness:
  "listed_rows (list_customers (Some demo_access) None PageInvalid 100 session_sys)
     = [customer_serializer active_customer, customer_serializer other_customer]
   \<and> request_user (Some demo_access) 100 session_sys = Some active_customer
   \<and> customer_id other_customer \<noteq> customer_id active_customer"
  using list_discloses_all_customers [OF demo_request_user(1), of PageInvalid] demo_request_user(1)
  by (simp add: session_customers other_customer_def active_customer_def demo_customer_def)

lemma hijack_valid: "update_errors (db session_sys) hijack_update = []"
  by code_simp

lemma hijack_sys1_eq:
  "hijack_sys1 = session_sys\<lparr>db := (db session_sys)\<lparr>
      customers := [active_customer\<lparr>email_verify := None\<rparr>, other_customer],
      email_changes := [demo_email_change, \<lparr>ec_id = 30, ec_customer = 1, old_email = Some ''a@x.io'',
        new_email = Some ''m@evil.io'', ec_created_at = 100\<rparr>],
      next_id := 31\<rparr>,
      jobs := [SendEmailVerification 10]\<rparr>"
  unfolding hijack_sys1_def update_def authenticated_Some [OF demo_request_user(2)] hijack_valid
  by (simp add: customer_update_def update_email_step_def update_mobile_step_def update_owner_def
      get_people_def save_people_def create_email_change_def fresh_id_def save_customer_def
      get_customer_def get_contact_def latest_email_change_def latest_phone_change_def enqueue_def
      get_prep_value_def session_defs demo_defs Let_def)

lemma hijack_sys2_eq:
  "hijack_sys2 = hijack_sys1\<lparr>jobs := [], db := (db hijack_sys1)\<lparr>
      email_temps := [demo_temp, \<lparr>et_id = 31, et_customer = 1, et_email = ''a@x.io'', et_created_at = 110\<rparr>],
      next_id := 32\<rparr>,
      outbox := [\<lparr>mail_to = ''m@evil.io'', mail_from = [], mail_template = (''customer'', ''email_verification''),
                 mail_customer = 1, mail_temp = 31\<rparr>]\<rparr>"
  unfolding hijack_sys2_def hijack_sys1_eq
  by (simp add: run_job_def send_email_verification_def send_email_def default_from_email_def
      fresh_id_def get_contact_def contact_customer_def latest_email_change_def session_defs demo_defs Let_def)

lemma hijack_verify:
  "\<exists>r a S3. verify_email authentication_customer 1 31 150 hijack_sys2 = (Inr (Response 200 (TokenPair r a)), S3)
     \<and> token_user r = 1 \<and> get_contact (db S3) 10 = Some (demo_contact\<lparr>email := Some ''m@evil.io''\<rparr>)"
  unfolding hijack_sys2_eq hijack_sys1_eq
  by (simp add: view_defs session_defs demo_defs get_prep_value_def Let_def)

lemma save_contact_refines_index_witness:
  "\<exists>s'. save_contact (demo_contact\<lparr>email := Some ''z@x.io''\<rparr>) demo_store = Inr s'
     \<and> contact_index email (contacts s') ''z@x.io'' = Some 10
     \<and> contact_index email (contacts s') ''a@x.io'' = None
     \<and> contact_index email (contacts s') ''b@x.io'' = Some 11
     \<and> contact_index mobile (contacts s') ''09123456789'' = Some 10"
proof -
  obtain s' where s: "save_contact (demo_contact\<lparr>email := Some ''z@x.io''\<rparr>) demo_store = Inr s'"
    by (simp add: save_contact_def prep_contact_def contact_clash_def get_prep_value_def demo_defs)
  have u: "unique_contacts demo_store" by (rule demo_unique_contacts)
  have g: "get_contact demo_store (contact_id (demo_contact\<lparr>email := Some ''z@x.io''\<rparr>)) = Some demo_contact"
    by (simp add: get_contact_def demo_defs)
  have e: "contact_index email (contacts demo_store) ''b@x.io'' = Some 11"
    "contact_index mobile (contacts demo_store) ''09123456789'' = Some 10"
    by (simp_all add: contact_index_def demo_defs)
  show ?thesis
    using save_contact_refines_index [OF u g s] s e
    by (simp add: index_put_apply get_prep_value_def demo_contact_def)
qed

end
