(* ===== verification/Spec2Isabelle.thy ===== *)
theory Spec2Isabelle
  imports NationalCode SystemScenarios
begin

text \<open>
  Verification library of the customer authentication service of \<^verbatim>\<open>src/authentication\<close>,
  a Django REST Framework project. Customers register with an email or an Iranian mobile
  number, confirm each channel (an emailed link, an OTP code), may change them, sign in
  with a failure counter and optional recaptcha, receive JWT pairs from
  \<^verbatim>\<open>rest_framework_simplejwt\<close>, sign out by blacklisting the refresh token, change their
  password, update their profile and list customers page by page. Views queue celery
  tasks that write verification tickets and send mails; the Django cache keeps the sign-in
  failure counters.

  \<^bold>\<open>Model.\<close> A shallow embedding. Every view is a function
  \<open>settings \<Rightarrow> inputs \<Rightarrow> time \<Rightarrow> sys \<Rightarrow> (exn + response) \<times> sys\<close>: the state
  \<open>sys\<close> (theory \<open>Tasks\<close>) holds the database, the celery queue, the outbox of sent
  mails, the token store and the cache; an uncaught exception is the value \<open>Inl e\<close>,
  returned with the state as it is after the rows already saved (the database autocommits
  and the views use no transaction). Tables are lists of records in insertion order; a new
  row gets the next id of a counter in the store; \<^verbatim>\<open>.latest("created_at")\<close> takes the
  last-inserted row of greatest time. Celery's \<^verbatim>\<open>.delay()\<close> appends a job, which the
  worker runs at any later time. Times are integers (seconds) and arbitrary per request.

  \<^bold>\<open>Theories and what they model.\<close>
  \<^item> \<open>Prelude\<close>: times, ids, the exceptions (\<open>exn\<close>), the settings of
    \<^verbatim>\<open>settings/apps_settings.py\<close> and \<^verbatim>\<open>base_settings.py\<close>, \<open>newest\<close> for
    \<^verbatim>\<open>.latest\<close> with its reference reading \<open>latest_ref\<close>, character classes; generic
    lemmas in the collection \<open>row_simps\<close>.
  \<^item> \<open>NationalCode\<close>: \<^verbatim>\<open>validate_national_code\<close> (\<^verbatim>\<open>apps/customer/validators.py\<close>);
    C1--C4 (the check digit is determined by the first nine digits, it detects a changed
    check digit and most single-digit errors but not all, Python's \<^verbatim>\<open>$\<close> accepts a
    final newline).
  \<^item> \<open>ModelFields\<close>: the field validators of \<^verbatim>\<open>apps/customer/fields.py\<close>,
    \<^verbatim>\<open>models.py\<close> and the serializers.
  \<^item> \<open>Store\<close>: the models of \<^verbatim>\<open>apps/customer/models.py\<close> as records, the queries
    and \<^verbatim>\<open>save()\<close>/\<^verbatim>\<open>create()\<close> with the UNIQUE constraints of Contact; \<open>newest\<close> is shown equal to its
    reference reading \<open>latest_ref\<close> (lemma \<open>newest_latest_ref\<close>).
  \<^item> \<open>ContactIndex\<close>: the contract of the Contact table's UNIQUE columns as an
    abstract map from an email or a mobile to the contact id (\<open>contact_index\<close>, the
    lookup \<^verbatim>\<open>Contact.objects.get(email=...)\<close> of \<^verbatim>\<open>authentication.py\<close>) and its
    update \<open>index_put\<close>; C36 (refinement: while the constraints hold, \<^verbatim>\<open>save()\<close> of a
    contact changes each index as the map update that drops the old value and binds the
    new one).
  \<^item> \<open>Tokens\<close>, \<open>Cache\<close>, \<open>Pagination\<close>: simplejwt, the cache, and DRF's
    \<^verbatim>\<open>PageNumberPagination\<close> with Django's \<^verbatim>\<open>Paginator\<close> under
    \<^verbatim>\<open>HeaderPagination\<close> (\<^verbatim>\<open>paginations.py\<close>); the libraries are modelled from the
    spec and their documented behaviour.
  \<^item> \<open>Tasks\<close>: \<^verbatim>\<open>send_email\<close> (\<^verbatim>\<open>utils.py\<close>), \<^verbatim>\<open>send_email_verification\<close> and
    \<^verbatim>\<open>send_mobile_verification_code\<close> (\<^verbatim>\<open>apps/customer/tasks.py\<close>), \<open>run_job\<close>.
  \<^item> \<open>Verification\<close>: the six verification views of \<^verbatim>\<open>CustomerViewSet\<close>
    (\<^verbatim>\<open>apps/customer/views.py\<close>), guards and early returns in source order; C5--C15
    (confirmation, expiry, the resend cooldown, the change limit, the missing-field
    \<^verbatim>\<open>KeyError\<close>, the unchecked \<^verbatim>\<open>[0]\<close> index, the constant OTP code, partial commits).
  \<^item> \<open>Signup\<close>, \<open>Scenarios\<close>: \<^verbatim>\<open>SignupSerializer\<close>, \<^verbatim>\<open>create_customer\<close> and the
    signup view; C16--C18 (registration, the non-transactional create, mobile aliases that
    pass the uniqueness check).
  \<^item> \<open>Signin\<close>, \<open>SigninScenarios\<close>: \<^verbatim>\<open>SigninSerializer\<close>,
    \<^verbatim>\<open>EmailMobileAuthentication\<close>, \<^verbatim>\<open>validate_recaptcha\<close> and the signin view, split
    at its cache read into \<open>signin_check\<close> and \<open>signin_auth\<close> so that two interleaved
    requests can be stated; C19--C23 (lockout after four failures, counter reset, the
    sliding timeout, the lost-update race, recaptcha failing closed on every answer whose
    \<^verbatim>\<open>"success"\<close> is not truthy in Python's sense, \<open>py_truthy\<close> over \<open>json\<close>).
  \<^item> \<open>Account\<close>, \<open>Profile\<close>, \<open>AccountScenarios\<close>: request authentication
    (\<^verbatim>\<open>JWTAuthentication\<close> and \<^verbatim>\<open>IsAuthenticated\<close>), signout, change_password and
    the profile update; C24--C27 and C30 (revocation with the access token outliving it,
    the password saved before the refresh token is checked, the update that keeps
    \<^verbatim>\<open>is_active\<close> and lets any signed-in customer edit another, the
    sign-in/authentication round trip).
  \<^item> \<open>ReadViews\<close>: the list view over the pagination, its rows rendered by
    \<^verbatim>\<open>CustomerSerializer\<close> (\<open>customer_serializer\<close>, in \<open>Tasks\<close>), \<^verbatim>\<open>Info\<close> and \<^verbatim>\<open>Config\<close>
    (\<^verbatim>\<open>src/authentication/views.py\<close>); C33--C34 (a page holds at most 100 rows
    whatever page size is asked; with no ownership filter, every authenticated customer is
    answered every customer's row). \<^verbatim>\<open>Customer.objects.all()\<close> has no ordering (no
    \<^verbatim>\<open>Meta.ordering\<close>, no \<^verbatim>\<open>order_by\<close>), so the database may return the rows in any
    order, and in another order for each page's query; the model reads the table in
    insertion order for every query, an assumption C33 depends on for the rows being a
    contiguous run.
  \<^item> \<open>System\<close>, \<open>SystemScenarios\<close>: the URL configuration as the datatype
    \<open>request\<close> and \<open>handle\<close>, the step relation (one request or one queued job, in any
    order) and the reachable states; C28, C29, C31 and C32 by rule induction over
    \<open>reach\<close>: revocation is permanent, Contact's UNIQUE constraints and the constant
    OTP code hold together in every reachable state, every failure counter stays at
    most 4, and the worker drains the queue (no task queues another job).
  \<^item> This theory: C35, the components composed: the profile update, the mail task and the
    email confirmation together hand one customer's account to another.

  \<^bold>\<open>Witnesses.\<close> Every claim with a hypothesis is applied in a \<open>_witness\<close> lemma to a
  concrete state of the scenario theories, its hypotheses discharged by \<open>simp\<close> or
  \<open>code_simp\<close>. No definition uses fuel or a bound: views and tasks run straight-line
  code, and the only loops are over finite lists (\<open>signin_attempts\<close>, \<open>run_jobs\<close>,
  \<open>send_email\<close>'s recipients, the pages of a listing), so every definition is total by
  structural recursion. The celery worker itself (\<^verbatim>\<open>celery.py\<close> only configures the
  app) is the worker case of the step relation, one queued job at a time.

  \<^bold>\<open>Not modelled.\<close> Template rendering and SMTP delivery inside \<^verbatim>\<open>send_email\<close> (I/O: a
  sent message is an outbox entry); swagger/redoc and \<^verbatim>\<open>token/verify/\<close> (library views
  without state); the rendering by \<^verbatim>\<open>CustomerDetailSerializer\<close> of the 201 bodies of
  \<^verbatim>\<open>signup\<close> and \<^verbatim>\<open>update\<close>: the body is the value \<open>CustomerData\<close> naming the customer,
  and the model takes the rendering (contact, \<^verbatim>\<open>obj.people.all()[0]\<close>, the newest change
  rows) to succeed, as the code expects; no claim reads more of the body than the status
  and the customer. The \<^verbatim>\<open>me\<close> view, which only renders that serializer and changes
  nothing, is not modelled; the
  retrieve/destroy actions (\<^verbatim>\<open>http_method_names\<close> excludes delete); Company owners
  (signup creates none); the \<^verbatim>\<open>updated_at\<close> stamp of \<^verbatim>\<open>EntityMixin.save\<close> and the
  \<^verbatim>\<open>deleted_at\<close> column (no view, serializer or query of the service reads them, and
  soft delete is commented out), so the Contact and Customer records omit both; a recaptcha answer that is not a
  JSON object (the siteverify API always answers one) and a float literal that
  underflows to \<^verbatim>\<open>0.0\<close>; the random OTP draw (commented out in the source); whitespace
  trimming of DRF's \<^verbatim>\<open>CharField\<close> (inputs are taken as trimmed); Python's Unicode
  \<^verbatim>\<open>\<backslash>d\<close>, read here as the ASCII digits; password hashing, taken as an injective
  function; the HTTP call of the recaptcha check, a parameter of the view. Concurrency is
  modelled at the granularity of whole requests: the step relation runs each request,
  sign-in included, as one step. The sign-in view is also split at its cache read into
  \<open>signin_check\<close> and \<open>signin_auth\<close>, and C22 states the lost update on those two
  phases directly; that interleaving is not a trace of the step relation, while the bound
  of C31 holds for it too (each write is read plus one after the test on the read).
\<close>

text \<open>
  C35. The missing ownership check of the update view composes into an account takeover:
  customer 2, authenticated with its own access token, sets the email of customer 1 to an
  address it controls; the worker then mails customer 1's verification link to that
  address, and confirming the link answers with a token pair for customer 1 and makes the
  chosen address customer 1's email.
\<close>

theorem update_takes_over_account:
  "request_user (Some other_access) 100 session_sys = Some other_customer
   \<and> customer_id other_customer \<noteq> 1
   \<and> (step authentication_customer)\<^sup>*\<^sup>* session_sys hijack_sys2
   \<and> outbox hijack_sys2 = [\<lparr>mail_to = ''m@evil.io'', mail_from = [],
        mail_template = (''customer'', ''email_verification''), mail_customer = 1, mail_temp = 31\<rparr>]
   \<and> (\<exists>r a S3. verify_email authentication_customer 1 31 150 hijack_sys2
          = (Inr (Response 200 (TokenPair r a)), S3)
        \<and> token_user r = 1 \<and> get_contact (db S3) 10 = Some (demo_contact\<lparr>email := Some ''m@evil.io''\<rparr>))"
proof -
  have s1: "step authentication_customer session_sys hijack_sys1"
    unfolding hijack_sys1_def
    using step.request [of authentication_customer session_sys "UpdateReq (Some other_access) 1 hijack_update" 100]
    by simp
  have s2: "step authentication_customer hijack_sys1 hijack_sys2"
  proof -
    have "SendEmailVerification 10 \<in> set (jobs hijack_sys1)" by (simp add: hijack_sys1_eq)
    from step.worker [OF this, of authentication_customer 110] show ?thesis
      by (simp add: hijack_sys2_def hijack_sys1_eq)
  qed
  have "(step authentication_customer)\<^sup>*\<^sup>* session_sys hijack_sys2"
    using s1 s2 by (meson r_into_rtranclp rtranclp.rtrancl_into_rtrancl)
  moreover have "customer_id other_customer \<noteq> 1" by (simp add: other_customer_def)
  moreover have "outbox hijack_sys2 = [\<lparr>mail_to = ''m@evil.io'', mail_from = [],
        mail_template = (''customer'', ''email_verification''), mail_customer = 1, mail_temp = 31\<rparr>]"
    by (simp add: hijack_sys2_eq)
  ultimately show ?thesis using demo_request_user(2) hijack_verify by blast
qed

end
